theory Spec2Isabelle
  imports Main "HOL-Library.Monad_Syntax"
begin

section \<open>JavaScript values\<close>

text \<open>
  The indexer's responses are parsed JSON, and \<^verbatim>\<open>parser.ts\<close> and \<^verbatim>\<open>syncer.ts\<close> read message
  bodies as \<^verbatim>\<open>any\<close>.  A message is therefore a JavaScript value.  Numbers are the integers
  (fractions, \<^verbatim>\<open>NaN\<close> and the infinities are left out); strings are byte strings.

  A function that can throw returns an \<open>option\<close>: \<open>None\<close> is a thrown exception (for the
  operations below always a \<^verbatim>\<open>TypeError\<close>), \<open>Some v\<close> a normal return.
\<close>

datatype jsval =
    JUndef
  | JNull
  | JBool bool
  | JNum int
  | JStr string
  | JArr "jsval list"
  | JObj "(string \<times> jsval) list"

fun truthy :: "jsval \<Rightarrow> bool" where
  "truthy JUndef = False"
| "truthy JNull = False"
| "truthy (JBool b) = b"
| "truthy (JNum n) = (n \<noteq> 0)"
| "truthy (JStr s) = (s \<noteq> [])"
| "truthy (JArr xs) = True"
| "truthy (JObj kvs) = True"

fun nullish :: "jsval \<Rightarrow> bool" where
  "nullish JUndef = True"
| "nullish JNull = True"
| "nullish v = False"

text \<open>
  \<^verbatim>\<open>v?.k\<close> for a field name \<open>k\<close> (never an array index or a built-in member): an own
  property of an object, \<^verbatim>\<open>undefined\<close> on everything else.
\<close>

fun field :: "jsval \<Rightarrow> string \<Rightarrow> jsval" where
  "field (JObj kvs) k = (case map_of kvs k of None \<Rightarrow> JUndef | Some v \<Rightarrow> v)"
| "field v k = JUndef"

text \<open>\<^verbatim>\<open>v.k\<close>: reading a property of \<^verbatim>\<open>undefined\<close> or \<^verbatim>\<open>null\<close> throws.\<close>

definition get_prop :: "jsval \<Rightarrow> string \<Rightarrow> jsval option" where
  "get_prop v k = (if nullish v then None else Some (field v k))"

text \<open>\<^verbatim>\<open>a || b\<close>, and a chain \<^verbatim>\<open>a || b || ... || z\<close>, which yields its last operand when
  none is truthy.\<close>

definition or_js :: "jsval \<Rightarrow> jsval \<Rightarrow> jsval" where
  "or_js a b = (if truthy a then a else b)"

fun or_chain :: "jsval list \<Rightarrow> jsval" where
  "or_chain [] = JUndef"
| "or_chain [x] = x"
| "or_chain (x # y # ys) = (if truthy x then x else or_chain (y # ys))"

subsection \<open>Decimal numerals\<close>

definition is_digit :: "char \<Rightarrow> bool" where
  "is_digit c = (48 \<le> (of_char c :: nat) \<and> (of_char c :: nat) \<le> 57)"

definition is_alpha :: "char \<Rightarrow> bool" where
  "is_alpha c = ((65 \<le> (of_char c :: nat) \<and> (of_char c :: nat) \<le> 90) \<or>
                 (97 \<le> (of_char c :: nat) \<and> (of_char c :: nat) \<le> 122))"

definition digit_char :: "nat \<Rightarrow> char" where
  "digit_char d = char_of (48 + d)"

text \<open>\<^verbatim>\<open>BigInt.prototype.toString()\<close> of a non-negative value.\<close>

function show_nat :: "nat \<Rightarrow> string" where
  "show_nat n = (if n < 10 then [digit_char n] else show_nat (n div 10) @ [digit_char (n mod 10)])"
  by pat_completeness auto
termination
  by (relation "measure id") auto

declare show_nat.simps [simp del]

definition show_int :: "int \<Rightarrow> string" where
  "show_int i = (if i < 0 then CHR ''-'' # show_nat (nat (- i)) else show_nat (nat i))"

text \<open>\<^verbatim>\<open>BigInt(s)\<close> for a string of decimal digits (what \<^verbatim>\<open>\d+\<close> captures).\<close>

definition digits_to_nat :: "string \<Rightarrow> nat" where
  "digits_to_nat s = foldl (\<lambda>acc c. 10 * acc + ((of_char c :: nat) - 48)) 0 s"

subsection \<open>Strings\<close>

text \<open>\<^verbatim>\<open>s.startsWith(t)\<close> and \<^verbatim>\<open>s.includes(t)\<close>.\<close>

definition starts_with :: "string \<Rightarrow> string \<Rightarrow> bool" where
  "starts_with s t = (take (length t) s = t)"

fun str_includes :: "string \<Rightarrow> string \<Rightarrow> bool" where
  "str_includes [] t = (t = [])"
| "str_includes (c # s) t = (starts_with (c # s) t \<or> str_includes s t)"

text \<open>\<^verbatim>\<open>s.split(d)\<close> for a one-character separator; the result is never empty.\<close>

fun split_on :: "char \<Rightarrow> string \<Rightarrow> string list" where
  "split_on d [] = [[]]"
| "split_on d (c # s) =
     (if c = d then [] # split_on d s
      else (case split_on d s of [] \<Rightarrow> [[c]] | p # ps \<Rightarrow> (c # p) # ps))"

text \<open>\<^verbatim>\<open>s.split(".").pop()\<close>.\<close>

definition last_segment :: "string \<Rightarrow> string" where
  "last_segment s = last (split_on (CHR ''.'') s)"

text \<open>\<^verbatim>\<open>s.replace(pat, "")\<close> with a string pattern: the first occurrence is removed.\<close>

fun remove_first :: "string \<Rightarrow> string \<Rightarrow> string" where
  "remove_first pat [] = []"
| "remove_first pat (c # s) =
     (if starts_with (c # s) pat then drop (length pat) (c # s) else c # remove_first pat s)"

text \<open>\<^verbatim>\<open>s.toLowerCase()\<close> on the ASCII letters.  No other character lower-cases to a letter
  of the three keywords the result is searched for.\<close>

definition lower_char :: "char \<Rightarrow> char" where
  "lower_char c = (if 65 \<le> (of_char c :: nat) \<and> (of_char c :: nat) \<le> 90
                   then char_of ((of_char c :: nat) + 32) else c)"

definition to_lower :: "string \<Rightarrow> string" where
  "to_lower s = map lower_char s"

text \<open>\<^verbatim>\<open>join\<close> of strings with a separator.\<close>

fun join_with :: "string \<Rightarrow> string list \<Rightarrow> string" where
  "join_with sep [] = []"
| "join_with sep [x] = x"
| "join_with sep (x # y # ys) = x @ sep @ join_with sep (y # ys)"

text \<open>
  The first match of \<^verbatim>\<open>/(\d+)([a-zA-Z]+)/\<close> in a string, as its two groups.  A run of
  digits matches when a letter follows it directly; otherwise no start inside the run
  matches either, and the search goes on behind the run.
\<close>

function coin_match :: "string \<Rightarrow> (string \<times> string) option" where
  "coin_match s =
     (case dropWhile (\<lambda>c. \<not> is_digit c) s of
        [] \<Rightarrow> None
      | d # ds \<Rightarrow>
          (let rest = dropWhile is_digit ds;
               letters = takeWhile is_alpha rest
           in if letters \<noteq> [] then Some (d # takeWhile is_digit ds, letters)
              else coin_match rest))"
  by pat_completeness auto
termination
proof (relation "measure length", goal_cases)
  case 1
  show ?case by simp
next
  case (2 s d ds rest letters)
  have "length (dropWhile is_digit ds) \<le> length ds"
    by (rule length_dropWhile_le)
  moreover have "length (d # ds) \<le> length s"
    using 2(1) length_dropWhile_le [of "\<lambda>c. \<not> is_digit c" s] by simp
  ultimately show ?case using 2(2) by simp
qed

declare coin_match.simps [simp del]

text \<open>The match of the anchored \<^verbatim>\<open>/^(\d+)([a-zA-Z]+)$/\<close>.\<close>

definition coin_match_exact :: "string \<Rightarrow> (string \<times> string) option" where
  "coin_match_exact s =
     (let digits = takeWhile is_digit s; letters = dropWhile is_digit s
      in if digits \<noteq> [] \<and> letters \<noteq> [] \<and> list_all is_alpha letters
         then Some (digits, letters) else None)"

subsection \<open>Library behaviour\<close>

text \<open>
  Library behaviour the code relies on is a parameter of the model:
  \<^item> \<open>decodePacket d\<close> is \<^verbatim>\<open>JSON.parse(Buffer.from(d, 'base64').toString('utf-8'))\<close>,
    \<open>None\<close> when either call throws;
  \<^item> \<open>stringToIndex s\<close> is \<open>Some i\<close> when \<^verbatim>\<open>Number(s)\<close> is the non-negative integer \<open>i\<close>,
    and \<open>None\<close> for every other number;
  \<^item> \<open>inheritedMember k\<close> is the source text of \<^verbatim>\<open>Object.prototype[k]\<close> when \<open>k\<close> names a
    member every object inherits (\<^verbatim>\<open>constructor\<close>, \<^verbatim>\<open>toString\<close>, ...), and \<open>None\<close> otherwise;
  \<^item> \<open>numberToString n\<close> is the string of the number \<open>n\<close> when \<open>n\<close> is not a safe integer
    (beyond \<open>2 ^ 53 - 1\<close> in magnitude): there the digits are those of the nearest
    floating-point value, rounded to the shortest that identify it, and in exponent form
    from \<^verbatim>\<open>1e21\<close>.
\<close>

record builtins =
  decodePacket :: "jsval \<Rightarrow> jsval option"
  stringToIndex :: "string \<Rightarrow> nat option"
  inheritedMember :: "string \<Rightarrow> string option"
  numberToString :: "int \<Rightarrow> string"

subsection \<open>Conversions and method calls\<close>

text \<open>
  The string a template literal \<^verbatim>\<open>`${v}`\<close> inserts.  An array is joined with commas, its
  \<^verbatim>\<open>null\<close> and \<^verbatim>\<open>undefined\<close> elements as empty strings.  An object is
  \<^verbatim>\<open>[object Object]\<close>, unless it has a property \<^verbatim>\<open>toString\<close> of its own: parsed JSON
  holds no function, so the conversion finds nothing to call and throws.  A number
  that is a safe integer is its decimal digits.
\<close>

fun to_string :: "builtins \<Rightarrow> jsval \<Rightarrow> string option"
  and join_elems :: "builtins \<Rightarrow> jsval list \<Rightarrow> string option" where
  "to_string bi JUndef = Some ''undefined''"
| "to_string bi JNull = Some ''null''"
| "to_string bi (JBool b) = Some (if b then ''true'' else ''false'')"
| "to_string bi (JNum n) =
     Some (if \<bar>n\<bar> \<le> 9007199254740991 then show_int n else numberToString bi n)"
| "to_string bi (JStr s) = Some s"
| "to_string bi (JArr xs) = join_elems bi xs"
| "to_string bi (JObj kvs) =
     (if map_of kvs ''toString'' = None then Some ''[object Object]'' else None)"
| "join_elems bi [] = Some []"
| "join_elems bi (x # xs) =
     do {
       a \<leftarrow> (if nullish x then Some [] else to_string bi x);
       b \<leftarrow> join_elems bi xs;
       Some (if xs = [] then a else a @ '','' @ b)
     }"

text \<open>\<^verbatim>\<open>v.includes(t)\<close> on a value that is not nullish: a substring test on a string,
  a membership test on an array, and a call of \<^verbatim>\<open>undefined\<close> (a throw) on anything else.\<close>

fun js_includes :: "jsval \<Rightarrow> string \<Rightarrow> bool option" where
  "js_includes (JStr s) t = Some (str_includes s t)"
| "js_includes (JArr xs) t = Some (JStr t \<in> set xs)"
| "js_includes v t = None"

text \<open>\<^verbatim>\<open>v.split(".").pop()\<close>: only a string has \<^verbatim>\<open>split\<close>.\<close>

fun js_last_segment :: "jsval \<Rightarrow> string option" where
  "js_last_segment (JStr s) = Some (last_segment s)"
| "js_last_segment v = None"

text \<open>\<^verbatim>\<open>v[0]\<close> on a value that is not nullish.\<close>

fun index0 :: "jsval \<Rightarrow> jsval" where
  "index0 (JArr xs) = (case xs of [] \<Rightarrow> JUndef | x # _ \<Rightarrow> x)"
| "index0 (JStr s) = (case s of [] \<Rightarrow> JUndef | c # _ \<Rightarrow> JStr [c])"
| "index0 (JObj kvs) = field (JObj kvs) ''0''"
| "index0 v = JUndef"

text \<open>\<^verbatim>\<open>Array.isArray(v)\<close>.\<close>

fun is_array :: "jsval \<Rightarrow> bool" where
  "is_array (JArr xs) = True"
| "is_array v = False"

text \<open>\<^verbatim>\<open>xs.find(f)\<close> and \<^verbatim>\<open>xs.map(f)\<close> with a callback that can throw.\<close>

fun find_js :: "('a \<Rightarrow> bool option) \<Rightarrow> 'a list \<Rightarrow> 'a option option" where
  "find_js f [] = Some None"
| "find_js f (x # xs) = do { b \<leftarrow> f x; if b then Some (Some x) else find_js f xs }"

definition map_js :: "('a \<Rightarrow> 'b option) \<Rightarrow> 'a list \<Rightarrow> 'b list option" where
  "map_js f xs = those (map f xs)"

text \<open>\<^verbatim>\<open>[...new Set(xs)]\<close>: the distinct elements in the order of their first occurrence.\<close>

definition unique_js :: "'a list \<Rightarrow> 'a list" where
  "unique_js xs = rev (remdups (rev xs))"

text \<open>\<^verbatim>\<open>xs[0]\<close> of an array.\<close>

definition first_js :: "jsval list \<Rightarrow> jsval" where
  "first_js xs = (case xs of [] \<Rightarrow> JUndef | x # _ \<Rightarrow> x)"

section \<open>The transaction envelope\<close>

text \<open>
  \<^verbatim>\<open>parser.ts\<close> declares the shapes it reads: \<^verbatim>\<open>RawMessage\<close> (an object with any fields),
  \<^verbatim>\<open>RawLog\<close>, \<^verbatim>\<open>Event\<close> and \<^verbatim>\<open>EventAttribute\<close>.  The envelope follows them: events
  and logs are typed, messages are JavaScript values.  A field the code tests for
  presence is an \<open>option\<close>.

  In \<open>TxResponse\<close>, \<open>tx\<close> is \<open>None\<close> when the envelope has no \<^verbatim>\<open>tx\<close>, and otherwise the
  array \<^verbatim>\<open>tx.body?.messages || []\<close>; \<open>height\<close> is the value of the decimal string the
  indexer sends, \<open>None\<close> when it is absent or empty; \<^verbatim>\<open>timestamp\<close> is not modelled.
\<close>

record EventAttribute =
  attr_key :: string
  attr_value :: string

record Event =
  ev_type :: string
  attributes :: "EventAttribute list option"

record RawLog =
  log_events :: "Event list option"

record TxResponse =
  txhash :: string
  height :: "nat option"
  tx :: "jsval list option"
  logs :: "RawLog list option"
  events :: "Event list option"

text \<open>
  \<^verbatim>\<open>ParsedTx\<close> of \<^verbatim>\<open>types/index.ts\<close>.  Its string fields are assigned message fields
  unchecked, so at run time they hold any value.  \<^verbatim>\<open>parseMessage\<close> of \<^verbatim>\<open>syncer.ts\<close>
  returns the first seven fields.  The \<^verbatim>\<open>timestamp\<close> (the time of the call) is left out.
\<close>

record ParsedMsg =
  type :: string
  amount :: jsval
  sender :: jsval
  recipient :: jsval
  delegator :: jsval
  validator :: jsval
  dstValidator :: jsval

record ParsedTx = ParsedMsg +
  parsed_height :: nat
  parsed_hash :: string

text \<open>\<^verbatim>\<open>event.attributes?.find(p)\<close>.\<close>

definition find_attr :: "Event \<Rightarrow> (EventAttribute \<Rightarrow> bool) \<Rightarrow> EventAttribute option" where
  "find_attr ev p = (case attributes ev of None \<Rightarrow> None | Some as \<Rightarrow> find p as)"

text \<open>The value of \<^verbatim>\<open>event.attributes?.find(p)?.value\<close> when it is truthy.\<close>

definition attr_value_of :: "Event \<Rightarrow> (EventAttribute \<Rightarrow> bool) \<Rightarrow> string option" where
  "attr_value_of ev p =
     (case find_attr ev p of
        None \<Rightarrow> None
      | Some a \<Rightarrow> if attr_value a \<noteq> [] then Some (attr_value a) else None)"

section \<open>The message interpreter (\<^verbatim>\<open>parser.ts\<close>)\<close>

definition emptyResult :: "string \<Rightarrow> ParsedTx" where
  "emptyResult t =
     \<lparr>type = t, amount = JNull, sender = JNull, recipient = JNull, delegator = JNull,
      validator = JNull, dstValidator = JNull, parsed_height = 0, parsed_hash = []\<rparr>"

subsection \<open>Recipient from the events\<close>

definition feeCollector :: string where
  "feeCollector = ''17xpfvakm2amg962yls6f84z3kell8c5l''"

text \<open>One branch of the loop of \<^verbatim>\<open>extractRecipientFromEvents\<close>: the address it returns
  for an event of type \<open>ty\<close> from the attribute \<open>k\<close>, if it returns.\<close>

definition eventAddress :: "string \<Rightarrow> string \<Rightarrow> Event \<Rightarrow> string option" where
  "eventAddress ty k ev =
     (if ev_type ev = ty then
        (case attr_value_of ev (\<lambda>a. attr_key a = k) of
           None \<Rightarrow> None
         | Some v \<Rightarrow> if \<not> str_includes v feeCollector then Some v else None)
      else None)"

fun scanRecipientEvents :: "Event list \<Rightarrow> jsval" where
  "scanRecipientEvents [] = JNull"
| "scanRecipientEvents (ev # evs) =
     (case eventAddress ''transfer'' ''recipient'' ev of
        Some v \<Rightarrow> JStr v
      | None \<Rightarrow>
          (case eventAddress ''coin_received'' ''receiver'' ev of
             Some v \<Rightarrow> JStr v
           | None \<Rightarrow> scanRecipientEvents evs))"

definition extractRecipientFromEvents :: "Event list option \<Rightarrow> jsval" where
  "extractRecipientFromEvents evs =
     (case evs of None \<Rightarrow> JNull | Some es \<Rightarrow> scanRecipientEvents es)"

subsection \<open>Withdrawals: amount and recipient from the events\<close>

record withdraw_totals =
  totalRewardAmount :: nat
  totalCommissionAmount :: nat
  denom :: string

text \<open>The first coin of an \<^verbatim>\<open>amount\<close> attribute, when the attribute and a match exist.\<close>

definition firstCoin :: "Event \<Rightarrow> (string \<times> string) option" where
  "firstCoin ev =
     (case attr_value_of ev (\<lambda>a. attr_key a = ''amount'') of
        None \<Rightarrow> None
      | Some v \<Rightarrow> coin_match v)"

text \<open>One pass of the loop of \<^verbatim>\<open>enhanceWithdrawData\<close> over the events.\<close>

definition withdrawEvent ::
  "withdraw_totals \<times> ParsedTx \<Rightarrow> Event \<Rightarrow> withdraw_totals \<times> ParsedTx" where
  "withdrawEvent st ev =
     (let t = fst st; r = snd st;
          t1 = (if ev_type ev = ''withdraw_rewards'' then
                  (case firstCoin ev of
                     None \<Rightarrow> t
                   | Some (q, d) \<Rightarrow>
                       t\<lparr>totalRewardAmount := totalRewardAmount t + digits_to_nat q,
                         denom := (if denom t = [] then d else denom t)\<rparr>)
                else t);
          r1 = (if ev_type ev = ''withdraw_rewards'' \<and> \<not> truthy (validator r) then
                  (case attr_value_of ev (\<lambda>a. attr_key a = ''validator'') of
                     None \<Rightarrow> r
                   | Some v \<Rightarrow> r\<lparr>validator := JStr v\<rparr>)
                else r);
          r2 = (if ev_type ev = ''withdraw_rewards'' \<and> \<not> truthy (delegator r1) then
                  (case attr_value_of ev (\<lambda>a. attr_key a = ''delegator'') of
                     None \<Rightarrow> r1
                   | Some v \<Rightarrow> r1\<lparr>delegator := JStr v\<rparr>)
                else r1);
          t2 = (if ev_type ev = ''withdraw_commission'' then
                  (case firstCoin ev of
                     None \<Rightarrow> t1
                   | Some (q, d) \<Rightarrow>
                       t1\<lparr>totalCommissionAmount := totalCommissionAmount t1 + digits_to_nat q,
                          denom := (if denom t1 = [] then d else denom t1)\<rparr>)
                else t1)
      in (t2, r2))"

definition enhanceWithdrawData :: "TxResponse \<Rightarrow> ParsedTx \<Rightarrow> ParsedTx" where
  "enhanceWithdrawData txResponse result =
     (let evs = (case events txResponse of None \<Rightarrow> [] | Some es \<Rightarrow> es);
          st = foldl withdrawEvent
                 (\<lparr>totalRewardAmount = 0, totalCommissionAmount = 0, denom = []\<rparr>, result) evs;
          t = fst st; r = snd st;
          grandTotal = totalRewardAmount t + totalCommissionAmount t;
          r1 = (if grandTotal > 0 then
                  (if totalRewardAmount t > 0 \<and> totalCommissionAmount t > 0 then
                     r\<lparr>amount := JStr (show_nat grandTotal @ denom t @ '' (R:'' @
                          show_nat (totalRewardAmount t) @ ''+C:'' @
                          show_nat (totalCommissionAmount t) @ '')'')\<rparr>
                   else r\<lparr>amount := JStr (show_nat grandTotal @ denom t)\<rparr>)
                else r)
      in if \<not> truthy (recipient r1)
         then r1\<lparr>recipient := extractRecipientFromEvents (Some evs)\<rparr> else r1)"

text \<open>For the statements about the loop: the quantity of the first coin of an event's
  \<^verbatim>\<open>amount\<close> attribute, as the \<^verbatim>\<open>BigInt\<close> the loop adds, and the two event types it reads.\<close>

definition coinQty :: "Event \<Rightarrow> nat" where
  "coinQty ev = (case firstCoin ev of None \<Rightarrow> 0 | Some (q, d) \<Rightarrow> digits_to_nat q)"

definition isWithdrawEvent :: "Event \<Rightarrow> bool" where
  "isWithdrawEvent ev = (ev_type ev = ''withdraw_rewards'' \<or> ev_type ev = ''withdraw_commission'')"

subsection \<open>Amount and recipient from the logs\<close>

datatype ('r, 's) flow = Return 'r | Next 's

record amount_totals =
  totalAmount :: nat
  logDenom :: string
  found :: bool

definition addCoin :: "amount_totals \<Rightarrow> string \<Rightarrow> amount_totals" where
  "addCoin t coinStr =
     (case coin_match coinStr of
        None \<Rightarrow> t
      | Some (q, d) \<Rightarrow>
          t\<lparr>totalAmount := totalAmount t + digits_to_nat q,
            logDenom := (if logDenom t = [] then d else logDenom t),
            found := True\<rparr>)"

text \<open>The body of the inner loop of \<^verbatim>\<open>extractAmountFromLogs\<close> for one event.\<close>

definition amountEvent :: "amount_totals \<Rightarrow> Event \<Rightarrow> (string, amount_totals) flow" where
  "amountEvent t ev =
     (let t1 = (if ev_type ev = ''withdraw_rewards'' \<or> ev_type ev = ''withdraw_commission'' then
                  (case attr_value_of ev (\<lambda>a. attr_key a = ''amount'') of
                     None \<Rightarrow> t
                   | Some v \<Rightarrow> foldl addCoin t (split_on (CHR '','') v))
                else t)
      in if ev_type ev = ''transfer'' \<or> ev_type ev = ''coin_received'' then
           (case attr_value_of ev (\<lambda>a. attr_key a = ''amount'') of
              None \<Rightarrow> Next t1
            | Some v \<Rightarrow> Return v)
         else Next t1)"

fun amountEvents :: "amount_totals \<Rightarrow> Event list \<Rightarrow> (string, amount_totals) flow" where
  "amountEvents t [] = Next t"
| "amountEvents t (ev # evs) =
     (case amountEvent t ev of Return v \<Rightarrow> Return v | Next t' \<Rightarrow> amountEvents t' evs)"

fun amountLogs :: "amount_totals \<Rightarrow> RawLog list \<Rightarrow> (string, amount_totals) flow" where
  "amountLogs t [] = Next t"
| "amountLogs t (l # ls) =
     (case amountEvents t (case log_events l of None \<Rightarrow> [] | Some es \<Rightarrow> es) of
        Return v \<Rightarrow> Return v
      | Next t' \<Rightarrow> amountLogs t' ls)"

definition extractAmountFromLogs :: "RawLog list option \<Rightarrow> jsval" where
  "extractAmountFromLogs lgs =
     (case lgs of
        None \<Rightarrow> JNull
      | Some ls \<Rightarrow>
          (case amountLogs \<lparr>totalAmount = 0, logDenom = [], found = False\<rparr> ls of
             Return v \<Rightarrow> JStr v
           | Next t \<Rightarrow>
               if found t \<and> totalAmount t > 0
               then JStr (show_nat (totalAmount t) @ logDenom t) else JNull))"

text \<open>The body of the inner loop of \<^verbatim>\<open>extractRecipientFromLogs\<close>: the value it returns
  for one event, if it returns.\<close>

definition recipientLogEvent :: "Event \<Rightarrow> string option" where
  "recipientLogEvent ev =
     (case (if ev_type ev = ''transfer''
            then attr_value_of ev (\<lambda>a. attr_key a = ''recipient'') else None) of
        Some v \<Rightarrow> Some v
      | None \<Rightarrow>
          (case (if ev_type ev = ''coin_received''
                 then attr_value_of ev (\<lambda>a. attr_key a = ''receiver'') else None) of
             Some v \<Rightarrow> Some v
           | None \<Rightarrow>
               (if ev_type ev = ''withdraw_rewards'' \<or> ev_type ev = ''withdraw_commission''
                then attr_value_of ev
                       (\<lambda>a. attr_key a = ''recipient'' \<or> attr_key a = ''withdraw_address'')
                else None)))"

fun recipientLogEvents :: "Event list \<Rightarrow> string option" where
  "recipientLogEvents [] = None"
| "recipientLogEvents (ev # evs) =
     (case recipientLogEvent ev of Some v \<Rightarrow> Some v | None \<Rightarrow> recipientLogEvents evs)"

fun recipientLogs :: "RawLog list \<Rightarrow> string option" where
  "recipientLogs [] = None"
| "recipientLogs (l # ls) =
     (case recipientLogEvents (case log_events l of None \<Rightarrow> [] | Some es \<Rightarrow> es) of
        Some v \<Rightarrow> Some v
      | None \<Rightarrow> recipientLogs ls)"

definition extractRecipientFromLogs :: "RawLog list option \<Rightarrow> jsval" where
  "extractRecipientFromLogs lgs =
     (case lgs of
        None \<Rightarrow> JNull
      | Some ls \<Rightarrow> (case recipientLogs ls of None \<Rightarrow> JNull | Some v \<Rightarrow> JStr v))"

subsection \<open>Fields of one message: \<^verbatim>\<open>extractByPattern\<close>\<close>

text \<open>The template \<^verbatim>\<open>`${c.amount}${c.denom}`\<close>.\<close>

definition coin_string :: "builtins \<Rightarrow> jsval \<Rightarrow> string option" where
  "coin_string bi c =
     do {
       a \<leftarrow> get_prop c ''amount'';
       sa \<leftarrow> to_string bi a;
       d \<leftarrow> get_prop c ''denom'';
       sd \<leftarrow> to_string bi d;
       Some (sa @ sd)
     }"

text \<open>\<^verbatim>\<open>v && v.amount && v.denom\<close>.\<close>

definition has_coin :: "jsval \<Rightarrow> bool" where
  "has_coin v = (truthy v \<and> truthy (field v ''amount'') \<and> truthy (field v ''denom''))"

text \<open>Step 1, the amount patterns.  Here and below \<open>msg\<close> is not nullish: the caller
  has read \<^verbatim>\<open>msg.amount\<close>.\<close>

definition amountPatterns :: "builtins \<Rightarrow> jsval \<Rightarrow> ParsedTx \<Rightarrow> ParsedTx option" where
  "amountPatterns bi msg result =
     do {
       r1 \<leftarrow> (let a = field msg ''amount'' in
               if truthy a then
                 (if is_array a then
                    (if truthy (index0 a)
                     then do { s \<leftarrow> coin_string bi (index0 a); Some (result\<lparr>amount := JStr s\<rparr>) }
                     else Some (result\<lparr>amount := JNull\<rparr>))
                  else if truthy (field a ''amount'') \<and> truthy (field a ''denom'')
                    then do { s \<leftarrow> coin_string bi a; Some (result\<lparr>amount := JStr s\<rparr>) }
                  else Some result)
               else Some result);
       r2 \<leftarrow> (if has_coin (field msg ''token'')
               then do { s \<leftarrow> coin_string bi (field msg ''token''); Some (r1\<lparr>amount := JStr s\<rparr>) }
               else Some r1);
       (if has_coin (field msg ''value'')
        then do { s \<leftarrow> coin_string bi (field msg ''value''); Some (r2\<lparr>amount := JStr s\<rparr>) }
        else Some r2)
     }"

text \<open>
  The \<^verbatim>\<open>try\<close> block that decodes a packet.  The flag says whether the block reached its
  \<^verbatim>\<open>return\<close>; when a step throws, the \<^verbatim>\<open>catch\<close> keeps what was assigned before.
\<close>

definition recvPacket :: "builtins \<Rightarrow> jsval \<Rightarrow> ParsedTx \<Rightarrow> ParsedTx \<times> bool" where
  "recvPacket bi msg result =
     (case decodePacket bi (field (field msg ''packet'') ''data'') of
        None \<Rightarrow> (result, False)
      | Some decoded \<Rightarrow>
          if nullish decoded then (result, False)
          else
            (let r1 = (if truthy (field decoded ''receiver'')
                       then result\<lparr>recipient := field decoded ''receiver''\<rparr> else result);
                 r2 = (if truthy (field decoded ''sender'')
                       then r1\<lparr>sender := field decoded ''sender''\<rparr> else r1)
             in if truthy (field decoded ''amount'') \<and> truthy (field decoded ''denom'') then
                  (case coin_string bi decoded of
                     None \<Rightarrow> (r2, False)
                   | Some s \<Rightarrow> (r2\<lparr>amount := JStr s, type := ''IBC Receive''\<rparr>, True))
                else (r2\<lparr>type := ''IBC Receive''\<rparr>, True)))"

text \<open>Steps 2 and 3, sender and recipient.\<close>

definition senderRecipient :: "jsval \<Rightarrow> ParsedTx \<Rightarrow> ParsedTx" where
  "senderRecipient msg result =
     result\<lparr>sender := or_chain (map (field msg)
                [''from_address'', ''sender'', ''signer'', ''voter'', ''granter'', ''depositor'',
                 ''proposer'', ''delegator_address'', ''executor'']),
            recipient := or_chain (map (field msg)
                [''to_address'', ''receiver'', ''recipient'', ''grantee''])\<rparr>"

text \<open>\<^verbatim>\<open>MultiSend\<close>: \<^verbatim>\<open>msg.inputs[0]?.address\<close>, \<^verbatim>\<open>msg.outputs[0]?.address\<close> and
  \<^verbatim>\<open>msg.inputs[0]?.coins?.[0]\<close>.\<close>

definition multiSend :: "builtins \<Rightarrow> jsval \<Rightarrow> ParsedTx \<Rightarrow> ParsedTx option" where
  "multiSend bi msg result =
     (if truthy (field msg ''inputs'') \<and> truthy (field msg ''outputs'') then
        (let r1 = result\<lparr>sender := field (index0 (field msg ''inputs'')) ''address'',
                         recipient := field (index0 (field msg ''outputs'')) ''address''\<rparr>;
             amt = index0 (field (index0 (field msg ''inputs'')) ''coins'')
         in if truthy amt then do { s \<leftarrow> coin_string bi amt; Some (r1\<lparr>amount := JStr s\<rparr>) }
            else Some r1)
      else Some result)"

text \<open>Step 4, the validator fields.\<close>

definition validatorFields :: "jsval \<Rightarrow> ParsedTx \<Rightarrow> ParsedTx" where
  "validatorFields msg result =
     result\<lparr>delegator := or_chain (map (field msg)
                [''delegator_address'', ''delegator'', ''voter'', ''grantee'', ''depositor'',
                 ''sender'']),
            validator := or_chain (map (field msg)
                [''validator_address'', ''validator_src_address'', ''validator_addr'',
                 ''source_validator'']),
            dstValidator := or_chain (map (field msg)
                [''validator_dst_address'', ''destination_validator''])\<rparr>"

text \<open>Step 5, governance.  \<^verbatim>\<open>Number(option)\<close> selects an element of \<^verbatim>\<open>opts\<close> when it is
  one of its indices; \<open>voteIndex\<close> is that index, if any.\<close>

definition opts :: "string list" where
  "opts = [''EMPTY'', ''YES'', ''ABSTAIN'', ''NO'', ''NO_WITH_VETO'']"

fun voteIndex :: "builtins \<Rightarrow> jsval \<Rightarrow> nat option option" where
  "voteIndex bi JUndef = Some None"
| "voteIndex bi JNull = Some (Some 0)"
| "voteIndex bi (JBool b) = Some (Some (if b then 1 else 0))"
| "voteIndex bi (JNum n) = Some (if 0 \<le> n then Some (nat n) else None)"
| "voteIndex bi (JStr s) = Some (stringToIndex bi s)"
| "voteIndex bi (JArr xs) = do { s \<leftarrow> to_string bi (JArr xs); Some (stringToIndex bi s) }"
| "voteIndex bi (JObj kvs) = do { s \<leftarrow> to_string bi (JObj kvs); Some None }"

definition parseVoteOption :: "builtins \<Rightarrow> jsval \<Rightarrow> string option" where
  "parseVoteOption bi option =
     (case option of
        JStr s \<Rightarrow>
          (let cleaned = remove_first ''VOTE_OPTION_'' s
           in Some (if cleaned \<in> set opts then cleaned else s))
      | v \<Rightarrow>
          do {
            i \<leftarrow> voteIndex bi v;
            Some (case i of
                    None \<Rightarrow> ''UNKNOWN''
                  | Some k \<Rightarrow> if k < length opts \<and> opts ! k \<noteq> [] then opts ! k else ''UNKNOWN'')
          })"

definition governance :: "builtins \<Rightarrow> jsval \<Rightarrow> ParsedTx \<Rightarrow> ParsedTx option" where
  "governance bi msg result =
     (if truthy (field msg ''proposal_id'') then
        (if truthy (field msg ''option'') then
           do {
             option \<leftarrow> parseVoteOption bi (field msg ''option'');
             pid \<leftarrow> to_string bi (field msg ''proposal_id'');
             Some (result\<lparr>amount := JStr (''Prop #'' @ pid @ '': '' @ option)\<rparr>)
           }
         else Some result)
      else Some result)"

text \<open>Step 6.\<close>

definition unjail :: "ParsedTx \<Rightarrow> ParsedTx" where
  "unjail result =
     (if str_includes (type result) ''Unjail'' then result\<lparr>amount := JStr ''Unjail''\<rparr> else result)"

text \<open>Step 7, authorized execution.  \<open>meaningful\<close> is the callback of \<^verbatim>\<open>find\<close>.\<close>

definition meaningful :: "jsval \<Rightarrow> bool option" where
  "meaningful m =
     do {
       t \<leftarrow> get_prop m ''@type'';
       (case or_js t (JStr []) of
          JStr s \<Rightarrow>
            Some (str_includes (to_lower s) ''delegate'' \<or> str_includes (to_lower s) ''send'' \<or>
                  str_includes (to_lower s) ''transfer'')
        | v \<Rightarrow> None)
     }"

definition innerAmount :: "builtins \<Rightarrow> jsval \<Rightarrow> ParsedTx \<Rightarrow> ParsedTx option" where
  "innerAmount bi meaningfulMsg result =
     (let a = field meaningfulMsg ''amount''; v = field meaningfulMsg ''value'' in
      if truthy a then
        (if is_array a
         then do { s \<leftarrow> coin_string bi (index0 a); Some (result\<lparr>amount := JStr s\<rparr>) }
         else if truthy (field a ''amount'') \<and> truthy (field a ''denom'')
           then do { s \<leftarrow> coin_string bi a; Some (result\<lparr>amount := JStr s\<rparr>) }
         else Some result)
      else if truthy v \<and> truthy (field v ''amount'')
        then do { s \<leftarrow> coin_string bi v; Some (result\<lparr>amount := JStr s\<rparr>) }
      else Some result)"

definition innerParties :: "jsval \<Rightarrow> ParsedTx \<Rightarrow> ParsedTx" where
  "innerParties meaningfulMsg result =
     (let r1 = (if truthy (field meaningfulMsg ''delegator_address'')
                then result\<lparr>delegator := field meaningfulMsg ''delegator_address''\<rparr> else result);
          r2 = (if truthy (field meaningfulMsg ''validator_address'')
                then r1\<lparr>validator := field meaningfulMsg ''validator_address''\<rparr> else r1);
          r3 = (if truthy (field meaningfulMsg ''from_address'')
                then r2\<lparr>sender := field meaningfulMsg ''from_address''\<rparr> else r2)
      in if truthy (field meaningfulMsg ''to_address'')
         then r3\<lparr>recipient := field meaningfulMsg ''to_address''\<rparr> else r3)"

definition authzExec :: "builtins \<Rightarrow> jsval \<Rightarrow> ParsedTx \<Rightarrow> ParsedTx option" where
  "authzExec bi msg result =
     (case field msg ''msgs'' of
        JArr msgs \<Rightarrow>
          if str_includes (type result) ''Exec'' then
            do {
              hit \<leftarrow> find_js meaningful msgs;
              let meaningfulMsg = or_js (case hit of None \<Rightarrow> JUndef | Some m \<Rightarrow> m) (first_js msgs);
              if truthy meaningfulMsg then
                do {
                  inner \<leftarrow> js_last_segment (or_js (field meaningfulMsg ''@type'') (JStr []));
                  let innerTypeClean =
                    (if remove_first ''Msg'' inner = [] then ''InnerTx''
                     else remove_first ''Msg'' inner);
                  r \<leftarrow> innerAmount bi meaningfulMsg (result\<lparr>type := ''Exec/'' @ innerTypeClean\<rparr>);
                  Some (innerParties meaningfulMsg r)
                }
              else Some result
            }
          else Some result
      | v \<Rightarrow> Some result)"

text \<open>Steps 2 to 7, which run when the packet block did not return.\<close>

definition afterPacket :: "builtins \<Rightarrow> jsval \<Rightarrow> ParsedTx \<Rightarrow> ParsedTx option" where
  "afterPacket bi msg result =
     do {
       r \<leftarrow> multiSend bi msg (senderRecipient msg result);
       g \<leftarrow> governance bi (msg) (validatorFields msg r);
       authzExec bi msg (unjail g)
     }"

text \<open>The test \<^verbatim>\<open>result.type.includes("RecvPacket") || msg["@type"]?.includes("RecvPacket")\<close>.\<close>

definition isRecvPacket :: "jsval \<Rightarrow> ParsedTx \<Rightarrow> bool option" where
  "isRecvPacket msg result =
     (if str_includes (type result) ''RecvPacket'' then Some True
      else if nullish (field msg ''@type'') then Some False
      else js_includes (field msg ''@type'') ''RecvPacket'')"

definition extractByPattern :: "builtins \<Rightarrow> jsval \<Rightarrow> ParsedTx \<Rightarrow> ParsedTx option" where
  "extractByPattern bi msg result =
     (if nullish msg then None
      else
        do {
          r \<leftarrow> amountPatterns bi msg result;
          recv \<leftarrow> isRecvPacket msg r;
          (if recv \<and> truthy (field msg ''packet'') \<and> truthy (field (field msg ''packet'') ''data'')
           then (let tried = recvPacket bi msg r
                 in if snd tried then Some (fst tried) else afterPacket bi msg (fst tried))
           else afterPacket bi msg r)
        })"

subsection \<open>\<^verbatim>\<open>parseBatchTx\<close> and \<^verbatim>\<open>parse\<close>\<close>

text \<open>\<^verbatim>\<open>(m["@type"] || "").split(".").pop()\<close>.\<close>

definition msgType :: "jsval \<Rightarrow> string option" where
  "msgType m = do { t \<leftarrow> get_prop m ''@type''; js_last_segment (or_js t (JStr [])) }"

text \<open>The two fallbacks that close \<^verbatim>\<open>parse\<close> and \<^verbatim>\<open>parseBatchTx\<close>: the amount from the
  logs, the recipient from the events or the logs.\<close>

definition logFallbacks :: "TxResponse \<Rightarrow> ParsedTx \<Rightarrow> ParsedTx" where
  "logFallbacks txResponse result =
     (let r1 = (if \<not> truthy (amount result)
                then result\<lparr>amount := extractAmountFromLogs (logs txResponse)\<rparr> else result)
      in if \<not> truthy (recipient r1)
         then r1\<lparr>recipient := or_js (extractRecipientFromEvents (events txResponse))
                                      (extractRecipientFromLogs (logs txResponse))\<rparr>
         else r1)"

definition batchWithdraw :: "TxResponse \<Rightarrow> jsval list \<Rightarrow> string list \<Rightarrow> ParsedTx option" where
  "batchWithdraw txResponse messages types =
     (let hasReward = list_ex (\<lambda>t. str_includes t ''WithdrawDelegatorReward'') types;
          hasCommission = list_ex (\<lambda>t. str_includes t ''WithdrawValidatorCommission'') types;
          ty = (if hasReward \<and> hasCommission then ''BatchWithdraw(Reward+Commission)''
                else if length types > 1 then ''BatchWithdraw('' @ show_nat (length types) @ '')''
                else (case types of
                        [] \<Rightarrow> ''Withdraw''
                      | t # ts \<Rightarrow> if t = [] then ''Withdraw'' else t));
          firstMsg = first_js messages
      in do {
           da \<leftarrow> get_prop firstMsg ''delegator_address'';
           let dg = or_js da (field firstMsg ''delegator'');
           let va = or_js (field firstMsg ''validator_address'')
                      (case find (\<lambda>m. truthy (field m ''validator_address'')) messages of
                         None \<Rightarrow> JUndef
                       | Some m \<Rightarrow> field m ''validator_address'');
           Some (enhanceWithdrawData txResponse
                   ((emptyResult ty)\<lparr>delegator := dg, validator := va, sender := dg\<rparr>))
         })"

definition parseBatchTx :: "builtins \<Rightarrow> TxResponse \<Rightarrow> jsval list \<Rightarrow> ParsedTx option" where
  "parseBatchTx bi txResponse messages =
     do {
       types \<leftarrow> map_js msgType messages;
       let uniqueTypes = unique_js types;
       if list_ex (\<lambda>t. str_includes t ''Withdraw'') uniqueTypes then
         batchWithdraw txResponse messages types
       else if list_all (\<lambda>t. str_includes t ''UpdateClient'') uniqueTypes then
         do {
           signer \<leftarrow> get_prop (first_js messages) ''signer'';
           Some ((emptyResult (''BatchUpdateClient('' @ show_nat (length types) @ '')''))
                   \<lparr>sender := signer, amount := JStr ''IBC Update''\<rparr>)
         }
       else
         do {
           r \<leftarrow> extractByPattern bi (first_js messages)
                  (emptyResult (case types of
                                  [] \<Rightarrow> ''BatchTx''
                                | t # ts \<Rightarrow> if t = [] then ''BatchTx'' else t));
           Some (logFallbacks txResponse r)
         }
     }"

text \<open>The callback of the search for a packet message:
  \<^verbatim>\<open>(m["@type"] || "").includes("RecvPacket")\<close>.\<close>

definition isRecvPacketMsg :: "jsval \<Rightarrow> bool option" where
  "isRecvPacketMsg m =
     do { t \<leftarrow> get_prop m ''@type''; js_includes (or_js t (JStr [])) ''RecvPacket'' }"

definition parseSingle :: "builtins \<Rightarrow> TxResponse \<Rightarrow> jsval \<Rightarrow> ParsedTx option" where
  "parseSingle bi txResponse msg =
     do {
       seg \<leftarrow> js_last_segment (or_js (field msg ''@type'') (JStr []));
       r \<leftarrow> extractByPattern bi msg (emptyResult (if seg = [] then ''Tx'' else seg));
       Some (logFallbacks txResponse
               (if str_includes (type r) ''Withdraw'' then enhanceWithdrawData txResponse r else r))
     }"

definition parse :: "builtins \<Rightarrow> TxResponse \<Rightarrow> ParsedTx option" where
  "parse bi txResponse =
     (case tx txResponse of
        None \<Rightarrow> Some (emptyResult ''Unknown'')
      | Some messages \<Rightarrow>
          if length messages > 1 then
            do {
              ibcRecvMsg \<leftarrow> find_js isRecvPacketMsg messages;
              (case ibcRecvMsg of
                 None \<Rightarrow> parseBatchTx bi txResponse messages
               | Some m \<Rightarrow>
                   if truthy m then
                     do {
                       r \<leftarrow> extractByPattern bi m (emptyResult ''IBC Receive'');
                       if truthy (amount r) \<and> truthy (recipient r) then Some r
                       else parseBatchTx bi txResponse messages
                     }
                   else parseBatchTx bi txResponse messages)
            }
          else if \<not> truthy (first_js messages) then Some (emptyResult ''Unknown'')
          else parseSingle bi txResponse (first_js messages))"

section \<open>The indexer query client (\<^verbatim>\<open>fetcher.ts\<close>)\<close>

text \<open>
  A request is the base address and the query parameters in the order they are appended
  (\<^verbatim>\<open>URLSearchParams\<close> keeps repeated keys); the percent-encoding of the address is not
  modelled.  The network is a function from requests to outcomes of \<^verbatim>\<open>axios.get\<close>:
  the response body, or the error thrown.  An \<open>AxiosError\<close> carries the response status,
  \<open>None\<close> when there was no response; \<open>OtherError\<close> is any other exception.
\<close>

datatype js_error = AxiosError "nat option" | OtherError

record request =
  req_base :: string
  req_params :: "(string \<times> string) list"

type_synonym network = "request \<Rightarrow> js_error + jsval"

text \<open>The object \<^verbatim>\<open>{ txs, total }\<close> the function returns.\<close>

record IndexerResult =
  res_txs :: "jsval list"
  res_total :: jsval

text \<open>\<^verbatim>\<open>normalizeRestUrl\<close> of \<^verbatim>\<open>utils/helpers\<close>.\<close>

definition normalizeRestUrl :: "string \<Rightarrow> string" where
  "normalizeRestUrl url =
     (if \<not> starts_with url ''http://'' \<and> \<not> starts_with url ''https://'' then ''https://'' @ url
      else if url \<noteq> [] \<and> last url = CHR ''/'' then butlast url
      else url)"

text \<open>\<^verbatim>\<open>v[i]\<close> on a value that is not nullish.\<close>

fun js_index :: "jsval \<Rightarrow> nat \<Rightarrow> jsval" where
  "js_index (JArr xs) i = (if i < length xs then xs ! i else JUndef)"
| "js_index (JStr s) i = (if i < length s then JStr [s ! i] else JUndef)"
| "js_index (JObj kvs) i = field (JObj kvs) (show_nat i)"
| "js_index v i = JUndef"

text \<open>The own properties an object spread \<^verbatim>\<open>{...v}\<close> copies, and \<^verbatim>\<open>{...v, k: x}\<close>: a key the
  object has keeps its place and takes the new value, a new key comes last.\<close>

fun spread :: "jsval \<Rightarrow> (string \<times> jsval) list" where
  "spread (JObj kvs) = kvs"
| "spread (JArr xs) = zip (map show_nat [0..<length xs]) xs"
| "spread (JStr s) = zip (map show_nat [0..<length s]) (map (\<lambda>c. JStr [c]) s)"
| "spread v = []"

definition obj_put :: "string \<Rightarrow> jsval \<Rightarrow> (string \<times> jsval) list \<Rightarrow> (string \<times> jsval) list" where
  "obj_put k x kvs =
     (if map_of kvs k = None then kvs @ [(k, x)]
      else map (\<lambda>kv. if fst kv = k then (k, x) else kv) kvs)"

text \<open>The callback of \<^verbatim>\<open>mergeTxResponses\<close>, and the function.  Only an array has
  \<^verbatim>\<open>map\<close>.\<close>

definition mergeOne :: "jsval \<Rightarrow> jsval \<times> nat \<Rightarrow> jsval option" where
  "mergeOne txs ri =
     do {
       t \<leftarrow> get_prop (fst ri) ''tx'';
       Some (if truthy t then fst ri
             else JObj (obj_put ''tx'' (or_js (js_index txs (snd ri)) JNull) (spread (fst ri))))
     }"

definition mergeTxResponses :: "jsval \<Rightarrow> jsval list option" where
  "mergeTxResponses data =
     do {
       tr \<leftarrow> get_prop data ''tx_responses'';
       (case or_js tr (JArr []) of
          JArr txResponses \<Rightarrow>
            map_js (mergeOne (or_js (field data ''txs'') (JArr [])))
              (zip txResponses [0..<length txResponses])
        | v \<Rightarrow> None)
     }"

text \<open>
  What the \<^verbatim>\<open>try\<close> blocks build from a response body.  \<open>toNumber\<close> is the library's
  \<^verbatim>\<open>Number\<close>, \<open>None\<close> where it throws.
\<close>

definition readResponse :: "(jsval \<Rightarrow> jsval option) \<Rightarrow> jsval \<Rightarrow> IndexerResult option" where
  "readResponse toNumber data =
     do {
       merged \<leftarrow> mergeTxResponses data;
       n \<leftarrow> toNumber (or_js (field (field data ''pagination'') ''total'') (JNum 0));
       Some \<lparr>res_txs = merged, res_total = n\<rparr>
     }"

text \<open>One \<^verbatim>\<open>try\<close> block: the request, then the reading of its response.\<close>

definition tryRequest ::
  "(jsval \<Rightarrow> jsval option) \<Rightarrow> network \<Rightarrow> request \<Rightarrow> js_error + IndexerResult" where
  "tryRequest toNumber net rq =
     (case net rq of
        Inl e \<Rightarrow> Inl e
      | Inr data \<Rightarrow>
          (case readResponse toNumber data of None \<Rightarrow> Inl OtherError | Some res \<Rightarrow> Inr res))"

definition legacyRequest :: "string \<Rightarrow> string \<Rightarrow> nat \<Rightarrow> nat \<Rightarrow> request" where
  "legacyRequest restUrl queryEvent minHeight page =
     \<lparr>req_base = normalizeRestUrl restUrl @ ''/cosmos/tx/v1beta1/txs'',
      req_params =
        [(''query'', queryEvent @ '' AND tx.height>='' @ show_nat minHeight),
         (''pagination.limit'', ''100''),
         (''pagination.page'', show_nat page),
         (''order_by'', ''1'')]\<rparr>"

definition eventsRequest :: "string \<Rightarrow> string \<Rightarrow> nat \<Rightarrow> nat \<Rightarrow> request" where
  "eventsRequest restUrl queryEvent minHeight page =
     \<lparr>req_base = normalizeRestUrl restUrl @ ''/cosmos/tx/v1beta1/txs'',
      req_params =
        [(''events'', queryEvent),
         (''events'', ''tx.height>='' @ show_nat minHeight),
         (''pagination.limit'', ''100''),
         (''pagination.page'', show_nat page),
         (''order_by'', ''1'')]\<rparr>"

text \<open>\<^verbatim>\<open>isAxiosError(error) && [400, 500, 501].includes(error.response?.status || 0)\<close>.\<close>

definition fallbackStatus :: "js_error \<Rightarrow> bool" where
  "fallbackStatus error =
     (case error of
        AxiosError st \<Rightarrow> (case st of None \<Rightarrow> 0 | Some s \<Rightarrow> s) \<in> set [400, 500, 501]
      | OtherError \<Rightarrow> False)"

text \<open>\<^verbatim>\<open>fetchIndexerMode\<close>: what it returns or throws (\<open>Inl\<close>), and the requests it has sent,
  in order.\<close>

definition fetchIndexerMode ::
  "(jsval \<Rightarrow> jsval option) \<Rightarrow> network \<Rightarrow> string \<Rightarrow> string \<Rightarrow> nat \<Rightarrow> nat
     \<Rightarrow> (js_error + IndexerResult) \<times> request list" where
  "fetchIndexerMode toNumber net restUrl queryEvent minHeight page =
     (let paramsLegacy = legacyRequest restUrl queryEvent minHeight page;
          paramsEvents = eventsRequest restUrl queryEvent minHeight page
      in case tryRequest toNumber net paramsLegacy of
           Inr res \<Rightarrow> (Inr res, [paramsLegacy])
         | Inl error \<Rightarrow>
             if fallbackStatus error then
               (case tryRequest toNumber net paramsEvents of
                  Inr res \<Rightarrow> (Inr res, [paramsLegacy, paramsEvents])
                | Inl e2 \<Rightarrow> (Inr \<lparr>res_txs = [], res_total = JNum 0\<rparr>, [paramsLegacy, paramsEvents]))
             else (Inl error, [paramsLegacy]))"

section \<open>The crawl orchestrator (\<^verbatim>\<open>syncer.ts\<close>)\<close>

subsection \<open>Helpers: nested messages, one message, amounts\<close>

lemma size_map_of:
  "map_of kvs k = Some v \<Longrightarrow> size (v :: jsval) < Suc (size_list (size_prod (\<lambda>x. 0) size) kvs)"
  by (induction kvs) (auto split: if_splits)

lemma size_field_array: "field v k = JArr ms \<Longrightarrow> size_list size ms < size v"
proof (cases v)
  case (JObj kvs)
  assume "field v k = JArr ms"
  then have "map_of kvs k = Some (JArr ms)"
    using JObj by (simp split: option.splits)
  then show ?thesis
    using size_map_of [of kvs k "JArr ms"] JObj by simp
qed simp_all

text \<open>\<^verbatim>\<open>extractAllMessages\<close>: every message, each authorized execution followed by the
  messages nested in it.  Reading \<^verbatim>\<open>msg["@type"]\<close> throws on a nullish message.\<close>

function extractAllMessages :: "jsval list \<Rightarrow> jsval list option" where
  "extractAllMessages [] = Some []"
| "extractAllMessages (msg # messages) =
     do {
       t \<leftarrow> get_prop msg ''@type'';
       nestedMsgs \<leftarrow>
         (if t = JStr ''/cosmos.authz.v1beta1.MsgExec'' then
            (case field msg ''msgs'' of
               JArr ms \<Rightarrow> extractAllMessages ms
             | v \<Rightarrow> Some [])
          else Some []);
       others \<leftarrow> extractAllMessages messages;
       Some (msg # nestedMsgs @ others)
     }"
  by pat_completeness auto
termination
proof (relation "measure (size_list size)", goal_cases)
  case 1
  show ?case by simp
next
  case (2 msg messages t ms)
  then show ?case
    using size_field_array [of msg "''msgs''" ms] by simp
next
  case (3 msg messages t nestedMsgs)
  show ?case by simp
qed

text \<open>\<^verbatim>\<open>parseMessage\<close>.  \<open>packetFields\<close> is its \<^verbatim>\<open>try\<close> block, \<open>None\<close> when a step of the
  block throws (the \<^verbatim>\<open>catch\<close> logs and falls through).\<close>

definition packetFields :: "builtins \<Rightarrow> jsval \<Rightarrow> ParsedMsg option" where
  "packetFields bi msg =
     (case decodePacket bi (field (field msg ''packet'') ''data'') of
        None \<Rightarrow> None
      | Some decoded \<Rightarrow>
          if nullish decoded then None
          else
            do {
              amt \<leftarrow> (if truthy (field decoded ''amount'') \<and> truthy (field decoded ''denom'')
                      then map_option JStr (coin_string bi decoded) else Some JNull);
              Some \<lparr>type = ''IBCRecv'', amount = amt,
                    sender = or_js (field decoded ''sender'') JNull,
                    recipient = or_js (field decoded ''receiver'') JNull,
                    delegator = JNull, validator = JNull, dstValidator = JNull\<rparr>
            })"

definition messageAmount :: "builtins \<Rightarrow> jsval \<Rightarrow> jsval option" where
  "messageAmount bi msg =
     do {
       a1 \<leftarrow> (let a = field msg ''amount'' in
               if truthy a then
                 (if is_array a then
                    (if truthy (index0 a) then map_option JStr (coin_string bi (index0 a))
                     else Some JNull)
                  else if truthy (field a ''amount'') \<and> truthy (field a ''denom'')
                    then map_option JStr (coin_string bi a)
                  else Some JNull)
               else Some JNull);
       a2 \<leftarrow> (if \<not> truthy a1 \<and> has_coin (field msg ''token'')
               then map_option JStr (coin_string bi (field msg ''token'')) else Some a1);
       (if \<not> truthy a2 \<and> has_coin (field msg ''value'')
        then map_option JStr (coin_string bi (field msg ''value'')) else Some a2)
     }"

definition parseMessage :: "builtins \<Rightarrow> jsval \<Rightarrow> ParsedMsg option" where
  "parseMessage bi msg =
     do {
       seg \<leftarrow> msgType msg;
       let ty = (if seg = [] then ''Unknown'' else seg);
       let packet = (if str_includes ty ''RecvPacket'' \<and> truthy (field msg ''packet'') \<and>
                        truthy (field (field msg ''packet'') ''data'')
                     then packetFields bi msg else None);
       (case packet of
          Some parsed \<Rightarrow> Some parsed
        | None \<Rightarrow>
            do {
              amt \<leftarrow> messageAmount bi msg;
              Some \<lparr>type = ty, amount = amt,
                    sender = or_chain (map (field msg)
                      [''from_address'', ''sender'', ''signer'', ''delegator_address'', ''granter'',
                       ''depositor'', ''voter'', ''proposer'', ''executor''] @ [JNull]),
                    recipient = or_chain (map (field msg)
                      [''to_address'', ''recipient'', ''receiver'', ''grantee''] @ [JNull]),
                    delegator = or_chain (map (field msg)
                      [''delegator_address'', ''delegator'', ''voter'', ''depositor'', ''sender'']
                       @ [JNull]),
                    validator = or_chain (map (field msg)
                      [''validator_address'', ''validator_src_address'', ''source_validator'',
                       ''validator_addr''] @ [JNull]),
                    dstValidator = or_chain (map (field msg)
                      [''validator_dst_address'', ''destination_validator''] @ [JNull])\<rparr>
            })
     }"

text \<open>
  \<^verbatim>\<open>aggregateAmounts\<close>.  \<^verbatim>\<open>denomMap\<close> is an object literal: its own keys in the order they
  were added.  What a key holds is a \<^verbatim>\<open>BigInt\<close>, except for a denomination that names an
  inherited member: there \<^verbatim>\<open>denomMap[denom]\<close> is truthy from the start, no sum is
  opened, and \<^verbatim>\<open>+=\<close> appends digits to the member's text.
\<close>

datatype total = BigInt nat | Text string

definition addAmount :: "builtins \<Rightarrow> (string \<times> total) list \<Rightarrow> string \<Rightarrow> (string \<times> total) list" where
  "addAmount bi denomMap amountStr =
     (case coin_match_exact amountStr of
        None \<Rightarrow> denomMap
      | Some (q, d) \<Rightarrow>
          (case map_of denomMap d of
             None \<Rightarrow>
               denomMap @
                 [(d, case inheritedMember bi d of
                        None \<Rightarrow> BigInt (digits_to_nat q)
                      | Some s \<Rightarrow> Text (s @ show_nat (digits_to_nat q)))]
           | Some held \<Rightarrow>
               map (\<lambda>kv. if fst kv = d
                          then (d, case held of
                                     BigInt n \<Rightarrow> BigInt (n + digits_to_nat q)
                                   | Text s \<Rightarrow> Text (s @ show_nat (digits_to_nat q)))
                          else kv) denomMap))"

definition totalString :: "total \<Rightarrow> string" where
  "totalString held = (case held of BigInt n \<Rightarrow> show_nat n | Text s \<Rightarrow> s)"

text \<open>An element that is neither \<^verbatim>\<open>null\<close> nor a string has no \<^verbatim>\<open>match\<close>: the call throws.\<close>

definition aggregateAmounts :: "builtins \<Rightarrow> jsval list \<Rightarrow> jsval option" where
  "aggregateAmounts bi amounts =
     do {
       validAmounts \<leftarrow> map_js (\<lambda>a. case a of JStr s \<Rightarrow> Some s | v \<Rightarrow> None)
                         (filter (\<lambda>a. a \<noteq> JNull) amounts);
       let results = map (\<lambda>kv. totalString (snd kv) @ fst kv)
                       (foldl (addAmount bi) [] validAmounts);
       Some (if validAmounts = [] then JNull
             else (case results of
                     [] \<Rightarrow> JNull
                   | [r] \<Rightarrow> JStr r
                   | r # rs \<Rightarrow> JStr (join_with '', '' results)))
     }"

subsection \<open>The store and the tracked account\<close>

text \<open>
  A \<^verbatim>\<open>Wallet\<close> row with the columns the crawl reads and writes; \<^verbatim>\<open>id\<close> is \<open>wallet_id\<close>, and
  a nullable text column is an \<open>option\<close>.  The two transaction tables hold the columns
  the crawl fills, without \<^verbatim>\<open>timestamp\<close>, \<^verbatim>\<open>rawTx\<close> and \<^verbatim>\<open>priceAtTx\<close>.
\<close>

record Wallet =
  wallet_id :: nat
  label :: string
  address :: string
  valAddress :: "string option"
  withdrawalAddress :: "string option"
  isSyncing :: bool
  lastSyncHeartbeat :: "int option"
  webhookUrl :: "string option"
  notifyWalletTx :: bool
  notifyValidatorTx :: bool

record WalletTransaction =
  wt_hash :: string
  wt_height :: nat
  wt_type :: string
  wt_amount :: "string option"
  wt_sender :: "string option"
  wt_recipient :: "string option"
  wt_direction :: string
  wt_walletId :: nat

record ValidatorTransaction =
  vt_hash :: string
  vt_height :: nat
  vt_type :: string
  vt_amount :: "string option"
  vt_delegator :: "string option"
  vt_validator :: "string option"
  vt_dstValidator :: "string option"
  vt_category :: string
  vt_walletId :: nat

record tables =
  walletTransactions :: "WalletTransaction list"
  validatorTransactions :: "ValidatorTransaction list"

text \<open>A call of \<^verbatim>\<open>sendDiscordNotification\<close> for a transaction: the hash, the type, the
  amount and the category passed.  The function catches its own errors.\<close>

record notification =
  note_hash :: string
  note_type :: string
  note_amount :: jsval
  note_category :: string

text \<open>The state the callback of \<^verbatim>\<open>prisma.$transaction\<close> works on: the tables as the
  transaction sees them, \<^verbatim>\<open>newTxCount\<close>, and the notifications sent so far.\<close>

record page_state = tables +
  newTxCount :: nat
  sent :: "notification list"

text \<open>The truthiness of a nullable text column.\<close>

definition present :: "string option \<Rightarrow> bool" where
  "present c = (case c of None \<Rightarrow> False | Some s \<Rightarrow> s \<noteq> [])"

text \<open>What Prisma accepts for a nullable text column: a string, \<^verbatim>\<open>null\<close> or \<^verbatim>\<open>undefined\<close>;
  any other value is a validation error, thrown by \<^verbatim>\<open>create\<close>.\<close>

fun textColumn :: "jsval \<Rightarrow> string option option" where
  "textColumn (JStr s) = Some (Some s)"
| "textColumn JNull = Some None"
| "textColumn JUndef = Some None"
| "textColumn v = None"

subsection \<open>One envelope\<close>

definition isMyAction :: "Wallet \<Rightarrow> ParsedMsg \<Rightarrow> bool" where
  "isMyAction wallet parsed =
     (sender parsed = JStr (address wallet) \<or> delegator parsed = JStr (address wallet))"

definition isMyReceipt :: "Wallet \<Rightarrow> ParsedMsg \<Rightarrow> bool" where
  "isMyReceipt wallet parsed =
     (recipient parsed = JStr (address wallet) \<or>
      (case withdrawalAddress wallet of
         None \<Rightarrow> False
       | Some a \<Rightarrow> a \<noteq> [] \<and> recipient parsed = JStr a))"

definition isRelatedToValidator :: "string \<Rightarrow> ParsedMsg \<Rightarrow> bool" where
  "isRelatedToValidator va parsed = (validator parsed = JStr va \<or> dstValidator parsed = JStr va)"

text \<open>The type tag of the record, from the parser's type and the relevant messages (the
  same code in both contexts).\<close>

definition recordType :: "string \<Rightarrow> ParsedMsg list \<Rightarrow> string" where
  "recordType parserType msgs =
     (if length msgs = 1 then parserType
      else
        (let uniqueTypes = unique_js (map type msgs);
             batch = ''(batch:'' @ show_nat (length msgs) @ '')''
         in if starts_with parserType ''Exec/'' then parserType @ batch
            else if length uniqueTypes = 1 then join_with ''+'' uniqueTypes @ batch
            else join_with ''+'' (take 2 uniqueTypes) @ batch))"

definition walletTxExists :: "'a tables_scheme \<Rightarrow> string \<Rightarrow> nat \<Rightarrow> bool" where
  "walletTxExists st h wid =
     list_ex (\<lambda>r. wt_hash r = h \<and> wt_walletId r = wid) (walletTransactions st)"

definition validatorTxExists :: "'a tables_scheme \<Rightarrow> string \<Rightarrow> nat \<Rightarrow> bool" where
  "validatorTxExists st h wid =
     list_ex (\<lambda>r. vt_hash r = h \<and> vt_walletId r = wid) (validatorTransactions st)"

text \<open>
  The wallet context when no record exists yet: the row passed to \<^verbatim>\<open>create\<close> and the
  notifications sent after it, from the relevant messages \<^verbatim>\<open>myWalletMessages\<close> (the first
  and the others).  \<open>None\<close> when the aggregation or \<^verbatim>\<open>create\<close> throws.
\<close>

definition walletRecord ::
  "builtins \<Rightarrow> Wallet \<Rightarrow> TxResponse \<Rightarrow> nat \<Rightarrow> ParsedTx \<Rightarrow> ParsedMsg \<Rightarrow> ParsedMsg list
     \<Rightarrow> (WalletTransaction \<times> notification list) option" where
  "walletRecord bi wallet t h txParserResult firstMsg others =
     do {
       let myWalletMessages = firstMsg # others;
       let direction =
         (if isMyAction wallet firstMsg \<and> \<not> isMyReceipt wallet firstMsg then ''OUT''
          else if \<not> isMyAction wallet firstMsg \<and> isMyReceipt wallet firstMsg then ''IN''
          else ''SELF'');
       aggregatedAmount \<leftarrow> aggregateAmounts bi (map amount myWalletMessages);
       let txType = recordType (type txParserResult) myWalletMessages;
       let shouldUseParserAmount =
         (str_includes txType ''Withdraw'' \<or> str_includes txType ''IBC'' \<or>
          str_includes txType ''RecvPacket'');
       let finalAmount =
         (if shouldUseParserAmount \<and> truthy (amount txParserResult)
          then amount txParserResult else or_js aggregatedAmount (JStr ''0''));
       let finalRecipient =
         (if str_includes txType ''Withdraw'' \<and> truthy (recipient txParserResult)
          then recipient txParserResult
          else or_js (recipient firstMsg)
                 (if isMyReceipt wallet firstMsg then JStr (address wallet) else JNull));
       am \<leftarrow> textColumn finalAmount;
       sd \<leftarrow> textColumn (or_js (sender firstMsg)
               (if isMyAction wallet firstMsg then JStr (address wallet) else JNull));
       rc \<leftarrow> textColumn finalRecipient;
       Some (\<lparr>wt_hash = txhash t, wt_height = h, wt_type = txType, wt_amount = am,
               wt_sender = sd, wt_recipient = rc, wt_direction = direction,
               wt_walletId = wallet_id wallet\<rparr>,
             if notifyWalletTx wallet \<and> present (webhookUrl wallet) \<and>
                ((truthy finalAmount \<and> finalAmount \<noteq> JStr ''0'') \<or>
                 str_includes txType ''Send'' \<or> str_includes txType ''Withdraw'')
             then [\<lparr>note_hash = txhash t, note_type = txType, note_amount = finalAmount,
                    note_category = ''wallet''\<rparr>]
             else [])
     }"

text \<open>The wallet context of the loop body: nothing happens when no message is relevant
  or the record exists.\<close>

definition walletPart ::
  "builtins \<Rightarrow> Wallet \<Rightarrow> TxResponse \<Rightarrow> nat \<Rightarrow> ParsedTx \<Rightarrow> ParsedMsg list \<Rightarrow> page_state
     \<Rightarrow> page_state option" where
  "walletPart bi wallet t h txParserResult parsedAll st =
     (case filter (\<lambda>p. isMyAction wallet p \<or> isMyReceipt wallet p) parsedAll of
        [] \<Rightarrow> Some st
      | firstMsg # others \<Rightarrow>
          if walletTxExists st (txhash t) (wallet_id wallet) then Some st
          else
            (case walletRecord bi wallet t h txParserResult firstMsg others of
               None \<Rightarrow> None
             | Some (row, notes) \<Rightarrow>
                 Some (st\<lparr>walletTransactions := walletTransactions st @ [row],
                          newTxCount := newTxCount st + 1,
                          sent := sent st @ notes\<rparr>)))"

text \<open>The same for the validator context, with the validator address \<open>va\<close> of the
  account.\<close>

definition validatorRecord ::
  "builtins \<Rightarrow> Wallet \<Rightarrow> string \<Rightarrow> TxResponse \<Rightarrow> nat \<Rightarrow> ParsedTx \<Rightarrow> ParsedMsg \<Rightarrow> ParsedMsg list
     \<Rightarrow> (ValidatorTransaction \<times> notification list) option" where
  "validatorRecord bi wallet va t h txParserResult firstMsg others =
     do {
       let myValidatorMessages = firstMsg # others;
       let category =
         (if delegator firstMsg = JStr (address wallet) then ''own'' else ''incoming'');
       aggregatedAmount \<leftarrow> aggregateAmounts bi (map amount myValidatorMessages);
       let txType = recordType (type txParserResult) myValidatorMessages;
       am \<leftarrow> textColumn (or_js aggregatedAmount JNull);
       dg \<leftarrow> textColumn (or_js (delegator firstMsg) JNull);
       vl \<leftarrow> textColumn (or_js (validator firstMsg) (JStr va));
       dv \<leftarrow> textColumn (or_js (dstValidator firstMsg) JNull);
       Some (\<lparr>vt_hash = txhash t, vt_height = h, vt_type = txType, vt_amount = am,
               vt_delegator = dg, vt_validator = vl, vt_dstValidator = dv,
               vt_category = category, vt_walletId = wallet_id wallet\<rparr>,
             if present (webhookUrl wallet) \<and> category = ''incoming'' \<and> notifyValidatorTx wallet
             then [\<lparr>note_hash = txhash t, note_type = txType, note_amount = aggregatedAmount,
                    note_category = ''validator-incoming''\<rparr>]
             else [])
     }"

definition validatorPart ::
  "builtins \<Rightarrow> Wallet \<Rightarrow> TxResponse \<Rightarrow> nat \<Rightarrow> ParsedTx \<Rightarrow> ParsedMsg list \<Rightarrow> page_state
     \<Rightarrow> page_state option" where
  "validatorPart bi wallet t h txParserResult parsedAll st =
     (case valAddress wallet of
        None \<Rightarrow> Some st
      | Some va \<Rightarrow>
          if va = [] then Some st
          else
            (case filter (isRelatedToValidator va) parsedAll of
               [] \<Rightarrow> Some st
             | firstMsg # others \<Rightarrow>
                 if validatorTxExists st (txhash t) (wallet_id wallet) then Some st
                 else
                   (case validatorRecord bi wallet va t h txParserResult firstMsg others of
                      None \<Rightarrow> None
                    | Some (row, notes) \<Rightarrow>
                        Some (st\<lparr>validatorTransactions := validatorTransactions st @ [row],
                                 newTxCount := newTxCount st + 1,
                                 sent := sent st @ notes\<rparr>))))"

text \<open>What the loop body computes before it touches the store: all messages, the
  parser's result, and \<^verbatim>\<open>parseMessage\<close> of every message.  \<open>None\<close> when one of them throws.\<close>

definition interpretTx :: "builtins \<Rightarrow> TxResponse \<Rightarrow> (ParsedTx \<times> ParsedMsg list) option" where
  "interpretTx bi t =
     do {
       allMessages \<leftarrow> extractAllMessages (case tx t of None \<Rightarrow> [] | Some messages \<Rightarrow> messages);
       txParserResult \<leftarrow> parse bi t;
       parsedAll \<leftarrow> map_js (parseMessage bi) allMessages;
       Some (txParserResult, parsedAll)
     }"

text \<open>
  The body of the loop over the envelopes of one page.  \<open>Inr\<close> is the state after the
  body; \<open>Inl\<close> is the state at the moment the body throws.
\<close>

definition processTx :: "builtins \<Rightarrow> Wallet \<Rightarrow> page_state \<Rightarrow> TxResponse \<Rightarrow> page_state + page_state" where
  "processTx bi wallet st t =
     (if txhash t = [] then Inr st
      else
        (case height t of
           None \<Rightarrow> Inr st
         | Some h \<Rightarrow>
             (case interpretTx bi t of
                None \<Rightarrow> Inl st
              | Some (txParserResult, parsedAll) \<Rightarrow>
                  (case walletPart bi wallet t h txParserResult parsedAll st of
                     None \<Rightarrow> Inl st
                   | Some st1 \<Rightarrow>
                       (case validatorPart bi wallet t h txParserResult parsedAll st1 of
                          None \<Rightarrow> Inl st1
                        | Some st2 \<Rightarrow> Inr st2)))))"

fun processTxs :: "builtins \<Rightarrow> Wallet \<Rightarrow> page_state \<Rightarrow> TxResponse list \<Rightarrow> page_state + page_state" where
  "processTxs bi wallet st [] = Inr st"
| "processTxs bi wallet st (t # ts) =
     (case processTx bi wallet st t of
        Inl thrown \<Rightarrow> Inl thrown
      | Inr st' \<Rightarrow> processTxs bi wallet st' ts)"

text \<open>
  \<^verbatim>\<open>prisma.$transaction\<close> around the loop: when the callback throws, the writes of the
  page are rolled back, and the notifications already sent stay sent.  The result is
  \<^verbatim>\<open>newTxCount\<close> when the page committed, the tables, and the notifications.
\<close>

definition runPage ::
  "builtins \<Rightarrow> Wallet \<Rightarrow> tables \<Rightarrow> notification list \<Rightarrow> TxResponse list
     \<Rightarrow> nat option \<times> tables \<times> notification list" where
  "runPage bi wallet db out page_txs =
     (case processTxs bi wallet
             \<lparr>walletTransactions = walletTransactions db,
              validatorTransactions = validatorTransactions db, newTxCount = 0, sent = out\<rparr>
             page_txs of
        Inl thrown \<Rightarrow> (None, db, sent thrown)
      | Inr st \<Rightarrow>
          (Some (newTxCount st),
           \<lparr>walletTransactions = walletTransactions st,
            validatorTransactions = validatorTransactions st\<rparr>,
           sent st))"

subsection \<open>The lock manager (\<^verbatim>\<open>lock.ts\<close>) and the system state\<close>

text \<open>
  The lock table maps a key to the time of acquisition and the operation.  The timer that
  releases a lock by force after its timeout is not part of the model: the crawl is
  followed as one sequential run, and time passes only where the code sleeps.

  The system state is the \<^verbatim>\<open>Wallet\<close> table, the two transaction tables, the lock table,
  the notifications sent, and the clock in milliseconds.
\<close>

record LockInfo =
  acquired :: int
  operation :: string

record system =
  wallets :: "Wallet list"
  store :: tables
  locks :: "(string \<times> LockInfo) list"
  notified :: "notification list"
  clock :: int

definition isLocked :: "system \<Rightarrow> string \<Rightarrow> bool" where
  "isLocked sys k = (map_of (locks sys) k \<noteq> None)"

definition acquire :: "string \<Rightarrow> string \<Rightarrow> system \<Rightarrow> bool \<times> system" where
  "acquire k op sys =
     (if isLocked sys k then (False, sys)
      else (True, sys\<lparr>locks := locks sys @ [(k, \<lparr>acquired = clock sys, operation = op\<rparr>)]\<rparr>))"

definition release :: "string \<Rightarrow> system \<Rightarrow> system" where
  "release k sys = sys\<lparr>locks := filter (\<lambda>kv. fst kv \<noteq> k) (locks sys)\<rparr>"

text \<open>\<^verbatim>\<open>acquireWithRetry\<close> with \<open>n\<close> attempts left: a failed attempt that is not the last
  one sleeps for the delay.\<close>

fun acquireWithRetry :: "string \<Rightarrow> string \<Rightarrow> nat \<Rightarrow> int \<Rightarrow> system \<Rightarrow> bool \<times> system" where
  "acquireWithRetry k op 0 retryDelayMs sys = (False, sys)"
| "acquireWithRetry k op (Suc n) retryDelayMs sys =
     (if fst (acquire k op sys) then acquire k op sys
      else if 0 < n
        then acquireWithRetry k op n retryDelayMs (sys\<lparr>clock := clock sys + retryDelayMs\<rparr>)
      else (False, sys))"

subsection \<open>The page loop of one filter\<close>

text \<open>
  What one call of \<^verbatim>\<open>fetchIndexerMode\<close> gives the loop: a page of envelopes, or the error
  it throws.  The loop is run against a list of such outcomes, one for each pass; it
  stops when \<^verbatim>\<open>running\<close> is false or the list is used up.
\<close>

datatype fetch_outcome = Fetched "TxResponse list" | Threw js_error

record loop_state =
  running :: bool
  iterHeight :: nat
  page :: nat
  consecutiveErrors :: nat
  db :: tables
  out :: "notification list"
  now :: int

definition sleep :: "int \<Rightarrow> loop_state \<Rightarrow> loop_state" where
  "sleep ms s = s\<lparr>now := now s + ms\<rparr>"

text \<open>The end of the \<^verbatim>\<open>catch\<close> block, reached by an error no branch has handled.\<close>

definition genericError :: "loop_state \<Rightarrow> loop_state" where
  "genericError s =
     (if 5 \<le> consecutiveErrors s then s\<lparr>running := False\<rparr> else sleep 2000 s)"

text \<open>The \<^verbatim>\<open>catch\<close> block of the loop.\<close>

definition onError :: "loop_state \<Rightarrow> js_error \<Rightarrow> loop_state" where
  "onError s0 error =
     (let s = s0\<lparr>consecutiveErrors := consecutiveErrors s0 + 1\<rparr> in
      case error of
        OtherError \<Rightarrow> genericError s
      | AxiosError response \<Rightarrow>
          (case response of
             None \<Rightarrow> genericError s
           | Some status \<Rightarrow>
               if status \<noteq> 0 \<and> status \<in> set [502, 503, 504] then
                 (if 3 \<le> consecutiveErrors s then (sleep 10000 s)\<lparr>running := False\<rparr>
                  else sleep 10000 s)
               else if status = 429 then sleep 5000 s
               else if status \<noteq> 0 \<and> status \<in> set [400, 500, 501] then s\<lparr>running := False\<rparr>
               else genericError s))"

text \<open>One pass of the \<^verbatim>\<open>while\<close> loop.  A page whose transaction throws is an error that is
  not an HTTP error, met after the counter was reset.\<close>

definition pageStep :: "builtins \<Rightarrow> Wallet \<Rightarrow> loop_state \<Rightarrow> fetch_outcome \<Rightarrow> loop_state" where
  "pageStep bi wallet s outcome =
     (case outcome of
        Threw error \<Rightarrow> onError s error
      | Fetched page_txs \<Rightarrow>
          if page_txs = [] then s\<lparr>consecutiveErrors := 0, running := False\<rparr>
          else
            (case runPage bi wallet (db s) (out s) page_txs of
               (None, db', out') \<Rightarrow> onError (s\<lparr>consecutiveErrors := 0, out := out'\<rparr>) OtherError
             | (Some saved, db', out') \<Rightarrow>
                 (let lastHeight = (case height (last page_txs) of
                                      None \<Rightarrow> iterHeight s
                                    | Some h \<Rightarrow> h);
                      s1 = s\<lparr>consecutiveErrors := 0, db := db', out := out'\<rparr>;
                      s2 = (if iterHeight s < lastHeight
                            then s1\<lparr>iterHeight := lastHeight, page := 1\<rparr>
                            else s1\<lparr>page := page s1 + 1\<rparr>);
                      s3 = (if length page_txs < 100 then s2\<lparr>running := False\<rparr> else s2)
                  in sleep 200 s3)))"

fun pageLoop ::
  "builtins \<Rightarrow> Wallet \<Rightarrow> loop_state \<Rightarrow> fetch_outcome list \<Rightarrow> loop_state \<times> fetch_outcome list" where
  "pageLoop bi wallet s [] = (s, [])"
| "pageLoop bi wallet s (outcome # outcomes) =
     (if running s then pageLoop bi wallet (pageStep bi wallet s outcome) outcomes
      else (s, outcome # outcomes))"

subsection \<open>The crawl of one account: \<^verbatim>\<open>backfillWalletHistory\<close>\<close>

definition lockKeyOf :: "nat \<Rightarrow> string" where
  "lockKeyOf walletId = ''sync:wallet:'' @ show_nat walletId"

definition findWallet :: "system \<Rightarrow> nat \<Rightarrow> Wallet option" where
  "findWallet sys walletId = find (\<lambda>w. wallet_id w = walletId) (wallets sys)"

text \<open>\<^verbatim>\<open>prisma.wallet.updateMany\<close> and \<^verbatim>\<open>update\<close>: the rows that meet the condition are
  changed.\<close>

definition updateWallets :: "(Wallet \<Rightarrow> bool) \<Rightarrow> (Wallet \<Rightarrow> Wallet) \<Rightarrow> system \<Rightarrow> system" where
  "updateWallets cond change sys =
     sys\<lparr>wallets := map (\<lambda>w. if cond w then change w else w) (wallets sys)\<rparr>"

definition eventQueries :: "Wallet \<Rightarrow> string list" where
  "eventQueries wallet =
     [''message.sender='' @ [CHR 0x27] @ address wallet @ [CHR 0x27],
      ''transfer.recipient='' @ [CHR 0x27] @ address wallet @ [CHR 0x27]]
     @ (case withdrawalAddress wallet of
          None \<Rightarrow> []
        | Some a \<Rightarrow> if a \<noteq> [] \<and> a \<noteq> address wallet
                    then [''transfer.recipient='' @ [CHR 0x27] @ a @ [CHR 0x27]] else [])
     @ (case valAddress wallet of
          None \<Rightarrow> []
        | Some va \<Rightarrow>
            if va \<noteq> [] then
              [''delegate.validator='' @ [CHR 0x27] @ va @ [CHR 0x27],
               ''redelegate.destination_validator='' @ [CHR 0x27] @ va @ [CHR 0x27],
               ''unbond.validator='' @ [CHR 0x27] @ va @ [CHR 0x27],
               ''redelegate.source_validator='' @ [CHR 0x27] @ va @ [CHR 0x27]]
            else [])"

text \<open>The height to resume from: the greatest height stored for the account in either
  table, 0 when there is none.\<close>

definition startHeightOf :: "system \<Rightarrow> nat \<Rightarrow> nat" where
  "startHeightOf sys walletId =
     max (foldr max (map wt_height (filter (\<lambda>r. wt_walletId r = walletId)
                                       (walletTransactions (store sys)))) 0)
         (foldr max (map vt_height (filter (\<lambda>r. vt_walletId r = walletId)
                                       (validatorTransactions (store sys)))) 0)"

text \<open>
  The loop over the filters.  \<open>None\<close> means that the outcomes were used up while a page
  loop was still running: the crawl has not ended.  Otherwise the result is the state
  at the end of the \<^verbatim>\<open>try\<close> block and the outcomes left over.
\<close>

fun crawlQueries ::
  "builtins \<Rightarrow> Wallet \<Rightarrow> nat \<Rightarrow> string list \<Rightarrow> system \<Rightarrow> fetch_outcome list
     \<Rightarrow> (system \<times> fetch_outcome list) option" where
  "crawlQueries bi wallet startHeight [] sys outcomes = Some (sys, outcomes)"
| "crawlQueries bi wallet startHeight (queryEvent # queries) sys outcomes =
     (if findWallet sys (wallet_id wallet) = None then Some (sys, outcomes)
      else
        (case pageLoop bi wallet
                \<lparr>running = True, iterHeight = startHeight, page = 1, consecutiveErrors = 0,
                 db = store sys, out = notified sys, now = clock sys\<rparr> outcomes of
           (s, rest) \<Rightarrow>
             if running s then None
             else crawlQueries bi wallet startHeight queries
                    (updateWallets (\<lambda>w. wallet_id w = wallet_id wallet)
                       (\<lambda>w. w\<lparr>lastSyncHeartbeat := Some (now s)\<rparr>)
                       (sys\<lparr>store := db s, notified := out s, clock := now s\<rparr>))
                    rest))"

text \<open>The \<^verbatim>\<open>try\<close> block, entered with the lock held.\<close>

definition crawlBody ::
  "builtins \<Rightarrow> nat \<Rightarrow> system \<Rightarrow> fetch_outcome list \<Rightarrow> (system \<times> fetch_outcome list) option" where
  "crawlBody bi walletId sys outcomes =
     (case findWallet sys walletId of
        None \<Rightarrow> Some (sys, outcomes)
      | Some wallet \<Rightarrow>
          (let free = (\<lambda>w. wallet_id w = walletId \<and> \<not> isSyncing w);
               updated_count = length (filter free (wallets sys));
               sys1 = updateWallets free
                        (\<lambda>w. w\<lparr>isSyncing := True, lastSyncHeartbeat := Some (clock sys)\<rparr>) sys
           in if updated_count = 0 then Some (sys1, outcomes)
              else crawlQueries bi wallet (startHeightOf sys1 (wallet_id wallet))
                     (eventQueries wallet) sys1 outcomes))"

text \<open>The \<^verbatim>\<open>finally\<close> block: it runs on every way out of the \<^verbatim>\<open>try\<close> block, the two
  early \<^verbatim>\<open>return\<close>s included.\<close>

definition crawlCleanup :: "nat \<Rightarrow> system \<Rightarrow> system" where
  "crawlCleanup walletId sys =
     release (lockKeyOf walletId)
       (updateWallets (\<lambda>w. wallet_id w = walletId) (\<lambda>w. w\<lparr>isSyncing := False\<rparr>) sys)"

definition backfillWalletHistory ::
  "builtins \<Rightarrow> nat \<Rightarrow> system \<Rightarrow> fetch_outcome list \<Rightarrow> (system \<times> fetch_outcome list) option" where
  "backfillWalletHistory bi walletId sys outcomes =
     (let got = acquireWithRetry (lockKeyOf walletId) ''backfillWalletHistory'' 3 2000 sys in
      if \<not> fst got then Some (snd got, outcomes)
      else
        (case crawlBody bi walletId (snd got) outcomes of
           None \<Rightarrow> None
         | Some (sys', rest) \<Rightarrow> Some (crawlCleanup walletId sys', rest)))"

subsection \<open>The reaper at the start of \<^verbatim>\<open>syncAllWallets\<close>\<close>

definition STUCK_THRESHOLD_MS :: int where
  "STUCK_THRESHOLD_MS = 10 * 60 * 1000"

text \<open>The age of a heartbeat; \<^verbatim>\<open>Infinity\<close> when there is none.\<close>

datatype age = Finite int | Infinity

definition heartbeatAge :: "int \<Rightarrow> Wallet \<Rightarrow> age" where
  "heartbeatAge current w =
     (case lastSyncHeartbeat w of None \<Rightarrow> Infinity | Some beat \<Rightarrow> Finite (current - beat))"

text \<open>\<^verbatim>\<open>heartbeatAge > STUCK_THRESHOLD_MS\<close>.\<close>

definition isStuck :: "age \<Rightarrow> bool" where
  "isStuck a = (case a of Infinity \<Rightarrow> True | Finite ms \<Rightarrow> STUCK_THRESHOLD_MS < ms)"

text \<open>The body of the loop over the wallets found syncing, and the loop.\<close>

definition resetIfStuck :: "int \<Rightarrow> system \<Rightarrow> Wallet \<Rightarrow> system" where
  "resetIfStuck current sys w =
     (if isStuck (heartbeatAge current w) then
        release (lockKeyOf (wallet_id w))
          (updateWallets (\<lambda>x. wallet_id x = wallet_id w) (\<lambda>x. x\<lparr>isSyncing := False\<rparr>) sys)
      else sys)"

definition reapStuckWallets :: "system \<Rightarrow> system" where
  "reapStuckWallets sys =
     foldl (resetIfStuck (clock sys)) sys (filter isSyncing (wallets sys))"

subsection \<open>Envelopes that are already recorded\<close>

text \<open>
  An envelope is relevant in the wallet context when \<^verbatim>\<open>myWalletMessages\<close> is not empty,
  and in the validator context when the account has a validator address and
  \<^verbatim>\<open>myValidatorMessages\<close> is not empty.
\<close>

definition walletRelevant :: "Wallet \<Rightarrow> ParsedMsg list \<Rightarrow> bool" where
  "walletRelevant wallet parsedAll =
     (filter (\<lambda>p. isMyAction wallet p \<or> isMyReceipt wallet p) parsedAll \<noteq> [])"

definition validatorRelevant :: "Wallet \<Rightarrow> ParsedMsg list \<Rightarrow> bool" where
  "validatorRelevant wallet parsedAll =
     (case valAddress wallet of
        None \<Rightarrow> False
      | Some va \<Rightarrow> va \<noteq> [] \<and> filter (isRelatedToValidator va) parsedAll \<noteq> [])"

text \<open>
  An envelope is recorded in the tables when, in each context where it is relevant, a
  record with its hash and the account's id exists.  An envelope the loop skips (no hash,
  no height) or cannot interpret has nothing to record.
\<close>

definition recorded :: "builtins \<Rightarrow> Wallet \<Rightarrow> 'a tables_scheme \<Rightarrow> TxResponse \<Rightarrow> bool" where
  "recorded bi wallet tbl t =
     (if txhash t = [] \<or> height t = None then True
      else
        (case interpretTx bi t of
           None \<Rightarrow> True
         | Some (txParserResult, parsedAll) \<Rightarrow>
             (if walletRelevant wallet parsedAll
              then walletTxExists tbl (txhash t) (wallet_id wallet) else True) \<and>
             (if validatorRelevant wallet parsedAll
              then validatorTxExists tbl (txhash t) (wallet_id wallet) else True)))"

text \<open>The envelopes of the pages among the outcomes of a loop.\<close>

definition fetchedEnvelopes :: "fetch_outcome list \<Rightarrow> TxResponse list" where
  "fetchedEnvelopes outcomes =
     concat (map (\<lambda>outcome. case outcome of Fetched page_txs \<Rightarrow> page_txs | Threw e \<Rightarrow> [])
               outcomes)"

text \<open>
  The second table keeps every record of the first: each pair of hash and account id
  found in a table of \<open>old\<close> is found in the same table of \<open>new\<close>.  The crawl never deletes
  a record, so this holds between the tables at any two moments of a run.
\<close>

definition keepsRecords :: "'a tables_scheme \<Rightarrow> 'b tables_scheme \<Rightarrow> bool" where
  "keepsRecords old new =
     (set (map (\<lambda>r. (wt_hash r, wt_walletId r)) (walletTransactions old))
        \<subseteq> set (map (\<lambda>r. (wt_hash r, wt_walletId r)) (walletTransactions new))
      \<and> set (map (\<lambda>r. (vt_hash r, vt_walletId r)) (validatorTransactions old))
        \<subseteq> set (map (\<lambda>r. (vt_hash r, vt_walletId r)) (validatorTransactions new)))"

text \<open>
  A run of pages of which each one commits: the transactions of the loop one after the
  other, each on the tables the one before has left.  \<open>None\<close> when the transaction of a
  page throws.
\<close>

fun commitPages ::
  "builtins \<Rightarrow> Wallet \<Rightarrow> tables \<Rightarrow> notification list \<Rightarrow> TxResponse list list
     \<Rightarrow> (tables \<times> notification list) option" where
  "commitPages bi wallet tbl out' [] = Some (tbl, out')"
| "commitPages bi wallet tbl out' (page_txs # pages) =
     (case runPage bi wallet tbl out' page_txs of
        (None, tbl', out'') \<Rightarrow> None
      | (Some saved, tbl', out'') \<Rightarrow> commitPages bi wallet tbl' out'' pages)"

section \<open>Properties of the message interpreter\<close>

declare str_includes.simps [simp del]

subsection \<open>Evaluation of the string tests on the type tags used below\<close>

lemma last_segment_MsgVote: "last_segment ''/cosmos.gov.v1beta1.MsgVote'' = ''MsgVote''"
  by code_simp

lemma MsgVote_includes:
  "\<not> str_includes ''MsgVote'' ''RecvPacket''"
  "\<not> str_includes ''MsgVote'' ''Unjail''"
  "\<not> str_includes ''MsgVote'' ''Exec''"
  "\<not> str_includes ''MsgVote'' ''Withdraw''"
  "\<not> str_includes ''/cosmos.gov.v1beta1.MsgVote'' ''RecvPacket''"
  by code_simp+

subsection \<open>The interpreter can throw\<close>

text \<open>
  Claim C3 says that \<^verbatim>\<open>TxParser.parse\<close> never throws, in particular not on an
  authorized-execution message whose inner message has an empty \<^verbatim>\<open>amount\<close> array.  Step 7
  of \<^verbatim>\<open>extractByPattern\<close> reads \<^verbatim>\<open>coin.amount\<close> of \<^verbatim>\<open>meaningfulMsg.amount[0]\<close> without the
  test step 1 makes, so on that envelope the call throws: \<open>parse\<close> is \<open>None\<close>, whatever the
  library functions, the hash, the height, the logs and the events are.
\<close>

theorem parse_throws_on_empty_inner_amount:
  "parse bi
     \<lparr>txhash = h, height = ht,
      tx = Some [JObj [(''@type'', JStr ''/cosmos.authz.v1beta1.MsgExec''),
                       (''grantee'', JStr ''grantee1''),
                       (''msgs'', JArr [JObj [(''@type'', JStr ''/cosmos.bank.v1beta1.MsgSend''),
                                              (''from_address'', JStr ''granter1''),
                                              (''to_address'', JStr ''user1''),
                                              (''amount'', JArr [])]])]],
      logs = lg, events = evs\<rparr> = None"
  by code_simp

text \<open>The same inner message at the top level is parsed: step 1 tests the first coin.\<close>

lemma parse_empty_amount_top_level:
  "map_option amount (parse bi
     \<lparr>txhash = h, height = ht,
      tx = Some [JObj [(''@type'', JStr ''/cosmos.bank.v1beta1.MsgSend''),
                       (''from_address'', JStr ''granter1''),
                       (''to_address'', JStr ''user1''),
                       (''amount'', JArr [])]],
      logs = None, events = None\<rparr>) = Some JNull"
  by code_simp

subsection \<open>Amounts derived from the logs and the events\<close>

text \<open>
  Claim C4 says that the amount derived from \<^verbatim>\<open>withdraw_rewards\<close> and
  \<^verbatim>\<open>withdraw_commission\<close> events is the sum of the quantities of one denomination, over
  every comma-separated coin.  \<^verbatim>\<open>extractAmountFromLogs\<close> adds the quantities of all coins
  and labels the sum with the first denomination: \<^verbatim>\<open>100uatom,50ibc\<close> gives
  \<^verbatim>\<open>150uatom\<close>.  \<^verbatim>\<open>enhanceWithdrawData\<close> does not split at the commas and reads the
  first coin only: \<^verbatim>\<open>100uatom,50uatom\<close> gives \<^verbatim>\<open>100uatom\<close>.
\<close>

theorem log_amount_mixes_denominations:
  "extractAmountFromLogs
     (Some [\<lparr>log_events = Some
              [\<lparr>ev_type = ''withdraw_rewards'',
                attributes = Some [\<lparr>attr_key = ''amount'', attr_value = ''100uatom,50ibc''\<rparr>]\<rparr>]\<rparr>])
     = JStr ''150uatom''
   \<and> amount (enhanceWithdrawData
        \<lparr>txhash = h, height = ht, tx = msgs, logs = lg,
         events = Some
           [\<lparr>ev_type = ''withdraw_rewards'',
             attributes = Some [\<lparr>attr_key = ''amount'', attr_value = ''100uatom,50uatom''\<rparr>]\<rparr>]\<rparr>
        (emptyResult ''MsgWithdrawDelegatorReward''))
     = JStr ''100uatom''"
  by code_simp

subsection \<open>The fee collector as recipient\<close>

text \<open>The resolver over the events skips the fee collector: an address it returns does
  not contain the module's suffix.\<close>

lemma scanRecipientEvents_not_fee_collector:
  "scanRecipientEvents evs = JStr a \<Longrightarrow> \<not> str_includes a feeCollector"
  by (induction evs) (auto simp: eventAddress_def split: option.splits if_splits)

lemma extractRecipientFromEvents_not_fee_collector:
  "extractRecipientFromEvents evs = JStr a \<Longrightarrow> \<not> str_includes a feeCollector"
  by (cases evs) (auto simp: extractRecipientFromEvents_def
      dest: scanRecipientEvents_not_fee_collector)

text \<open>
  Claim C6 says that no fallback path returns an address of the fee collector.  The
  resolver over the logs, \<^verbatim>\<open>extractRecipientFromLogs\<close>, has no such test.  For a withdrawal
  whose envelope has no \<^verbatim>\<open>events\<close> and whose log starts with the transfer of the fee,
  \<^verbatim>\<open>parse\<close> reports the fee collector as recipient, and not the delegator the second
  transfer pays.
\<close>

theorem parse_reports_fee_collector_from_logs:
  "map_option recipient (parse bi
     \<lparr>txhash = h, height = ht,
      tx = Some [JObj [(''@type'', JStr ''/cosmos.distribution.v1beta1.MsgWithdrawDelegatorReward''),
                       (''delegator_address'', JStr ''cosmos1delegator''),
                       (''validator_address'', JStr ''cosmosvaloper1validator'')]],
      logs = Some [\<lparr>log_events = Some
               [\<lparr>ev_type = ''transfer'',
                 attributes = Some
                   [\<lparr>attr_key = ''recipient'',
                     attr_value = ''cosmos17xpfvakm2amg962yls6f84z3kell8c5lserqta''\<rparr>,
                    \<lparr>attr_key = ''sender'', attr_value = ''cosmos1delegator''\<rparr>,
                    \<lparr>attr_key = ''amount'', attr_value = ''500uatom''\<rparr>]\<rparr>,
                \<lparr>ev_type = ''transfer'',
                 attributes = Some
                   [\<lparr>attr_key = ''recipient'', attr_value = ''cosmos1delegator''\<rparr>,
                    \<lparr>attr_key = ''amount'', attr_value = ''100uatom''\<rparr>]\<rparr>]\<rparr>],
      events = None\<rparr>)
     = Some (JStr ''cosmos17xpfvakm2amg962yls6f84z3kell8c5lserqta'')
   \<and> str_includes ''cosmos17xpfvakm2amg962yls6f84z3kell8c5lserqta'' feeCollector"
  by code_simp

subsection \<open>A vote with a falsy option\<close>

lemma vote_extractByPattern:
  assumes "\<not> truthy opt"
  shows "\<exists>r. extractByPattern bi
                (JObj [(''@type'', JStr ''/cosmos.gov.v1beta1.MsgVote''), (''proposal_id'', pid),
                       (''voter'', voter), (''option'', opt)])
                (emptyResult ''MsgVote'') = Some r
              \<and> amount r = JNull \<and> type r = ''MsgVote''"
  using assms
  by (simp add: extractByPattern_def amountPatterns_def has_coin_def isRecvPacket_def
      MsgVote_includes afterPacket_def multiSend_def senderRecipient_def validatorFields_def
      governance_def unjail_def authzExec_def emptyResult_def)

text \<open>
  Claim C10: for a single vote message that carries a \<^verbatim>\<open>proposal_id\<close>, the amount
  \<^verbatim>\<open>Prop #<id>: <OPTION>\<close> is made only when \<^verbatim>\<open>option\<close> is truthy.  With an option that is
  not (the number 0, the empty string) the body leaves the amount unset and \<^verbatim>\<open>parse\<close>
  returns what the logs give (\<^verbatim>\<open>null\<close> without logs), although \<^verbatim>\<open>parseVoteOption\<close> would
  map the index 0 to \<^verbatim>\<open>EMPTY\<close>.
\<close>

theorem vote_option_falsy_amount_unresolved:
  assumes "\<not> truthy opt"
  shows "map_option amount (parse bi
           \<lparr>txhash = h, height = ht,
            tx = Some [JObj [(''@type'', JStr ''/cosmos.gov.v1beta1.MsgVote''),
                             (''proposal_id'', pid), (''voter'', voter), (''option'', opt)]],
            logs = lg, events = evs\<rparr>) = Some (extractAmountFromLogs lg)
         \<and> parseVoteOption bi (JNum 0) = Some ''EMPTY''"
proof -
  obtain r where r:
    "extractByPattern bi
       (JObj [(''@type'', JStr ''/cosmos.gov.v1beta1.MsgVote''), (''proposal_id'', pid),
              (''voter'', voter), (''option'', opt)])
       (emptyResult ''MsgVote'') = Some r"
    "amount r = JNull" "type r = ''MsgVote''"
    using vote_extractByPattern [OF assms] by blast
  have "parseVoteOption bi (JNum 0) = Some ''EMPTY''"
    by (simp add: parseVoteOption_def opts_def)
  then show ?thesis
    by (simp add: parse_def first_js_def parseSingle_def or_js_def last_segment_MsgVote r
        MsgVote_includes logFallbacks_def Let_def)
qed

theorem vote_option_falsy_amount_unresolved_witness:
  "\<not> truthy (JNum 0)
   \<and> map_option amount (parse \<lparr>decodePacket = (\<lambda>d. None), stringToIndex = (\<lambda>s. None), inheritedMember = (\<lambda>k. None),
     numberToString = (\<lambda>n. [])\<rparr>
        \<lparr>txhash = ''A1'', height = Some 7,
         tx = Some [JObj [(''@type'', JStr ''/cosmos.gov.v1beta1.MsgVote''),
                          (''proposal_id'', JStr ''42''), (''voter'', JStr ''cosmos1voter''),
                          (''option'', JNum 0)]],
         logs = None, events = None\<rparr>) = Some JNull"
  using vote_option_falsy_amount_unresolved
          [of "JNum 0" "\<lparr>decodePacket = (\<lambda>d. None), stringToIndex = (\<lambda>s. None), inheritedMember = (\<lambda>k. None),
     numberToString = (\<lambda>n. [])\<rparr>"
              "''A1''" "Some 7" "JStr ''42''" "JStr ''cosmos1voter''" None None]
  by (simp add: extractAmountFromLogs_def)

text \<open>With a truthy option the amount is made: the vote of the spec's example.\<close>

lemma vote_option_yes:
  "map_option amount (parse bi
     \<lparr>txhash = h, height = ht,
      tx = Some [JObj [(''@type'', JStr ''/cosmos.gov.v1beta1.MsgVote''),
                       (''proposal_id'', JStr ''42''), (''voter'', JStr ''cosmos1voter''),
                       (''option'', JNum 1)]],
      logs = lg, events = evs\<rparr>) = Some (JStr ''Prop #42: YES'')"
  by code_simp

subsection \<open>A reward and a commission withdrawn in one transaction\<close>

text \<open>The sums and the denomination the loop of \<^verbatim>\<open>enhanceWithdrawData\<close> ends with.\<close>

lemma withdrawEvent_reward:
  "totalRewardAmount (fst (withdrawEvent (t, r) ev)) =
     totalRewardAmount t + (if ev_type ev = ''withdraw_rewards'' then coinQty ev else 0)"
  by (simp add: withdrawEvent_def coinQty_def Let_def split: option.splits)

lemma withdrawEvent_commission:
  "totalCommissionAmount (fst (withdrawEvent (t, r) ev)) =
     totalCommissionAmount t + (if ev_type ev = ''withdraw_commission'' then coinQty ev else 0)"
  by (simp add: withdrawEvent_def coinQty_def Let_def split: option.splits)

lemma foldl_withdrawEvent_reward:
  "totalRewardAmount (fst (foldl withdrawEvent (t, r) evs)) =
     totalRewardAmount t + sum_list (map coinQty (filter (\<lambda>e. ev_type e = ''withdraw_rewards'') evs))"
proof (induction evs arbitrary: t r)
  case Nil
  then show ?case by simp
next
  case (Cons e es)
  obtain t' r' where step: "withdrawEvent (t, r) e = (t', r')"
    by (cases "withdrawEvent (t, r) e")
  have "totalRewardAmount t' = totalRewardAmount t + (if ev_type e = ''withdraw_rewards'' then coinQty e else 0)"
    using withdrawEvent_reward [of t r e] step by simp
  then show ?case using Cons.IH [of t' r'] step by simp
qed

lemma foldl_withdrawEvent_commission:
  "totalCommissionAmount (fst (foldl withdrawEvent (t, r) evs)) =
     totalCommissionAmount t + sum_list (map coinQty (filter (\<lambda>e. ev_type e = ''withdraw_commission'') evs))"
proof (induction evs arbitrary: t r)
  case Nil
  then show ?case by simp
next
  case (Cons e es)
  obtain t' r' where step: "withdrawEvent (t, r) e = (t', r')"
    by (cases "withdrawEvent (t, r) e")
  have "totalCommissionAmount t' = totalCommissionAmount t + (if ev_type e = ''withdraw_commission'' then coinQty e else 0)"
    using withdrawEvent_commission [of t r e] step by simp
  then show ?case using Cons.IH [of t' r'] step by simp
qed

lemma withdrawEvent_denom:
  "denom (fst (withdrawEvent (t, r) ev)) =
     (if denom t = [] \<and> isWithdrawEvent ev
      then (case firstCoin ev of None \<Rightarrow> [] | Some (q, d) \<Rightarrow> d) else denom t)"
  by (simp add: withdrawEvent_def isWithdrawEvent_def Let_def split: option.splits)

lemma foldl_withdrawEvent_denom_keeps:
  "denom t \<noteq> [] \<Longrightarrow> denom (fst (foldl withdrawEvent (t, r) evs)) = denom t"
proof (induction evs arbitrary: t r)
  case Nil
  then show ?case by simp
next
  case (Cons e es)
  obtain t' r' where step: "withdrawEvent (t, r) e = (t', r')"
    by (cases "withdrawEvent (t, r) e")
  have "denom t' = denom t"
    using withdrawEvent_denom [of t r e] step Cons.prems by simp
  then show ?case using Cons.IH [of t' r'] step Cons.prems by simp
qed

lemma foldl_withdrawEvent_denom:
  assumes "e \<in> set evs" "isWithdrawEvent e" "firstCoin e = Some (q, d)" "d \<noteq> []"
    and "list_all (\<lambda>x. case firstCoin x of None \<Rightarrow> True | Some (q', d') \<Rightarrow> d' = d) (filter isWithdrawEvent evs)"
    and "denom t = []"
  shows "denom (fst (foldl withdrawEvent (t, r) evs)) = d"
  using assms
proof (induction evs arbitrary: t r)
  case Nil
  then show ?case by simp
next
  case (Cons x xs)
  obtain t' r' where step: "withdrawEvent (t, r) x = (t', r')"
    by (cases "withdrawEvent (t, r) x")
  have t': "denom t' = (if isWithdrawEvent x then (case firstCoin x of None \<Rightarrow> [] | Some (q, d) \<Rightarrow> d) else [])"
    using withdrawEvent_denom [of t r x] step Cons.prems(6) by simp
  show ?case
  proof (cases "denom t' = []")
    case True
    then have "x \<noteq> e" using t' Cons.prems(2,3,4) by auto
    then have "e \<in> set xs" using Cons.prems(1) by simp
    moreover have "list_all (\<lambda>x. case firstCoin x of None \<Rightarrow> True | Some (q', d') \<Rightarrow> d' = d) (filter isWithdrawEvent xs)"
      using Cons.prems(5) by (simp split: if_splits)
    ultimately show ?thesis
      using Cons.IH [of t' r'] Cons.prems(2,3,4) True step by simp
  next
    case False
    then have "denom t' = d"
      using t' Cons.prems(5) by (auto split: if_splits option.splits)
    then show ?thesis
      using foldl_withdrawEvent_denom_keeps [of t' r' xs] step Cons.prems(4) by simp
  qed
qed

lemma withdrawEvent_type: "type (snd (withdrawEvent st ev)) = type (snd st)"
  by (simp add: withdrawEvent_def Let_def split: option.splits)

lemma foldl_withdrawEvent_type: "type (snd (foldl withdrawEvent st evs)) = type (snd st)"
  by (induction evs arbitrary: st) (simp_all add: withdrawEvent_type)

lemma coin_100: "coin_match ''100denom'' = Some (''100'', ''denom'')" by code_simp
lemma coin_50: "coin_match ''50denom'' = Some (''50'', ''denom'')" by code_simp
lemma d100: "digits_to_nat ''100'' = 100" "digits_to_nat ''50'' = 50" by code_simp+
lemma s150: "show_nat 150 = ''150''" "show_nat 100 = ''100''" "show_nat 50 = ''50''" by code_simp+

lemma enhance_pair:
  assumes evs: "events txResponse = Some evs"
    and rw: "filter (\<lambda>e. ev_type e = ''withdraw_rewards'') evs = [rw]"
            "attr_value_of rw (\<lambda>a. attr_key a = ''amount'') = Some ''100denom''"
    and cm: "filter (\<lambda>e. ev_type e = ''withdraw_commission'') evs = [cm]"
            "attr_value_of cm (\<lambda>a. attr_key a = ''amount'') = Some ''50denom''"
  shows "amount (enhanceWithdrawData txResponse r0) = JStr ''150denom (R:100+C:50)''"
    and "type (enhanceWithdrawData txResponse r0) = type r0"
proof -
  let ?t0 = "\<lparr>totalRewardAmount = 0, totalCommissionAmount = 0, denom = []\<rparr>"
  let ?st = "foldl withdrawEvent (?t0, r0) evs"
  have frw: "firstCoin rw = Some (''100'', ''denom'')" using rw(2) by (simp add: firstCoin_def coin_100)
  have fcm: "firstCoin cm = Some (''50'', ''denom'')" using cm(2) by (simp add: firstCoin_def coin_50)
  have R: "totalRewardAmount (fst ?st) = 100"
    by (simp add: foldl_withdrawEvent_reward rw(1) coinQty_def frw d100)
  have C: "totalCommissionAmount (fst ?st) = 50"
    by (simp add: foldl_withdrawEvent_commission cm(1) coinQty_def fcm d100)
  have "rw \<in> set (filter (\<lambda>e. ev_type e = ''withdraw_rewards'') evs)"
    by (simp add: rw(1))
  then have rw_in: "rw \<in> set evs" "ev_type rw = ''withdraw_rewards''"
    by simp_all
  have "\<And>x. x \<in> set evs \<Longrightarrow> isWithdrawEvent x \<Longrightarrow> x = rw \<or> x = cm"
  proof -
    fix x assume x: "x \<in> set evs" "isWithdrawEvent x"
    then have "x \<in> set (filter (\<lambda>e. ev_type e = ''withdraw_rewards'') evs) \<or> x \<in> set (filter (\<lambda>e. ev_type e = ''withdraw_commission'') evs)"
      by (auto simp: isWithdrawEvent_def)
    then show "x = rw \<or> x = cm" using rw(1) cm(1) by auto
  qed
  then have "\<And>x. x \<in> set evs \<Longrightarrow> isWithdrawEvent x \<Longrightarrow>
      (case firstCoin x of None \<Rightarrow> True | Some (q', d') \<Rightarrow> d' = ''denom'')"
    using frw fcm by fastforce
  then have all: "list_all (\<lambda>x. case firstCoin x of None \<Rightarrow> True | Some (q', d') \<Rightarrow> d' = ''denom'') (filter isWithdrawEvent evs)"
    by (simp add: list_all_iff)
  have D: "denom (fst ?st) = ''denom''"
    by (rule foldl_withdrawEvent_denom [OF rw_in(1) _ frw _ all]) (simp_all add: isWithdrawEvent_def rw_in(2))
  show "amount (enhanceWithdrawData txResponse r0) = JStr ''150denom (R:100+C:50)''"
    by (simp add: enhanceWithdrawData_def evs Let_def R C D s150)
  show "type (enhanceWithdrawData txResponse r0) = type r0"
    by (simp add: enhanceWithdrawData_def evs Let_def foldl_withdrawEvent_type)
qed



lemma withdraw_tags:
  "last_segment ''/cosmos.distribution.v1beta1.MsgWithdrawDelegatorReward'' = ''MsgWithdrawDelegatorReward''"
  "last_segment ''/cosmos.distribution.v1beta1.MsgWithdrawValidatorCommission'' = ''MsgWithdrawValidatorCommission''"
  "\<not> str_includes ''/cosmos.distribution.v1beta1.MsgWithdrawDelegatorReward'' ''RecvPacket''"
  "\<not> str_includes ''/cosmos.distribution.v1beta1.MsgWithdrawValidatorCommission'' ''RecvPacket''"
  "str_includes ''MsgWithdrawDelegatorReward'' ''Withdraw''"
  "str_includes ''MsgWithdrawDelegatorReward'' ''WithdrawDelegatorReward''"
  "str_includes ''MsgWithdrawValidatorCommission'' ''WithdrawValidatorCommission''"
  by code_simp+

lemma withdrawEvent_recipient: "recipient (snd (withdrawEvent st ev)) = recipient (snd st)"
  by (simp add: withdrawEvent_def Let_def split: option.splits)

lemma foldl_withdrawEvent_recipient:
  "recipient (snd (foldl withdrawEvent st evs)) = recipient (snd st)"
  by (induction evs arbitrary: st) (simp_all add: withdrawEvent_recipient)

lemma scanRecipientEvents_text: "textColumn (scanRecipientEvents evs) \<noteq> None"
  by (induction evs) (simp_all split: option.splits)

lemma enhance_recipient_text:
  "recipient r0 = JNull \<Longrightarrow> textColumn (recipient (enhanceWithdrawData txResponse r0)) \<noteq> None"
  by (simp add: enhanceWithdrawData_def Let_def foldl_withdrawEvent_recipient
      scanRecipientEvents_text extractRecipientFromEvents_def del: not_None_eq)

lemma parse_batch_withdraw:
  assumes msgs: "tx txResponse = Some [JObj kvs1, JObj kvs2]"
    and tags:
      "field (JObj kvs1) ''@type'' = JStr ''/cosmos.distribution.v1beta1.MsgWithdrawDelegatorReward'' \<and>
       field (JObj kvs2) ''@type'' = JStr ''/cosmos.distribution.v1beta1.MsgWithdrawValidatorCommission''
       \<or>
       field (JObj kvs1) ''@type'' = JStr ''/cosmos.distribution.v1beta1.MsgWithdrawValidatorCommission'' \<and>
       field (JObj kvs2) ''@type'' = JStr ''/cosmos.distribution.v1beta1.MsgWithdrawDelegatorReward''"
    and evs: "events txResponse = Some evs"
    and rw: "filter (\<lambda>e. ev_type e = ''withdraw_rewards'') evs = [rw]"
            "attr_value_of rw (\<lambda>a. attr_key a = ''amount'') = Some ''100denom''"
    and cm: "filter (\<lambda>e. ev_type e = ''withdraw_commission'') evs = [cm]"
            "attr_value_of cm (\<lambda>a. attr_key a = ''amount'') = Some ''50denom''"
  shows "\<exists>r. parse bi txResponse = Some r \<and> type r = ''BatchWithdraw(Reward+Commission)''
             \<and> amount r = JStr ''150denom (R:100+C:50)''
             \<and> textColumn (recipient r) \<noteq> None"
proof -
  note en = enhance_pair [OF evs rw cm]
  have nr: "find_js isRecvPacketMsg [JObj kvs1, JObj kvs2] = Some None"
    using tags by (auto simp: isRecvPacketMsg_def get_prop_def or_js_def withdraw_tags)
  have ty: "map_js msgType [JObj kvs1, JObj kvs2] =
              Some [''MsgWithdrawDelegatorReward'', ''MsgWithdrawValidatorCommission'']
          \<or> map_js msgType [JObj kvs1, JObj kvs2] =
              Some [''MsgWithdrawValidatorCommission'', ''MsgWithdrawDelegatorReward'']"
    using tags by (auto simp: map_js_def msgType_def get_prop_def or_js_def withdraw_tags)
  have pb: "\<exists>r0. parseBatchTx bi txResponse [JObj kvs1, JObj kvs2]
                  = Some (enhanceWithdrawData txResponse r0)
                \<and> type r0 = ''BatchWithdraw(Reward+Commission)'' \<and> recipient r0 = JNull"
    using ty
    by (auto simp: parseBatchTx_def unique_js_def withdraw_tags batchWithdraw_def first_js_def
        get_prop_def emptyResult_def Let_def)
  then obtain r0 where r0:
    "parseBatchTx bi txResponse [JObj kvs1, JObj kvs2] = Some (enhanceWithdrawData txResponse r0)"
    "type r0 = ''BatchWithdraw(Reward+Commission)''" "recipient r0 = JNull"
    by blast
  have "parse bi txResponse = Some (enhanceWithdrawData txResponse r0)"
    by (simp add: parse_def msgs nr r0(1) del: find_js.simps)
  then show ?thesis
    using enhance_recipient_text [OF r0(3)] by (simp add: en r0(2))
qed

section \<open>Properties of the indexer query client\<close>

lemma fallbackStatus_iff:
  "fallbackStatus error \<longleftrightarrow> error \<in> AxiosError ` Some ` {400, 500, 501}"
  by (cases error) (auto simp: fallbackStatus_def split: option.splits)

lemma tryRequest_failed_request: "net rq = Inl e \<Longrightarrow> tryRequest toNumber net rq = Inl e"
  by (simp add: tryRequest_def)

text \<open>
  Claim C2: the fallback between the two dialects is one-shot and decided by the class of
  the error.  When the legacy request (one \<^verbatim>\<open>query\<close> parameter that joins the filter and the
  height) fails with status 400, 500 or 501, the function sends exactly one more request,
  in the events dialect (the filter and the height as two \<^verbatim>\<open>events\<close> parameters, no
  \<^verbatim>\<open>query\<close>); when that attempt fails too, for whatever reason, the function returns the
  empty result and throws nothing.  When the first attempt fails with any other error
  (another status, no response, an exception that is not an HTTP error), the function
  throws that error and has sent the legacy request only.
\<close>

theorem fetchIndexerMode_fallback_one_shot:
  "(net (legacyRequest restUrl queryEvent minHeight pageNumber) = Inl (AxiosError (Some status)) \<and>
    status \<in> {400, 500, 501} \<longrightarrow>
      snd (fetchIndexerMode toNumber net restUrl queryEvent minHeight pageNumber) =
        [legacyRequest restUrl queryEvent minHeight pageNumber,
         eventsRequest restUrl queryEvent minHeight pageNumber]
      \<and> filter (\<lambda>kv. fst kv = ''events'' \<or> fst kv = ''query'')
           (req_params (eventsRequest restUrl queryEvent minHeight pageNumber)) =
           [(''events'', queryEvent), (''events'', ''tx.height>='' @ show_nat minHeight)]
      \<and> filter (\<lambda>kv. fst kv = ''events'' \<or> fst kv = ''query'')
           (req_params (legacyRequest restUrl queryEvent minHeight pageNumber)) =
           [(''query'', queryEvent @ '' AND tx.height>='' @ show_nat minHeight)]
      \<and> fst (fetchIndexerMode toNumber net restUrl queryEvent minHeight pageNumber) =
          (case tryRequest toNumber net (eventsRequest restUrl queryEvent minHeight pageNumber) of
             Inl e2 \<Rightarrow> Inr \<lparr>res_txs = [], res_total = JNum 0\<rparr>
           | Inr res \<Rightarrow> Inr res))
   \<and>
   (tryRequest toNumber net (legacyRequest restUrl queryEvent minHeight pageNumber) = Inl error \<and>
    error \<notin> AxiosError ` Some ` {400, 500, 501} \<longrightarrow>
      fetchIndexerMode toNumber net restUrl queryEvent minHeight pageNumber =
        (Inl error, [legacyRequest restUrl queryEvent minHeight pageNumber]))"
proof (intro conjI impI)
  assume a: "net (legacyRequest restUrl queryEvent minHeight pageNumber) = Inl (AxiosError (Some status)) \<and>
             status \<in> {400, 500, 501}"
  then have first: "tryRequest toNumber net (legacyRequest restUrl queryEvent minHeight pageNumber)
                      = Inl (AxiosError (Some status))"
    by (simp add: tryRequest_failed_request)
  have fb: "fallbackStatus (AxiosError (Some status))"
    using a by (simp add: fallbackStatus_iff)
  show "snd (fetchIndexerMode toNumber net restUrl queryEvent minHeight pageNumber) =
          [legacyRequest restUrl queryEvent minHeight pageNumber,
           eventsRequest restUrl queryEvent minHeight pageNumber]"
    by (simp add: fetchIndexerMode_def first fb Let_def split: sum.splits)
  show "fst (fetchIndexerMode toNumber net restUrl queryEvent minHeight pageNumber) =
          (case tryRequest toNumber net (eventsRequest restUrl queryEvent minHeight pageNumber) of
             Inl e2 \<Rightarrow> Inr \<lparr>res_txs = [], res_total = JNum 0\<rparr>
           | Inr res \<Rightarrow> Inr res)"
    by (simp add: fetchIndexerMode_def first fb Let_def split: sum.splits)
next
  show "filter (\<lambda>kv. fst kv = ''events'' \<or> fst kv = ''query'')
          (req_params (eventsRequest restUrl queryEvent minHeight pageNumber)) =
          [(''events'', queryEvent), (''events'', ''tx.height>='' @ show_nat minHeight)]"
    by (simp add: eventsRequest_def)
  show "filter (\<lambda>kv. fst kv = ''events'' \<or> fst kv = ''query'')
          (req_params (legacyRequest restUrl queryEvent minHeight pageNumber)) =
          [(''query'', queryEvent @ '' AND tx.height>='' @ show_nat minHeight)]"
    by (simp add: legacyRequest_def)
next
  assume b: "tryRequest toNumber net (legacyRequest restUrl queryEvent minHeight pageNumber) = Inl error \<and>
             error \<notin> AxiosError ` Some ` {400, 500, 501}"
  then have "\<not> fallbackStatus error"
    by (simp add: fallbackStatus_iff)
  then show "fetchIndexerMode toNumber net restUrl queryEvent minHeight pageNumber =
               (Inl error, [legacyRequest restUrl queryEvent minHeight pageNumber])"
    using b by (simp add: fetchIndexerMode_def Let_def)
qed

text \<open>The hypotheses of both parts are met: a node that answers the legacy dialect with
  400 and the events dialect with 502, and a node that answers everything with 429.\<close>

theorem fetchIndexerMode_fallback_one_shot_witness:
  "fetchIndexerMode Some
     (\<lambda>rq. if rq = legacyRequest ''https://rest.example'' ''message.sender=a'' 10 1
            then Inl (AxiosError (Some 400)) else Inl (AxiosError (Some 502)))
     ''https://rest.example'' ''message.sender=a'' 10 1
   = (Inr \<lparr>res_txs = [], res_total = JNum 0\<rparr>,
      [legacyRequest ''https://rest.example'' ''message.sender=a'' 10 1,
       eventsRequest ''https://rest.example'' ''message.sender=a'' 10 1])
   \<and>
   fetchIndexerMode Some (\<lambda>rq. Inl (AxiosError (Some 429)))
     ''https://rest.example'' ''message.sender=a'' 10 1
   = (Inl (AxiosError (Some 429)),
      [legacyRequest ''https://rest.example'' ''message.sender=a'' 10 1])"
proof -
  let ?net = "\<lambda>rq. if rq = legacyRequest ''https://rest.example'' ''message.sender=a'' 10 1
            then Inl (AxiosError (Some 400)) else (Inl (AxiosError (Some 502)) :: js_error + jsval)"
  have ne: "eventsRequest ''https://rest.example'' ''message.sender=a'' 10 1
            \<noteq> legacyRequest ''https://rest.example'' ''message.sender=a'' 10 1"
    by (simp add: eventsRequest_def legacyRequest_def)
  have "tryRequest Some ?net (eventsRequest ''https://rest.example'' ''message.sender=a'' 10 1)
          = Inl (AxiosError (Some 502))"
    using ne by (simp add: tryRequest_def)
  then have one: "fetchIndexerMode Some ?net ''https://rest.example'' ''message.sender=a'' 10 1
      = (Inr \<lparr>res_txs = [], res_total = JNum 0\<rparr>,
         [legacyRequest ''https://rest.example'' ''message.sender=a'' 10 1,
          eventsRequest ''https://rest.example'' ''message.sender=a'' 10 1])"
    using fetchIndexerMode_fallback_one_shot
            [of ?net "''https://rest.example''" "''message.sender=a''" 10 1 400 Some]
    by (simp add: prod_eq_iff)
  have two: "fetchIndexerMode Some (\<lambda>rq. Inl (AxiosError (Some 429)))
               ''https://rest.example'' ''message.sender=a'' 10 1
             = (Inl (AxiosError (Some 429)),
                [legacyRequest ''https://rest.example'' ''message.sender=a'' 10 1])"
    using fetchIndexerMode_fallback_one_shot
            [of "\<lambda>rq. Inl (AxiosError (Some 429))" "''https://rest.example''"
                "''message.sender=a''" 10 1 _ Some "AxiosError (Some 429)"]
    by (auto simp: tryRequest_def)
  show ?thesis using one two by simp
qed

section \<open>Properties of the crawl orchestrator\<close>

subsection \<open>Decimal numerals and lock keys\<close>

lemma digits_to_nat_snoc:
  "digits_to_nat (s @ [c]) = 10 * digits_to_nat s + ((of_char c :: nat) - 48)"
  by (simp add: digits_to_nat_def)

lemma of_char_digit_char: "d < 10 \<Longrightarrow> (of_char (digit_char d) :: nat) - 48 = d"
  by (simp add: digit_char_def)

lemma digits_to_nat_show_nat: "digits_to_nat (show_nat n) = n"
proof (induction n rule: show_nat.induct)
  case (1 n)
  show ?case
  proof (cases "n < 10")
    case True
    then show ?thesis
      using digits_to_nat_snoc [of "[]" "digit_char n"]
      by (simp add: show_nat.simps [of n] of_char_digit_char digits_to_nat_def)
  next
    case False
    then have "digits_to_nat (show_nat (n div 10)) = n div 10"
      using 1 by simp
    then show ?thesis
      using False
      by (simp add: show_nat.simps [of n] digits_to_nat_snoc of_char_digit_char)
  qed
qed

lemma show_nat_inject: "show_nat m = show_nat n \<longleftrightarrow> m = n"
  by (metis digits_to_nat_show_nat)

lemma lockKeyOf_inject: "lockKeyOf a = lockKeyOf b \<longleftrightarrow> a = b"
  by (simp add: lockKeyOf_def show_nat_inject)

subsection \<open>The reaper\<close>

text \<open>The loop of the reaper in closed form: the rows of the stuck wallets lose the flag,
  their lock keys leave the table, nothing else changes.\<close>

lemma foldl_resetIfStuck:
  "foldl (resetIfStuck current) sys ws =
     sys\<lparr>wallets := map (\<lambda>x. if wallet_id x \<in> wallet_id ` {w \<in> set ws. isStuck (heartbeatAge current w)}
                             then x\<lparr>isSyncing := False\<rparr> else x) (wallets sys),
         locks := filter (\<lambda>kv. fst kv \<notin> lockKeyOf ` wallet_id ` {w \<in> set ws. isStuck (heartbeatAge current w)})
                    (locks sys)\<rparr>"
proof (induction ws arbitrary: sys)
  case Nil
  then show ?case by simp
next
  case (Cons w ws)
  show ?case
  proof (cases "isStuck (heartbeatAge current w)")
    case True
    then have split: "{x \<in> set (w # ws). isStuck (heartbeatAge current x)}
                 = insert w {x \<in> set ws. isStuck (heartbeatAge current x)}"
      by auto
    show ?thesis
      unfolding foldl_Cons Cons.IH split
      using True
      by (auto simp: resetIfStuck_def release_def updateWallets_def intro!: filter_cong)
  next
    case False
    then have split: "{x \<in> set (w # ws). isStuck (heartbeatAge current x)}
                 = {x \<in> set ws. isStuck (heartbeatAge current x)}"
      by auto
    show ?thesis
      unfolding foldl_Cons Cons.IH split
      using False by (simp add: resetIfStuck_def)
  qed
qed

lemma map_of_filter_keys:
  "map_of (filter (\<lambda>kv. fst kv \<notin> K) l) k = (if k \<in> K then None else map_of l k)"
  by (induction l) auto

lemma find_map_by_id:
  assumes "distinct (map wallet_id ws)" "w \<in> set ws" "\<And>x. wallet_id (f x) = wallet_id x"
  shows "find (\<lambda>x. wallet_id x = wallet_id w) (map f ws) = Some (f w)"
  using assms(1,2)
proof (induction ws)
  case Nil
  then show ?case by simp
next
  case (Cons a ws)
  show ?case
  proof (cases "a = w")
    case True
    then show ?thesis by (simp add: assms(3))
  next
    case False
    then have "w \<in> set ws" using Cons.prems by simp
    then have "wallet_id a \<noteq> wallet_id w"
      using Cons.prems(1) by (auto simp: image_iff)
    then show ?thesis
      using Cons \<open>w \<in> set ws\<close> by (simp add: assms(3))
  qed
qed

lemma id_in_image_iff:
  assumes "distinct (map wallet_id ws)" "w \<in> set ws" "S \<subseteq> set ws"
  shows "wallet_id w \<in> wallet_id ` S \<longleftrightarrow> w \<in> S"
proof
  assume "wallet_id w \<in> wallet_id ` S"
  then obtain x where x: "x \<in> S" "wallet_id x = wallet_id w" by auto
  then have "x \<in> set ws" using assms(3) by auto
  then have "x = w"
    using assms(1,2) x(2) by (meson distinct_map inj_onD)
  then show "w \<in> S" using x(1) by simp
qed auto

text \<open>
  Claim C9, stuck-sync recovery.  Let the \<^verbatim>\<open>Wallet\<close> table have distinct ids (the primary
  key) and let \<open>w\<close> be one of its rows at the start of the pass.  The age of the heartbeat
  is the clock minus \<^verbatim>\<open>lastSyncHeartbeat\<close>, infinite when there is none.  If \<open>w\<close> is syncing
  and its age exceeds ten minutes, the pass leaves the row with \<^verbatim>\<open>isSyncing\<close> false and
  nothing else changed, and the lock key of \<open>w\<close> is free.  In every other case the row and
  the entry of its lock key are as before.  The transaction tables, the notifications
  and the clock are untouched.
\<close>

theorem stuck_sync_recovery:
  assumes ids: "distinct (map wallet_id (wallets sys))" and w: "w \<in> set (wallets sys)"
  shows "(if isSyncing w \<and> isStuck (heartbeatAge (clock sys) w)
          then findWallet (reapStuckWallets sys) (wallet_id w) = Some (w\<lparr>isSyncing := False\<rparr>)
               \<and> \<not> isLocked (reapStuckWallets sys) (lockKeyOf (wallet_id w))
          else findWallet (reapStuckWallets sys) (wallet_id w) = Some w
               \<and> map_of (locks (reapStuckWallets sys)) (lockKeyOf (wallet_id w))
                   = map_of (locks sys) (lockKeyOf (wallet_id w)))
         \<and> isStuck (heartbeatAge (clock sys) w)
             = (case lastSyncHeartbeat w of
                  None \<Rightarrow> True
                | Some beat \<Rightarrow> 10 * 60 * 1000 < clock sys - beat)
         \<and> store (reapStuckWallets sys) = store sys
         \<and> notified (reapStuckWallets sys) = notified sys
         \<and> clock (reapStuckWallets sys) = clock sys"
proof -
  let ?S = "{x \<in> set (filter isSyncing (wallets sys)). isStuck (heartbeatAge (clock sys) x)}"
  let ?f = "\<lambda>x. if wallet_id x \<in> wallet_id ` ?S then x\<lparr>isSyncing := False\<rparr> else x"
  have reap: "reapStuckWallets sys =
      sys\<lparr>wallets := map ?f (wallets sys),
          locks := filter (\<lambda>kv. fst kv \<notin> lockKeyOf ` wallet_id ` ?S) (locks sys)\<rparr>"
    unfolding reapStuckWallets_def by (rule foldl_resetIfStuck)
  have sub: "?S \<subseteq> set (wallets sys)" by auto
  have mem: "wallet_id w \<in> wallet_id ` ?S \<longleftrightarrow> w \<in> ?S"
    by (rule id_in_image_iff [OF ids w sub])
  have key: "lockKeyOf (wallet_id w) \<in> lockKeyOf ` wallet_id ` ?S \<longleftrightarrow> w \<in> ?S"
    using mem by (auto simp: lockKeyOf_inject image_iff)
  have found: "findWallet (reapStuckWallets sys) (wallet_id w) = Some (?f w)"
    unfolding findWallet_def reap using find_map_by_id [OF ids w, of ?f] by simp
  have lk: "map_of (locks (reapStuckWallets sys)) (lockKeyOf (wallet_id w))
              = (if w \<in> ?S then None else map_of (locks sys) (lockKeyOf (wallet_id w)))"
    unfolding reap by (simp add: map_of_filter_keys key del: set_filter)
  have inS: "w \<in> ?S \<longleftrightarrow> isSyncing w \<and> isStuck (heartbeatAge (clock sys) w)"
    using w by simp
  have age: "isStuck (heartbeatAge (clock sys) w)
             = (case lastSyncHeartbeat w of
                  None \<Rightarrow> True
                | Some beat \<Rightarrow> 10 * 60 * 1000 < clock sys - beat)"
    by (simp add: isStuck_def heartbeatAge_def STUCK_THRESHOLD_MS_def split: option.splits)
  have rest: "store (reapStuckWallets sys) = store sys"
    "notified (reapStuckWallets sys) = notified sys" "clock (reapStuckWallets sys) = clock sys"
    unfolding reap by simp_all
  show ?thesis
    using found lk mem inS age rest by (simp add: isLocked_def)
qed

text \<open>The example of the spec: at clock 1000000 a heartbeat of 340000 is eleven minutes
  old and one of 880000 is two minutes old.  The first account is reset and its lock
  released; the second keeps its flag and its lock.\<close>

theorem stuck_sync_recovery_witness:
  "findWallet
     (reapStuckWallets
        \<lparr>wallets =
           [\<lparr>wallet_id = 1, label = ''a'', address = ''cosmos1a'', valAddress = None,
             withdrawalAddress = None, isSyncing = True, lastSyncHeartbeat = Some 340000,
             webhookUrl = None, notifyWalletTx = False, notifyValidatorTx = False\<rparr>,
            \<lparr>wallet_id = 2, label = ''b'', address = ''cosmos1b'', valAddress = None,
             withdrawalAddress = None, isSyncing = True, lastSyncHeartbeat = Some 880000,
             webhookUrl = None, notifyWalletTx = False, notifyValidatorTx = False\<rparr>],
         store = \<lparr>walletTransactions = [], validatorTransactions = []\<rparr>,
         locks = [(lockKeyOf 1, \<lparr>acquired = 300000, operation = ''backfillWalletHistory''\<rparr>),
                  (lockKeyOf 2, \<lparr>acquired = 870000, operation = ''backfillWalletHistory''\<rparr>)],
         notified = [], clock = 1000000\<rparr>) 1
   = Some \<lparr>wallet_id = 1, label = ''a'', address = ''cosmos1a'', valAddress = None,
           withdrawalAddress = None, isSyncing = False, lastSyncHeartbeat = Some 340000,
           webhookUrl = None, notifyWalletTx = False, notifyValidatorTx = False\<rparr>
   \<and> \<not> isLocked
     (reapStuckWallets
        \<lparr>wallets =
           [\<lparr>wallet_id = 1, label = ''a'', address = ''cosmos1a'', valAddress = None,
             withdrawalAddress = None, isSyncing = True, lastSyncHeartbeat = Some 340000,
             webhookUrl = None, notifyWalletTx = False, notifyValidatorTx = False\<rparr>,
            \<lparr>wallet_id = 2, label = ''b'', address = ''cosmos1b'', valAddress = None,
             withdrawalAddress = None, isSyncing = True, lastSyncHeartbeat = Some 880000,
             webhookUrl = None, notifyWalletTx = False, notifyValidatorTx = False\<rparr>],
         store = \<lparr>walletTransactions = [], validatorTransactions = []\<rparr>,
         locks = [(lockKeyOf 1, \<lparr>acquired = 300000, operation = ''backfillWalletHistory''\<rparr>),
                  (lockKeyOf 2, \<lparr>acquired = 870000, operation = ''backfillWalletHistory''\<rparr>)],
         notified = [], clock = 1000000\<rparr>) (lockKeyOf 1)"
  using stuck_sync_recovery
    [of "\<lparr>wallets =
           [\<lparr>wallet_id = 1, label = ''a'', address = ''cosmos1a'', valAddress = None,
             withdrawalAddress = None, isSyncing = True, lastSyncHeartbeat = Some 340000,
             webhookUrl = None, notifyWalletTx = False, notifyValidatorTx = False\<rparr>,
            \<lparr>wallet_id = 2, label = ''b'', address = ''cosmos1b'', valAddress = None,
             withdrawalAddress = None, isSyncing = True, lastSyncHeartbeat = Some 880000,
             webhookUrl = None, notifyWalletTx = False, notifyValidatorTx = False\<rparr>],
         store = \<lparr>walletTransactions = [], validatorTransactions = []\<rparr>,
         locks = [(lockKeyOf 1, \<lparr>acquired = 300000, operation = ''backfillWalletHistory''\<rparr>),
                  (lockKeyOf 2, \<lparr>acquired = 870000, operation = ''backfillWalletHistory''\<rparr>)],
         notified = [], clock = 1000000\<rparr>"
        "\<lparr>wallet_id = 1, label = ''a'', address = ''cosmos1a'', valAddress = None,
             withdrawalAddress = None, isSyncing = True, lastSyncHeartbeat = Some 340000,
             webhookUrl = None, notifyWalletTx = False, notifyValidatorTx = False\<rparr>"]
  by (simp add: isStuck_def heartbeatAge_def STUCK_THRESHOLD_MS_def)

subsection \<open>Errors while paging\<close>










subsection \<open>A crawl that is denied the syncing flag\<close>

text \<open>
  Claim C8 says that a crawl which finds \<^verbatim>\<open>isSyncing\<close> already set aborts and leaves the
  account's state unchanged, the flag of the running crawl included.  The early
  \<^verbatim>\<open>return\<close> sits inside the \<^verbatim>\<open>try\<close> block, so the \<^verbatim>\<open>finally\<close> block runs on that path as
  well and sets \<^verbatim>\<open>isSyncing\<close> to false.  Here the account is syncing and its lock key is
  free (the first crawl's lock has timed out): the second crawl ends with the flag
  cleared, having used no fetch outcome.
\<close>

theorem denied_crawl_clears_syncing_flag:
  "backfillWalletHistory bi 1
     \<lparr>wallets =
        [\<lparr>wallet_id = 1, label = ''a'', address = ''cosmos1a'', valAddress = None,
          withdrawalAddress = None, isSyncing = True, lastSyncHeartbeat = Some 990000,
          webhookUrl = None, notifyWalletTx = False, notifyValidatorTx = False\<rparr>],
      store = \<lparr>walletTransactions = [], validatorTransactions = []\<rparr>,
      locks = [], notified = [], clock = 1000000\<rparr>
     outcomes
   = Some
     (\<lparr>wallets =
        [\<lparr>wallet_id = 1, label = ''a'', address = ''cosmos1a'', valAddress = None,
          withdrawalAddress = None, isSyncing = False, lastSyncHeartbeat = Some 990000,
          webhookUrl = None, notifyWalletTx = False, notifyValidatorTx = False\<rparr>],
      store = \<lparr>walletTransactions = [], validatorTransactions = []\<rparr>,
      locks = [], notified = [], clock = 1000000\<rparr>,
      outcomes)"
  by (simp add: backfillWalletHistory_def acquire_def isLocked_def crawlBody_def findWallet_def
      updateWallets_def crawlCleanup_def release_def Let_def numeral_3_eq_3)

subsection \<open>Crawling twice over the same data\<close>

text \<open>The two existence checks read the pairs of hash and account id of a table.\<close>

lemma walletTxExists_iff:
  "walletTxExists tbl h i \<longleftrightarrow>
     (h, i) \<in> set (map (\<lambda>r. (wt_hash r, wt_walletId r)) (walletTransactions tbl))"
  by (auto simp: walletTxExists_def list_ex_iff)

lemma validatorTxExists_iff:
  "validatorTxExists tbl h i \<longleftrightarrow>
     (h, i) \<in> set (map (\<lambda>r. (vt_hash r, vt_walletId r)) (validatorTransactions tbl))"
  by (auto simp: validatorTxExists_def list_ex_iff)

lemma keepsRecords_refl: "keepsRecords tbl tbl"
  by (simp add: keepsRecords_def)

lemma keepsRecords_trans: "keepsRecords a b \<Longrightarrow> keepsRecords b c \<Longrightarrow> keepsRecords a c"
  unfolding keepsRecords_def by (meson subset_trans)

lemma keepsRecords_exists:
  "keepsRecords old new \<Longrightarrow> walletTxExists old h i \<Longrightarrow> walletTxExists new h i"
  "keepsRecords old new \<Longrightarrow> validatorTxExists old h i \<Longrightarrow> validatorTxExists new h i"
  by (auto simp: keepsRecords_def walletTxExists_iff validatorTxExists_iff)

lemma recorded_kept:
  assumes "recorded bi wallet old t" "keepsRecords old new"
  shows "recorded bi wallet new t"
  using assms keepsRecords_exists [OF assms(2)]
  by (auto simp: recorded_def split: option.splits if_splits)

lemma walletRecord_key:
  "walletRecord bi wallet t h r firstMsg others = Some (row, notes) \<Longrightarrow>
     wt_hash row = txhash t \<and> wt_walletId row = wallet_id wallet"
  by (auto simp: walletRecord_def Let_def split: Option.bind_splits)

lemma validatorRecord_key:
  "validatorRecord bi wallet va t h r firstMsg others = Some (row, notes) \<Longrightarrow>
     vt_hash row = txhash t \<and> vt_walletId row = wallet_id wallet"
  by (auto simp: validatorRecord_def Let_def split: Option.bind_splits)

lemma walletPart_cases:
  assumes "walletPart bi wallet t h r parsedAll st = Some st'"
  shows "st' = st \<and> (\<not> walletRelevant wallet parsedAll \<or> walletTxExists st (txhash t) (wallet_id wallet))
       \<or> (\<exists>row notes. st' = st\<lparr>walletTransactions := walletTransactions st @ [row],
                                   newTxCount := newTxCount st + 1, sent := sent st @ notes\<rparr>
             \<and> wt_hash row = txhash t \<and> wt_walletId row = wallet_id wallet)"
  using assms
  by (auto simp: walletPart_def walletRelevant_def dest: walletRecord_key
      split: list.splits if_splits option.splits)

lemma validatorPart_cases:
  assumes "validatorPart bi wallet t h r parsedAll st = Some st'"
  shows "st' = st \<and> (\<not> validatorRelevant wallet parsedAll \<or> validatorTxExists st (txhash t) (wallet_id wallet))
       \<or> (\<exists>row notes. st' = st\<lparr>validatorTransactions := validatorTransactions st @ [row],
                                   newTxCount := newTxCount st + 1, sent := sent st @ notes\<rparr>
             \<and> vt_hash row = txhash t \<and> vt_walletId row = wallet_id wallet)"
  using assms
  by (auto simp: validatorPart_def validatorRelevant_def dest: validatorRecord_key
      split: list.splits if_splits option.splits)

lemma walletPart_keeps:
  assumes "walletPart bi wallet t h r parsedAll st = Some st'"
  shows "keepsRecords st st'"
    and "\<not> walletRelevant wallet parsedAll \<or> walletTxExists st' (txhash t) (wallet_id wallet)"
  using walletPart_cases [OF assms]
  by (auto simp: keepsRecords_def walletTxExists_iff)

lemma validatorPart_keeps:
  assumes "validatorPart bi wallet t h r parsedAll st = Some st'"
  shows "keepsRecords st st'"
    and "\<not> validatorRelevant wallet parsedAll \<or> validatorTxExists st' (txhash t) (wallet_id wallet)"
  using validatorPart_cases [OF assms]
  by (auto simp: keepsRecords_def validatorTxExists_iff)

lemma walletPart_recorded:
  "\<not> walletRelevant wallet parsedAll \<or> walletTxExists st (txhash t) (wallet_id wallet) \<Longrightarrow>
     walletPart bi wallet t h r parsedAll st = Some st"
  by (auto simp: walletPart_def walletRelevant_def split: list.splits)

lemma validatorPart_recorded:
  "\<not> validatorRelevant wallet parsedAll \<or> validatorTxExists st (txhash t) (wallet_id wallet) \<Longrightarrow>
     validatorPart bi wallet t h r parsedAll st = Some st"
  by (auto simp: validatorPart_def validatorRelevant_def split: list.splits option.splits)

lemma processTx_keeps:
  assumes "processTx bi wallet st t = Inr st' \<or> processTx bi wallet st t = Inl st'"
  shows "keepsRecords st st'"
proof (cases "txhash t = [] \<or> height t = None \<or> interpretTx bi t = None")
  case True
  then have "st' = st"
    using assms by (auto simp: processTx_def split: option.splits if_splits)
  then show ?thesis by (simp add: keepsRecords_refl)
next
  case False
  then obtain h r parsedAll where h: "txhash t \<noteq> []" "height t = Some h"
      "interpretTx bi t = Some (r, parsedAll)"
    by auto
  show ?thesis
  proof (cases "walletPart bi wallet t h r parsedAll st")
    case None
    then have "st' = st" using assms h by (simp add: processTx_def)
    then show ?thesis by (simp add: keepsRecords_refl)
  next
    case (Some st1)
    note k1 = walletPart_keeps(1) [OF Some]
    show ?thesis
    proof (cases "validatorPart bi wallet t h r parsedAll st1")
      case None
      then have "st' = st1" using assms h Some by (simp add: processTx_def)
      then show ?thesis using k1 by simp
    next
      case (Some st2)
      then have "st' = st2" using assms h \<open>walletPart bi wallet t h r parsedAll st = Some st1\<close>
        by (simp add: processTx_def)
      then show ?thesis
        using k1 validatorPart_keeps(1) [OF Some] keepsRecords_trans by blast
    qed
  qed
qed

lemma processTx_records:
  assumes "processTx bi wallet st t = Inr st'"
  shows "recorded bi wallet st' t"
proof (cases "txhash t = [] \<or> height t = None \<or> interpretTx bi t = None")
  case True
  then show ?thesis by (auto simp: recorded_def)
next
  case False
  then obtain h r parsedAll where h: "txhash t \<noteq> []" "height t = Some h"
      "interpretTx bi t = Some (r, parsedAll)"
    by auto
  from assms h obtain st1 where w: "walletPart bi wallet t h r parsedAll st = Some st1"
    and v: "validatorPart bi wallet t h r parsedAll st1 = Some st'"
    by (auto simp: processTx_def split: option.splits)
  have "\<not> walletRelevant wallet parsedAll \<or> walletTxExists st' (txhash t) (wallet_id wallet)"
    using walletPart_keeps(2) [OF w] keepsRecords_exists(1) [OF validatorPart_keeps(1) [OF v]]
    by blast
  moreover have "\<not> validatorRelevant wallet parsedAll \<or> validatorTxExists st' (txhash t) (wallet_id wallet)"
    using validatorPart_keeps(2) [OF v] .
  ultimately show ?thesis
    using h by (auto simp: recorded_def)
qed

text \<open>An envelope the loop body gets through without a throw, whatever the tables.\<close>

lemma processTx_recorded:
  assumes "recorded bi wallet st t"
  shows "processTx bi wallet st t = (if txhash t \<noteq> [] \<and> height t \<noteq> None \<and> interpretTx bi t = None
                                     then Inl st else Inr st)"
proof (cases "txhash t = [] \<or> height t = None \<or> interpretTx bi t = None")
  case True
  then show ?thesis by (auto simp: processTx_def)
next
  case False
  then obtain h r parsedAll where h: "txhash t \<noteq> []" "height t = Some h"
      "interpretTx bi t = Some (r, parsedAll)"
    by auto
  have w: "walletPart bi wallet t h r parsedAll st = Some st"
    using assms h by (intro walletPart_recorded) (auto simp: recorded_def split: if_splits)
  have v: "validatorPart bi wallet t h r parsedAll st = Some st"
    using assms h by (intro validatorPart_recorded) (auto simp: recorded_def split: if_splits)
  show ?thesis using h w v by (simp add: processTx_def)
qed

lemma processTx_committed_interpretable:
  "processTx bi wallet st t = Inr st' \<Longrightarrow>
     \<not> (txhash t \<noteq> [] \<and> height t \<noteq> None \<and> interpretTx bi t = None)"
  by (auto simp: processTx_def split: option.splits if_splits)


lemma processTxs_keeps:
  "processTxs bi wallet st page_txs = Inr st' \<or> processTxs bi wallet st page_txs = Inl st' \<Longrightarrow>
     keepsRecords st st'"
proof (induction page_txs arbitrary: st)
  case Nil
  then show ?case by (auto simp: keepsRecords_refl)
next
  case (Cons t ts)
  show ?case
  proof (cases "processTx bi wallet st t")
    case (Inl thrown)
    then have "st' = thrown" using Cons.prems by simp
    then show ?thesis using processTx_keeps [of bi wallet st t thrown] Inl by simp
  next
    case (Inr st1)
    then have "keepsRecords st st1" using processTx_keeps [of bi wallet st t st1] by simp
    moreover have "keepsRecords st1 st'" using Cons.IH [of st1] Cons.prems Inr by simp
    ultimately show ?thesis by (rule keepsRecords_trans)
  qed
qed

lemma processTxs_records:
  "processTxs bi wallet st page_txs = Inr st' \<Longrightarrow>
     list_all (recorded bi wallet st') page_txs \<and>
     list_all (\<lambda>t. \<not> (txhash t \<noteq> [] \<and> height t \<noteq> None \<and> interpretTx bi t = None)) page_txs"
proof (induction page_txs arbitrary: st)
  case Nil
  then show ?case by simp
next
  case (Cons t ts)
  then obtain st1 where one: "processTx bi wallet st t = Inr st1"
    and more: "processTxs bi wallet st1 ts = Inr st'"
    by (auto split: sum.splits)
  have "recorded bi wallet st1 t" using one by (rule processTx_records)
  moreover have "keepsRecords st1 st'" using processTxs_keeps more by blast
  ultimately have "recorded bi wallet st' t" by (rule recorded_kept)
  then show ?case
    using Cons.IH [OF more] processTx_committed_interpretable [OF one] by simp
qed

lemma processTxs_recorded:
  "list_all (recorded bi wallet st) page_txs \<Longrightarrow>
     processTxs bi wallet st page_txs =
       (if list_ex (\<lambda>t. txhash t \<noteq> [] \<and> height t \<noteq> None \<and> interpretTx bi t = None) page_txs
        then Inl st else Inr st)"
  by (induction page_txs) (simp_all add: processTx_recorded)

lemma walletTxExists_tables:
  "walletTxExists \<lparr>walletTransactions = walletTransactions tbl,
       validatorTransactions = validatorTransactions tbl, newTxCount = n, sent = out'\<rparr> h i
   = walletTxExists tbl h i"
  by (simp add: walletTxExists_def)

lemma validatorTxExists_tables:
  "validatorTxExists \<lparr>walletTransactions = walletTransactions tbl,
       validatorTransactions = validatorTransactions tbl, newTxCount = n, sent = out'\<rparr> h i
   = validatorTxExists tbl h i"
  by (simp add: validatorTxExists_def)

lemma recorded_tables:
  "recorded bi wallet \<lparr>walletTransactions = walletTransactions tbl,
       validatorTransactions = validatorTransactions tbl, newTxCount = n, sent = out'\<rparr>
   = recorded bi wallet tbl"
  unfolding recorded_def walletTxExists_tables validatorTxExists_tables ..

lemma keepsRecords_tables:
  "keepsRecords \<lparr>walletTransactions = walletTransactions a,
       validatorTransactions = validatorTransactions a, newTxCount = n, sent = out'\<rparr> b
   = keepsRecords a b"
  "keepsRecords a \<lparr>walletTransactions = walletTransactions b,
       validatorTransactions = validatorTransactions b\<rparr>
   = keepsRecords a b"
  by (simp_all add: keepsRecords_def)

lemma exists_truncate:
  "walletTxExists \<lparr>walletTransactions = walletTransactions st,
       validatorTransactions = validatorTransactions st\<rparr> h i = walletTxExists st h i"
  "validatorTxExists \<lparr>walletTransactions = walletTransactions st,
       validatorTransactions = validatorTransactions st\<rparr> h i = validatorTxExists st h i"
  by (simp_all add: walletTxExists_def validatorTxExists_def)

lemma recorded_truncate:
  "recorded bi wallet \<lparr>walletTransactions = walletTransactions st,
       validatorTransactions = validatorTransactions st\<rparr>
   = recorded bi wallet st"
  unfolding recorded_def exists_truncate ..

lemma runPage_committed:
  assumes "runPage bi wallet tbl out' page_txs = (Some saved, tbl1, out1)"
  shows "list_all (recorded bi wallet tbl1) page_txs"
    and "list_all (\<lambda>t. \<not> (txhash t \<noteq> [] \<and> height t \<noteq> None \<and> interpretTx bi t = None)) page_txs"
    and "keepsRecords tbl tbl1"
proof -
  let ?st = "\<lparr>walletTransactions = walletTransactions tbl,
       validatorTransactions = validatorTransactions tbl, newTxCount = 0, sent = out'\<rparr>"
  obtain st where st: "processTxs bi wallet ?st page_txs = Inr st"
    and tbl1: "tbl1 = \<lparr>walletTransactions = walletTransactions st,
                        validatorTransactions = validatorTransactions st\<rparr>"
    using assms by (auto simp: runPage_def split: sum.splits)
  have "list_all (recorded bi wallet st) page_txs"
    using processTxs_records [OF st] by simp
  then show "list_all (recorded bi wallet tbl1) page_txs"
    unfolding tbl1 by (simp add: recorded_truncate)
  show "list_all (\<lambda>t. \<not> (txhash t \<noteq> [] \<and> height t \<noteq> None \<and> interpretTx bi t = None)) page_txs"
    using processTxs_records [OF st] by simp
  have "keepsRecords ?st st" using processTxs_keeps st by blast
  then show "keepsRecords tbl tbl1"
    unfolding tbl1 by (simp add: keepsRecords_tables)
qed

lemma runPage_keeps: "keepsRecords tbl (fst (snd (runPage bi wallet tbl out' page_txs)))"
proof (cases "fst (runPage bi wallet tbl out' page_txs)")
  case None
  then show ?thesis
    by (auto simp: runPage_def keepsRecords_refl split: sum.splits)
next
  case (Some saved)
  then show ?thesis
    using runPage_committed(3) [of bi wallet tbl out' page_txs saved]
    by (cases "runPage bi wallet tbl out' page_txs") auto
qed

lemma runPage_recorded:
  assumes "list_all (recorded bi wallet tbl) page_txs"
  shows "runPage bi wallet tbl out' page_txs =
           (if list_ex (\<lambda>t. txhash t \<noteq> [] \<and> height t \<noteq> None \<and> interpretTx bi t = None) page_txs
            then None else Some 0, tbl, out')"
proof -
  let ?st = "\<lparr>walletTransactions = walletTransactions tbl,
       validatorTransactions = validatorTransactions tbl, newTxCount = 0, sent = out'\<rparr>"
  have "list_all (recorded bi wallet ?st) page_txs"
    using assms by (simp add: recorded_tables)
  then show ?thesis
    by (simp add: runPage_def processTxs_recorded)
qed

lemma pageStep_recorded:
  assumes "list_all (recorded bi wallet (db s)) (case outcome of Fetched page_txs \<Rightarrow> page_txs | Threw e \<Rightarrow> [])"
  shows "db (pageStep bi wallet s outcome) = db s \<and> out (pageStep bi wallet s outcome) = out s"
proof (cases outcome)
  case (Threw e)
  then show ?thesis
    by (auto simp: pageStep_def onError_def genericError_def sleep_def Let_def split: js_error.splits option.splits)
next
  case (Fetched page_txs)
  then have "list_all (recorded bi wallet (db s)) page_txs" using assms by simp
  then show ?thesis
    using Fetched
    by (auto simp: pageStep_def runPage_recorded onError_def genericError_def sleep_def Let_def)
qed

lemma pageLoop_recorded:
  "list_all (recorded bi wallet (db s)) (fetchedEnvelopes outcomes) \<Longrightarrow>
     db (fst (pageLoop bi wallet s outcomes)) = db s \<and>
     out (fst (pageLoop bi wallet s outcomes)) = out s"
proof (induction outcomes arbitrary: s)
  case Nil
  then show ?case by simp
next
  case (Cons outcome outcomes)
  have one: "db (pageStep bi wallet s outcome) = db s \<and> out (pageStep bi wallet s outcome) = out s"
    using Cons.prems by (intro pageStep_recorded) (simp add: fetchedEnvelopes_def)
  have "list_all (recorded bi wallet (db (pageStep bi wallet s outcome))) (fetchedEnvelopes outcomes)"
    using Cons.prems one by (simp add: fetchedEnvelopes_def)
  then show ?case
    using Cons.IH [of "pageStep bi wallet s outcome"] one by simp
qed


lemma acquireWithRetry_keeps:
  "store (snd (acquireWithRetry k op n retryDelayMs sys)) = store sys \<and>
   notified (snd (acquireWithRetry k op n retryDelayMs sys)) = notified sys \<and>
   wallets (snd (acquireWithRetry k op n retryDelayMs sys)) = wallets sys"
  by (induction k op n retryDelayMs sys rule: acquireWithRetry.induct)
     (simp_all add: acquire_def)

lemma pageLoop_rest:
  "set (fetchedEnvelopes (snd (pageLoop bi wallet s outcomes))) \<subseteq> set (fetchedEnvelopes outcomes)"
proof (induction outcomes arbitrary: s)
  case Nil
  then show ?case by simp
next
  case (Cons outcome outcomes)
  show ?case
  proof (cases "running s")
    case True
    then show ?thesis
      using Cons.IH [of "pageStep bi wallet s outcome"] by (auto simp: fetchedEnvelopes_def)
  next
    case False
    then show ?thesis by simp
  qed
qed

lemma crawlQueries_recorded:
  "list_all (recorded bi wallet (store sys)) (fetchedEnvelopes outcomes) \<Longrightarrow>
   crawlQueries bi wallet startHeight queries sys outcomes = Some (sys', rest) \<Longrightarrow>
     store sys' = store sys \<and> notified sys' = notified sys"
proof (induction queries arbitrary: sys outcomes)
  case Nil
  then show ?case by simp
next
  case (Cons queryEvent queries)
  show ?case
  proof (cases "findWallet sys (wallet_id wallet) = None")
    case True
    then show ?thesis using Cons.prems by simp
  next
    case False
    define s0 where "s0 = \<lparr>running = True, iterHeight = startHeight, page = 1, consecutiveErrors = 0,
                 db = store sys, out = notified sys, now = clock sys\<rparr>"
    obtain s left where loop: "pageLoop bi wallet s0 outcomes = (s, left)"
      by (cases "pageLoop bi wallet s0 outcomes")
    define sys1 where "sys1 = updateWallets (\<lambda>w. wallet_id w = wallet_id wallet)
                       (\<lambda>w. w\<lparr>lastSyncHeartbeat := Some (now s)\<rparr>)
                       (sys\<lparr>store := db s, notified := out s, clock := now s\<rparr>)"
    have same: "db s = store sys \<and> out s = notified sys"
      using pageLoop_recorded [of bi wallet s0 outcomes] Cons.prems(1) loop
      by (simp add: s0_def)
    then have st: "store sys1 = store sys \<and> notified sys1 = notified sys"
      by (simp add: sys1_def updateWallets_def)
    have "set (fetchedEnvelopes left) \<subseteq> set (fetchedEnvelopes outcomes)"
      using pageLoop_rest [of bi wallet s0 outcomes] loop by simp
    then have all: "list_all (recorded bi wallet (store sys1)) (fetchedEnvelopes left)"
      using Cons.prems(1) st unfolding list_all_iff by auto
    have "crawlQueries bi wallet startHeight queries sys1 left = Some (sys', rest)"
      using Cons.prems(2) False loop
      by (simp add: s0_def sys1_def split: if_splits)
    then show ?thesis using Cons.IH [OF all] st by simp
  qed
qed

lemma backfillWalletHistory_recorded:
  assumes "findWallet sys walletId = Some wallet"
    and "list_all (recorded bi wallet (store sys)) (fetchedEnvelopes outcomes)"
    and "backfillWalletHistory bi walletId sys outcomes = Some (sys', rest)"
  shows "store sys' = store sys \<and> notified sys' = notified sys"
proof -
  define got where "got = acquireWithRetry (lockKeyOf walletId) ''backfillWalletHistory'' 3 2000 sys"
  have keep: "store (snd got) = store sys \<and> notified (snd got) = notified sys
              \<and> wallets (snd got) = wallets sys"
    unfolding got_def by (rule acquireWithRetry_keeps)
  show ?thesis
  proof (cases "fst got")
    case False
    then show ?thesis using assms(3) keep by (simp add: backfillWalletHistory_def got_def)
  next
    case True
    then obtain sys2 where body: "crawlBody bi walletId (snd got) outcomes = Some (sys2, rest)"
      and fin: "sys' = crawlCleanup walletId sys2"
      using assms(3)
      by (auto simp: backfillWalletHistory_def got_def Let_def split: option.splits)
    have found: "findWallet (snd got) walletId = Some wallet"
      using assms(1) keep by (simp add: findWallet_def)
    define sys1 where "sys1 = updateWallets (\<lambda>w. wallet_id w = walletId \<and> \<not> isSyncing w)
                        (\<lambda>w. w\<lparr>isSyncing := True, lastSyncHeartbeat := Some (clock (snd got))\<rparr>)
                        (snd got)"
    have st1: "store sys1 = store sys \<and> notified sys1 = notified sys"
      using keep by (simp add: sys1_def updateWallets_def)
    have "store sys2 = store sys \<and> notified sys2 = notified sys"
    proof (cases "length (filter (\<lambda>w. wallet_id w = walletId \<and> \<not> isSyncing w)
                            (wallets (snd got))) = 0")
      case True
      then have "sys2 = sys1"
        using body found by (simp add: crawlBody_def Let_def sys1_def)
      then show ?thesis using st1 by simp
    next
      case False
      then have run: "crawlQueries bi wallet (startHeightOf sys1 (wallet_id wallet))
                        (eventQueries wallet) sys1 outcomes = Some (sys2, rest)"
        using body found by (simp add: crawlBody_def Let_def sys1_def)
      have "list_all (recorded bi wallet (store sys1)) (fetchedEnvelopes outcomes)"
        using assms(2) st1 by simp
      from crawlQueries_recorded [OF this run] show ?thesis using st1 by simp
    qed
    then show ?thesis
      using fin by (simp add: crawlCleanup_def release_def updateWallets_def)
  qed
qed

lemma commitPages_records:
  "commitPages bi wallet tbl out' pages = Some (tbl1, out1) \<Longrightarrow>
     keepsRecords tbl tbl1 \<and>
     list_all (recorded bi wallet tbl1) (concat pages) \<and>
     list_all (\<lambda>t. \<not> (txhash t \<noteq> [] \<and> height t \<noteq> None \<and> interpretTx bi t = None)) (concat pages)"
proof (induction pages arbitrary: tbl out')
  case Nil
  then show ?case by (simp add: keepsRecords_refl)
next
  case (Cons page_txs pages)
  then obtain saved tbl' out'' where
    one: "runPage bi wallet tbl out' page_txs = (Some saved, tbl', out'')"
    and more: "commitPages bi wallet tbl' out'' pages = Some (tbl1, out1)"
    by (auto split: prod.splits option.splits)
  note c = runPage_committed [OF one]
  note ih = Cons.IH [OF more]
  have "keepsRecords tbl tbl1"
    using c(3) ih keepsRecords_trans by blast
  moreover have "list_all (recorded bi wallet tbl1) page_txs"
    unfolding list_all_iff
  proof
    fix x assume "x \<in> set page_txs"
    then have "recorded bi wallet tbl' x" using c(1) by (simp add: list_all_iff)
    then show "recorded bi wallet tbl1 x" using ih by (blast intro: recorded_kept)
  qed
  ultimately show ?case using c(2) ih by simp
qed

lemma commitPages_again:
  assumes "commitPages bi wallet tbl0 out0 pages = Some (tbl1, out1)"
    and "keepsRecords tbl1 tbl"
    and "set again \<subseteq> set (concat pages)"
  shows "list_all (recorded bi wallet tbl) again"
    and "\<not> list_ex (\<lambda>t. txhash t \<noteq> [] \<and> height t \<noteq> None \<and> interpretTx bi t = None) again"
proof -
  note first = commitPages_records [OF assms(1)]
  show "list_all (recorded bi wallet tbl) again"
    unfolding list_all_iff
  proof
    fix x assume "x \<in> set again"
    then have "x \<in> set (concat pages)" using assms(3) by blast
    moreover have "list_all (recorded bi wallet tbl1) (concat pages)" using first by blast
    ultimately have "recorded bi wallet tbl1 x" unfolding list_all_iff by blast
    then show "recorded bi wallet tbl x" using assms(2) by (blast intro: recorded_kept)
  qed
  have "list_all (\<lambda>t. \<not> (txhash t \<noteq> [] \<and> height t \<noteq> None \<and> interpretTx bi t = None))
          (concat pages)" using first by blast
  then show "\<not> list_ex (\<lambda>t. txhash t \<noteq> [] \<and> height t \<noteq> None \<and> interpretTx bi t = None) again"
    unfolding list_all_iff list_ex_iff using assms(3) by blast
qed

lemma commitPages_page_again:
  assumes "commitPages bi wallet tbl0 out0 pages = Some (tbl1, out1)"
    and "keepsRecords tbl1 tbl"
    and "set (fetchedEnvelopes outcomes) \<subseteq> set (concat pages)"
    and "outcome \<in> set outcomes"
  shows "case outcome of
           Threw e \<Rightarrow> True
         | Fetched page_txs \<Rightarrow> runPage bi wallet tbl out' page_txs = (Some 0, tbl, out')"
proof (cases outcome)
  case (Threw e)
  then show ?thesis by simp
next
  case (Fetched page_txs)
  then have sub: "set page_txs \<subseteq> set (concat pages)"
    using assms(3,4) by (fastforce simp: fetchedEnvelopes_def)
  show ?thesis
    using Fetched commitPages_again [OF assms(1,2) sub]
    by (simp add: runPage_recorded)
qed

text \<open>
  Claim C1: crawling an account's history twice over the same chain data stores no record
  and sends no notification beyond those of the first crawl; for each envelope whose pair
  of hash and account id exists in the table of a context, the existence check skips the
  creation, the notification and the increment of the counter of new records.

  The first crawl is a run of pages whose transactions have committed, which leaves the
  tables \<open>tbl1\<close>.  The second crawl starts from tables that keep the records of \<open>tbl1\<close> and
  is given outcomes whose pages hold envelopes of the first run only, in any order, with
  any repetition and any fetch errors between them.  Then the page loop leaves the tables
  and the notifications as they were and each page commits with a count of 0; a whole
  call of \<^verbatim>\<open>backfillWalletHistory\<close> that comes to its end leaves them as they were too.  The
  last two parts are the two existence checks: the state of the page, which holds the
  tables, the counter and the notifications, is returned as it was.
\<close>

theorem crawl_idempotent:
  "(commitPages bi wallet tbl0 out0 pages = Some (tbl1, out1) \<and>
    set (fetchedEnvelopes outcomes) \<subseteq> set (concat pages) \<longrightarrow>
      (keepsRecords tbl1 (db s) \<longrightarrow>
         db (fst (pageLoop bi wallet s outcomes)) = db s
         \<and> out (fst (pageLoop bi wallet s outcomes)) = out s
         \<and> list_all (\<lambda>outcome. case outcome of
                        Threw e \<Rightarrow> True
                      | Fetched page_txs \<Rightarrow>
                          runPage bi wallet (db s) (out s) page_txs = (Some 0, db s, out s))
              outcomes)
      \<and> (keepsRecords tbl1 (store sys) \<and> findWallet sys walletId = Some wallet \<and>
         backfillWalletHistory bi walletId sys outcomes = Some (sys', rest) \<longrightarrow>
           store sys' = store sys \<and> notified sys' = notified sys))
   \<and> (walletTxExists st (txhash t) (wallet_id wallet) \<longrightarrow>
        walletPart bi wallet t h txParserResult parsedAll st = Some st)
   \<and> (validatorTxExists st (txhash t) (wallet_id wallet) \<longrightarrow>
        validatorPart bi wallet t h txParserResult parsedAll st = Some st)"
proof (intro conjI impI)
  assume a: "commitPages bi wallet tbl0 out0 pages = Some (tbl1, out1) \<and>
    set (fetchedEnvelopes outcomes) \<subseteq> set (concat pages)"
  assume k: "keepsRecords tbl1 (db s)"
  have all: "list_all (recorded bi wallet (db s)) (fetchedEnvelopes outcomes)"
    using a k commitPages_again(1) by blast
  show "db (fst (pageLoop bi wallet s outcomes)) = db s"
    and "out (fst (pageLoop bi wallet s outcomes)) = out s"
    using pageLoop_recorded [OF all] by simp_all
  show "list_all (\<lambda>outcome. case outcome of
                     Threw e \<Rightarrow> True
                   | Fetched page_txs \<Rightarrow>
                       runPage bi wallet (db s) (out s) page_txs = (Some 0, db s, out s))
           outcomes"
    unfolding list_all_iff using a k commitPages_page_again by blast
next
  assume a: "commitPages bi wallet tbl0 out0 pages = Some (tbl1, out1) \<and>
    set (fetchedEnvelopes outcomes) \<subseteq> set (concat pages)"
  assume b: "keepsRecords tbl1 (store sys) \<and> findWallet sys walletId = Some wallet \<and>
         backfillWalletHistory bi walletId sys outcomes = Some (sys', rest)"
  have all: "list_all (recorded bi wallet (store sys)) (fetchedEnvelopes outcomes)"
    using a b commitPages_again(1) by blast
  show "store sys' = store sys" and "notified sys' = notified sys"
    using backfillWalletHistory_recorded [OF _ all] b by blast+
next
  assume "walletTxExists st (txhash t) (wallet_id wallet)"
  then show "walletPart bi wallet t h txParserResult parsedAll st = Some st"
    by (simp add: walletPart_recorded)
next
  assume "validatorTxExists st (txhash t) (wallet_id wallet)"
  then show "validatorPart bi wallet t h txParserResult parsedAll st = Some st"
    by (simp add: validatorPart_recorded)
qed

theorem crawl_idempotent_witness:
  "let bi = \<lparr>decodePacket = (\<lambda>d. None), stringToIndex = (\<lambda>s. None), inheritedMember = (\<lambda>k. None),
     numberToString = (\<lambda>n. [])\<rparr>;
       wallet = \<lparr>wallet_id = 1, label = ''a'', address = ''d1'', valAddress = Some ''v1'',
                 withdrawalAddress = None, isSyncing = False, lastSyncHeartbeat = None,
                 webhookUrl = Some ''hook'', notifyWalletTx = True, notifyValidatorTx = True\<rparr>;
       t = \<lparr>txhash = ''H'', height = Some 5,
            tx = Some [JObj [(''@type'', JStr ''/cosmos.distribution.v1beta1.MsgWithdrawDelegatorReward''),
                             (''delegator_address'', JStr ''d1''),
                             (''validator_address'', JStr ''v1'')],
                       JObj [(''@type'', JStr ''/cosmos.distribution.v1beta1.MsgWithdrawValidatorCommission''),
                             (''validator_address'', JStr ''v1'')]],
            logs = None,
            events = Some [\<lparr>ev_type = ''withdraw_rewards'',
                             attributes = Some [\<lparr>attr_key = ''amount'', attr_value = ''100denom''\<rparr>]\<rparr>,
                           \<lparr>ev_type = ''withdraw_commission'',
                             attributes = Some [\<lparr>attr_key = ''amount'', attr_value = ''50denom''\<rparr>]\<rparr>]\<rparr>;
       tbl0 = \<lparr>walletTransactions = [], validatorTransactions = []\<rparr>;
       walletRows = [\<lparr>wt_hash = ''H'', wt_height = 5, wt_type = ''BatchWithdraw(Reward+Commission)'',
                      wt_amount = Some ''150denom (R:100+C:50)'', wt_sender = Some ''d1'',
                      wt_recipient = None, wt_direction = ''OUT'', wt_walletId = 1\<rparr>];
       validatorRows = [\<lparr>vt_hash = ''H'', vt_height = 5,
                         vt_type = ''MsgWithdrawDelegatorReward+MsgWithdrawValidatorCommission(batch:2)'',
                         vt_amount = None, vt_delegator = Some ''d1'', vt_validator = Some ''v1'',
                         vt_dstValidator = None, vt_category = ''own'', vt_walletId = 1\<rparr>];
       tbl1 = \<lparr>walletTransactions = walletRows, validatorTransactions = validatorRows\<rparr>;
       out1 = [\<lparr>note_hash = ''H'', note_type = ''BatchWithdraw(Reward+Commission)'',
                note_amount = JStr ''150denom (R:100+C:50)'', note_category = ''wallet''\<rparr>];
       outcomes = [Fetched [t], Threw (AxiosError (Some 429)), Fetched [], Fetched [],
                   Fetched [t, t], Fetched [], Fetched [t]];
       s = \<lparr>running = True, iterHeight = 5, page = 1, consecutiveErrors = 0,
            db = tbl1, out = out1, now = 0\<rparr>;
       sys = \<lparr>wallets = [wallet], store = tbl1, locks = [], notified = out1, clock = 0\<rparr>;
       sys' = \<lparr>wallets = [wallet\<lparr>lastSyncHeartbeat := Some 5600\<rparr>], store = tbl1, locks = [],
               notified = out1, clock = 5600\<rparr>;
       st = \<lparr>walletTransactions = walletRows, validatorTransactions = validatorRows,
             newTxCount = 0, sent = []\<rparr>;
       txParserResult =
         \<lparr>type = ''BatchWithdraw(Reward+Commission)'', amount = JStr ''150denom (R:100+C:50)'',
          sender = JStr ''d1'', recipient = JNull, delegator = JStr ''d1'',
          validator = JStr ''v1'', dstValidator = JNull, parsed_height = 0, parsed_hash = []\<rparr>;
       parsedAll =
         [\<lparr>type = ''MsgWithdrawDelegatorReward'', amount = JNull, sender = JStr ''d1'',
           recipient = JNull, delegator = JStr ''d1'', validator = JStr ''v1'',
           dstValidator = JNull\<rparr>,
          \<lparr>type = ''MsgWithdrawValidatorCommission'', amount = JNull, sender = JNull,
           recipient = JNull, delegator = JNull, validator = JStr ''v1'',
           dstValidator = JNull\<rparr>]
   in commitPages bi wallet tbl0 [] [[t]] = Some (tbl1, out1)
      \<and> set (fetchedEnvelopes outcomes) \<subseteq> set (concat [[t]])
      \<and> keepsRecords tbl1 (db s)
      \<and> keepsRecords tbl1 (store sys)
      \<and> findWallet sys 1 = Some wallet
      \<and> backfillWalletHistory bi 1 sys outcomes = Some (sys', [])
      \<and> walletTxExists st (txhash t) (wallet_id wallet)
      \<and> validatorTxExists st (txhash t) (wallet_id wallet)
      \<and> db (fst (pageLoop bi wallet s outcomes)) = db s
      \<and> out (fst (pageLoop bi wallet s outcomes)) = out s
      \<and> list_all (\<lambda>outcome. case outcome of
                     Threw e \<Rightarrow> True
                   | Fetched page_txs \<Rightarrow>
                       runPage bi wallet (db s) (out s) page_txs = (Some 0, db s, out s))
           outcomes
      \<and> store sys' = store sys
      \<and> notified sys' = notified sys
      \<and> walletPart bi wallet t 5 txParserResult parsedAll st = Some st
      \<and> validatorPart bi wallet t 5 txParserResult parsedAll st = Some st"
proof -
  have twice:
    "commitPages bi wallet tbl0 out0 pages = Some (tbl1, out1) \<Longrightarrow>
     set (fetchedEnvelopes outcomes) \<subseteq> set (concat pages) \<Longrightarrow>
     keepsRecords tbl1 (db s) \<Longrightarrow>
     keepsRecords tbl1 (store sys) \<Longrightarrow>
     findWallet sys walletId = Some wallet \<Longrightarrow>
     backfillWalletHistory bi walletId sys outcomes = Some (sys', rest) \<Longrightarrow>
     walletTxExists st (txhash t) (wallet_id wallet) \<Longrightarrow>
     validatorTxExists st (txhash t) (wallet_id wallet) \<Longrightarrow>
       commitPages bi wallet tbl0 out0 pages = Some (tbl1, out1)
       \<and> set (fetchedEnvelopes outcomes) \<subseteq> set (concat pages)
       \<and> keepsRecords tbl1 (db s)
       \<and> keepsRecords tbl1 (store sys)
       \<and> findWallet sys walletId = Some wallet
       \<and> backfillWalletHistory bi walletId sys outcomes = Some (sys', rest)
       \<and> walletTxExists st (txhash t) (wallet_id wallet)
       \<and> validatorTxExists st (txhash t) (wallet_id wallet)
       \<and> db (fst (pageLoop bi wallet s outcomes)) = db s
       \<and> out (fst (pageLoop bi wallet s outcomes)) = out s
       \<and> list_all (\<lambda>outcome. case outcome of
                      Threw e \<Rightarrow> True
                    | Fetched page_txs \<Rightarrow>
                        runPage bi wallet (db s) (out s) page_txs = (Some 0, db s, out s))
            outcomes
       \<and> store sys' = store sys
       \<and> notified sys' = notified sys
       \<and> walletPart bi wallet t h txParserResult parsedAll st = Some st
       \<and> validatorPart bi wallet t h txParserResult parsedAll st = Some st"
    for bi wallet tbl0 out0 pages tbl1 out1 outcomes s sys walletId sys' rest st t h
      txParserResult parsedAll
    using crawl_idempotent [of bi wallet tbl0 out0 pages tbl1 out1 outcomes s sys walletId
        sys' rest st t h txParserResult parsedAll]
    by blast
  show ?thesis
    unfolding Let_def
    apply (rule twice)
           apply code_simp
          apply (simp add: fetchedEnvelopes_def)
         apply (simp add: keepsRecords_def)
        apply (simp add: keepsRecords_def)
       apply (simp add: findWallet_def)
      apply code_simp
     apply (simp add: walletTxExists_def)
    apply (simp add: validatorTxExists_def)
    done
qed

subsection \<open>The record of a batch withdrawal\<close>

text \<open>The two messages in the shape the chain gives them, as \<^verbatim>\<open>parseMessage\<close> reads them.\<close>

lemma withdraw_parseMessage:
  assumes "a \<noteq> []" "v \<noteq> []"
  shows "parseMessage bi
           (JObj [(''@type'', JStr ''/cosmos.distribution.v1beta1.MsgWithdrawDelegatorReward''),
                  (''delegator_address'', JStr a), (''validator_address'', JStr v)])
         = Some \<lparr>type = ''MsgWithdrawDelegatorReward'', amount = JNull, sender = JStr a,
                 recipient = JNull, delegator = JStr a, validator = JStr v,
                 dstValidator = JNull\<rparr>"
    and "parseMessage bi
           (JObj [(''@type'', JStr ''/cosmos.distribution.v1beta1.MsgWithdrawValidatorCommission''),
                  (''validator_address'', JStr v)])
         = Some \<lparr>type = ''MsgWithdrawValidatorCommission'', amount = JNull, sender = JNull,
                 recipient = JNull, delegator = JNull, validator = JStr v,
                 dstValidator = JNull\<rparr>"
  using assms
  by (simp_all add: parseMessage_def msgType_def get_prop_def or_js_def withdraw_tags
      messageAmount_def has_coin_def Let_def)


lemma withdraw_extractAllMessages:
  assumes "field m1 ''@type'' = JStr ''/cosmos.distribution.v1beta1.MsgWithdrawDelegatorReward''"
    and "field m2 ''@type'' = JStr ''/cosmos.distribution.v1beta1.MsgWithdrawValidatorCommission''"
  shows "extractAllMessages [m1, m2] = Some [m1, m2]"
    and "extractAllMessages [m2, m1] = Some [m2, m1]"
proof -
  have "\<not> nullish m1"
    using assms(1) by (cases m1) simp_all
  moreover have "\<not> nullish m2"
    using assms(2) by (cases m2) simp_all
  ultimately show "extractAllMessages [m1, m2] = Some [m1, m2]"
    and "extractAllMessages [m2, m1] = Some [m2, m1]"
    using assms by (simp_all add: get_prop_def)
qed

lemma aggregateAmounts_null:
  "aggregateAmounts bi [JNull] = Some JNull" "aggregateAmounts bi [JNull, JNull] = Some JNull"
  by (simp_all add: aggregateAmounts_def map_js_def)

lemma batch_includes_withdraw:
  "str_includes ''BatchWithdraw(Reward+Commission)'' ''Withdraw''"
  by code_simp

lemma withdraw_walletRecord:
  assumes r: "type r = ''BatchWithdraw(Reward+Commission)''"
             "amount r = JStr ''150denom (R:100+C:50)''"
             "textColumn (recipient r) \<noteq> None"
    and p: "p = \<lparr>type = ''MsgWithdrawDelegatorReward'', amount = JNull, sender = JStr a,
                 recipient = JNull, delegator = JStr a, validator = JStr v,
                 dstValidator = JNull\<rparr>"
    and a: "address wallet = a"
  shows "\<exists>row notes. walletRecord bi wallet t h r p [] = Some (row, notes)
           \<and> wt_type row = ''BatchWithdraw(Reward+Commission)''
           \<and> wt_amount row = Some ''150denom (R:100+C:50)''"
proof -
  obtain rc where rc: "textColumn (recipient r) = Some rc"
    using r(3) by blast
  have my: "isMyAction wallet p" "\<not> isMyReceipt wallet p"
    using p a by (simp_all add: isMyAction_def isMyReceipt_def split: option.splits)
  show ?thesis
    using r(1,2) rc my p
    by (simp add: walletRecord_def aggregateAmounts_null recordType_def batch_includes_withdraw
        or_js_def Let_def)
qed


lemma withdraw_validatorPart:
  assumes p1: "p1 = \<lparr>type = ''MsgWithdrawDelegatorReward'', amount = JNull, sender = JStr a,
                   recipient = JNull, delegator = JStr a, validator = JStr v,
                   dstValidator = JNull\<rparr>"
    and p2: "p2 = \<lparr>type = ''MsgWithdrawValidatorCommission'', amount = JNull, sender = JNull,
                   recipient = JNull, delegator = JNull, validator = JStr v,
                   dstValidator = JNull\<rparr>"
    and ps: "ps = [p1, p2] \<or> ps = [p2, p1]"
  shows "\<exists>st2. validatorPart bi wallet t h r ps st1 = Some st2
               \<and> walletTransactions st2 = walletTransactions st1"
proof (cases "valAddress wallet")
  case None
  then show ?thesis by (simp add: validatorPart_def)
next
  case (Some va)
  show ?thesis
  proof (cases "va = v")
    case False
    then have "filter (isRelatedToValidator va) ps = []"
      using ps p1 p2 by (auto simp: isRelatedToValidator_def)
    then show ?thesis using Some by (simp add: validatorPart_def)
  next
    case True
    then have f: "filter (isRelatedToValidator va) ps = ps"
      using ps p1 p2 by (auto simp: isRelatedToValidator_def)
    have rec: "\<exists>row notes. validatorRecord bi wallet va t h r x [y] = Some (row, notes)"
      if "x = p1 \<and> y = p2 \<or> x = p2 \<and> y = p1" for x y
      using that p1 p2
      by (auto simp: validatorRecord_def aggregateAmounts_null or_js_def Let_def)
    from ps show ?thesis
    proof
      assume "ps = [p1, p2]"
      moreover obtain row ns where "validatorRecord bi wallet va t h r p1 [p2] = Some (row, ns)"
        using rec [of p1 p2] by blast
      ultimately show ?thesis
        using Some f by (simp add: validatorPart_def)
    next
      assume "ps = [p2, p1]"
      moreover obtain row ns where "validatorRecord bi wallet va t h r p2 [p1] = Some (row, ns)"
        using rec [of p2 p1] by blast
      ultimately show ?thesis
        using Some f by (simp add: validatorPart_def)
    qed
  qed
qed

lemma batch_withdraw_processTx:
  assumes m1: "m1 = JObj [(''@type'', JStr ''/cosmos.distribution.v1beta1.MsgWithdrawDelegatorReward''),
                          (''delegator_address'', JStr a), (''validator_address'', JStr v)]"
    and m2: "m2 = JObj [(''@type'', JStr ''/cosmos.distribution.v1beta1.MsgWithdrawValidatorCommission''),
                        (''validator_address'', JStr v)]"
    and msgs: "tx t = Some [m1, m2] \<or> tx t = Some [m2, m1]"
    and evs: "events t = Some evs"
    and rw: "filter (\<lambda>e. ev_type e = ''withdraw_rewards'') evs = [rw]"
            "attr_value_of rw (\<lambda>a. attr_key a = ''amount'') = Some ''100denom''"
    and cm: "filter (\<lambda>e. ev_type e = ''withdraw_commission'') evs = [cm]"
            "attr_value_of cm (\<lambda>a. attr_key a = ''amount'') = Some ''50denom''"
    and nonempty: "a \<noteq> []" "v \<noteq> []"
    and env: "txhash t \<noteq> []" "height t = Some h"
    and wal: "address wallet = a"
    and fresh: "\<not> walletTxExists st (txhash t) (wallet_id wallet)"
  shows "\<exists>st' row. processTx bi wallet st t = Inr st'
           \<and> walletTransactions st' = walletTransactions st @ [row]
           \<and> wt_hash row = txhash t \<and> wt_walletId row = wallet_id wallet
           \<and> wt_type row = ''BatchWithdraw(Reward+Commission)''
           \<and> wt_amount row = Some ''150denom (R:100+C:50)''"
proof -
  define p1 where "p1 = \<lparr>type = ''MsgWithdrawDelegatorReward'', amount = JNull, sender = JStr a,
                   recipient = JNull, delegator = JStr a, validator = JStr v,
                   dstValidator = JNull\<rparr>"
  define p2 where "p2 = \<lparr>type = ''MsgWithdrawValidatorCommission'', amount = JNull, sender = JNull,
                   recipient = JNull, delegator = JNull, validator = JStr v,
                   dstValidator = JNull\<rparr>"
  have pm: "parseMessage bi m1 = Some p1" "parseMessage bi m2 = Some p2"
    using withdraw_parseMessage [OF nonempty, of bi] by (simp_all add: m1 m2 p1_def p2_def)
  have ty: "field m1 ''@type'' = JStr ''/cosmos.distribution.v1beta1.MsgWithdrawDelegatorReward''"
           "field m2 ''@type'' = JStr ''/cosmos.distribution.v1beta1.MsgWithdrawValidatorCommission''"
    by (simp_all add: m1 m2)
  note ex = withdraw_extractAllMessages [OF ty]
  obtain kvs1 kvs2 where shape: "tx t = Some [JObj kvs1, JObj kvs2]"
    and tags:
      "field (JObj kvs1) ''@type'' = JStr ''/cosmos.distribution.v1beta1.MsgWithdrawDelegatorReward'' \<and>
       field (JObj kvs2) ''@type'' = JStr ''/cosmos.distribution.v1beta1.MsgWithdrawValidatorCommission''
       \<or>
       field (JObj kvs1) ''@type'' = JStr ''/cosmos.distribution.v1beta1.MsgWithdrawValidatorCommission'' \<and>
       field (JObj kvs2) ''@type'' = JStr ''/cosmos.distribution.v1beta1.MsgWithdrawDelegatorReward''"
    using msgs ty m1 m2 by auto
  obtain r where r: "parse bi t = Some r" "type r = ''BatchWithdraw(Reward+Commission)''"
      "amount r = JStr ''150denom (R:100+C:50)''" "textColumn (recipient r) \<noteq> None"
    using parse_batch_withdraw [OF shape tags evs rw cm, of bi] by blast
  obtain ps where ps: "interpretTx bi t = Some (r, ps)" "ps = [p1, p2] \<or> ps = [p2, p1]"
    using msgs ex pm r(1) by (auto simp: interpretTx_def map_js_def)
  have mine: "filter (\<lambda>p. isMyAction wallet p \<or> isMyReceipt wallet p) ps = [p1]"
    using ps(2) wal nonempty
    by (auto simp: p1_def p2_def isMyAction_def isMyReceipt_def split: option.splits)
  obtain row ns where row: "walletRecord bi wallet t h r p1 [] = Some (row, ns)"
      "wt_type row = ''BatchWithdraw(Reward+Commission)''"
      "wt_amount row = Some ''150denom (R:100+C:50)''"
    using withdraw_walletRecord [OF r(2,3,4) p1_def wal, of bi t h] by blast
  define st1 where "st1 = st\<lparr>walletTransactions := walletTransactions st @ [row],
                             newTxCount := newTxCount st + 1, sent := sent st @ ns\<rparr>"
  have w: "walletPart bi wallet t h r ps st = Some st1"
    using mine fresh row(1) by (simp add: walletPart_def st1_def)
  obtain st2 where st2: "validatorPart bi wallet t h r ps st1 = Some st2"
      "walletTransactions st2 = walletTransactions st1"
    using withdraw_validatorPart [OF p1_def p2_def ps(2), of bi wallet t h r st1] by blast
  have "processTx bi wallet st t = Inr st2"
    using env ps(1) w st2(1) by (simp add: processTx_def)
  moreover have "walletTransactions st2 = walletTransactions st @ [row]"
    using st2(2) by (simp add: st1_def)
  moreover have "wt_hash row = txhash t \<and> wt_walletId row = wallet_id wallet"
    using walletRecord_key [OF row(1)] .
  ultimately show ?thesis using row(2,3) by blast
qed

text \<open>
  A transaction of exactly two messages, a \<^verbatim>\<open>MsgWithdrawDelegatorReward\<close> and a
  \<^verbatim>\<open>MsgWithdrawValidatorCommission\<close> in either order, whose \<^verbatim>\<open>events\<close> hold one
  \<^verbatim>\<open>withdraw_rewards\<close> event with the amount \<^verbatim>\<open>100denom\<close> and one \<^verbatim>\<open>withdraw_commission\<close>
  event with the amount \<^verbatim>\<open>50denom\<close>, is interpreted as one result of type
  \<^verbatim>\<open>BatchWithdraw(Reward+Commission)\<close> with the amount \<^verbatim>\<open>150denom (R:100+C:50)\<close>.

  The first part is \<^verbatim>\<open>TxParser.parse\<close>, for messages with any other fields and any other
  events.  The second part is the loop body of the crawl for the two messages as the chain
  sends them (the reward message with its delegator and validator, the commission message
  with its validator), for an account whose address is the delegator and that has no
  wallet record of the hash yet: the body does not throw and adds exactly one row to the
  wallet table, with that type and that amount.
\<close>

lemma batch_withdraw_from_events:
  "tx t = Some [JObj fieldsA, JObj fieldsB] \<and>
   (field (JObj fieldsA) ''@type'' = JStr ''/cosmos.distribution.v1beta1.MsgWithdrawDelegatorReward'' \<and>
    field (JObj fieldsB) ''@type'' = JStr ''/cosmos.distribution.v1beta1.MsgWithdrawValidatorCommission''
    \<or>
    field (JObj fieldsA) ''@type'' = JStr ''/cosmos.distribution.v1beta1.MsgWithdrawValidatorCommission'' \<and>
    field (JObj fieldsB) ''@type'' = JStr ''/cosmos.distribution.v1beta1.MsgWithdrawDelegatorReward'') \<and>
   events t = Some evs \<and>
   filter (\<lambda>e. ev_type e = ''withdraw_rewards'') evs = [rw] \<and>
   attr_value_of rw (\<lambda>a. attr_key a = ''amount'') = Some ''100denom'' \<and>
   filter (\<lambda>e. ev_type e = ''withdraw_commission'') evs = [cm] \<and>
   attr_value_of cm (\<lambda>a. attr_key a = ''amount'') = Some ''50denom''
   \<longrightarrow>
     (\<exists>r. parse bi t = Some r
          \<and> type r = ''BatchWithdraw(Reward+Commission)''
          \<and> amount r = JStr ''150denom (R:100+C:50)'')
     \<and>
     ((let reward = [(''@type'', JStr ''/cosmos.distribution.v1beta1.MsgWithdrawDelegatorReward''),
                     (''delegator_address'', JStr a), (''validator_address'', JStr v)];
           commission = [(''@type'', JStr ''/cosmos.distribution.v1beta1.MsgWithdrawValidatorCommission''),
                         (''validator_address'', JStr v)]
       in fieldsA = reward \<and> fieldsB = commission \<or> fieldsA = commission \<and> fieldsB = reward) \<and>
      a \<noteq> [] \<and> v \<noteq> [] \<and> txhash t \<noteq> [] \<and> height t = Some h \<and> address wallet = a \<and>
      \<not> walletTxExists st (txhash t) (wallet_id wallet)
      \<longrightarrow>
        (\<exists>st' row. processTx bi wallet st t = Inr st'
           \<and> walletTransactions st' = walletTransactions st @ [row]
           \<and> wt_hash row = txhash t \<and> wt_walletId row = wallet_id wallet
           \<and> wt_type row = ''BatchWithdraw(Reward+Commission)''
           \<and> wt_amount row = Some ''150denom (R:100+C:50)''))"
proof (intro impI conjI)
  assume H: "tx t = Some [JObj fieldsA, JObj fieldsB] \<and>
   (field (JObj fieldsA) ''@type'' = JStr ''/cosmos.distribution.v1beta1.MsgWithdrawDelegatorReward'' \<and>
    field (JObj fieldsB) ''@type'' = JStr ''/cosmos.distribution.v1beta1.MsgWithdrawValidatorCommission''
    \<or>
    field (JObj fieldsA) ''@type'' = JStr ''/cosmos.distribution.v1beta1.MsgWithdrawValidatorCommission'' \<and>
    field (JObj fieldsB) ''@type'' = JStr ''/cosmos.distribution.v1beta1.MsgWithdrawDelegatorReward'') \<and>
   events t = Some evs \<and>
   filter (\<lambda>e. ev_type e = ''withdraw_rewards'') evs = [rw] \<and>
   attr_value_of rw (\<lambda>a. attr_key a = ''amount'') = Some ''100denom'' \<and>
   filter (\<lambda>e. ev_type e = ''withdraw_commission'') evs = [cm] \<and>
   attr_value_of cm (\<lambda>a. attr_key a = ''amount'') = Some ''50denom''"
  then have shape: "tx t = Some [JObj fieldsA, JObj fieldsB]"
    and tags: "field (JObj fieldsA) ''@type'' = JStr ''/cosmos.distribution.v1beta1.MsgWithdrawDelegatorReward'' \<and>
    field (JObj fieldsB) ''@type'' = JStr ''/cosmos.distribution.v1beta1.MsgWithdrawValidatorCommission''
    \<or>
    field (JObj fieldsA) ''@type'' = JStr ''/cosmos.distribution.v1beta1.MsgWithdrawValidatorCommission'' \<and>
    field (JObj fieldsB) ''@type'' = JStr ''/cosmos.distribution.v1beta1.MsgWithdrawDelegatorReward''"
    and evs: "events t = Some evs"
    and rw: "filter (\<lambda>e. ev_type e = ''withdraw_rewards'') evs = [rw]"
            "attr_value_of rw (\<lambda>a. attr_key a = ''amount'') = Some ''100denom''"
    and cm: "filter (\<lambda>e. ev_type e = ''withdraw_commission'') evs = [cm]"
            "attr_value_of cm (\<lambda>a. attr_key a = ''amount'') = Some ''50denom''"
    by blast+
  show "\<exists>r. parse bi t = Some r
          \<and> type r = ''BatchWithdraw(Reward+Commission)''
          \<and> amount r = JStr ''150denom (R:100+C:50)''"
    using parse_batch_withdraw [OF shape tags evs rw cm, of bi] by blast
  assume R: "(let reward = [(''@type'', JStr ''/cosmos.distribution.v1beta1.MsgWithdrawDelegatorReward''),
                     (''delegator_address'', JStr a), (''validator_address'', JStr v)];
           commission = [(''@type'', JStr ''/cosmos.distribution.v1beta1.MsgWithdrawValidatorCommission''),
                         (''validator_address'', JStr v)]
       in fieldsA = reward \<and> fieldsB = commission \<or> fieldsA = commission \<and> fieldsB = reward) \<and>
      a \<noteq> [] \<and> v \<noteq> [] \<and> txhash t \<noteq> [] \<and> height t = Some h \<and> address wallet = a \<and>
      \<not> walletTxExists st (txhash t) (wallet_id wallet)"
  define m1 where "m1 = JObj [(''@type'', JStr ''/cosmos.distribution.v1beta1.MsgWithdrawDelegatorReward''),
                          (''delegator_address'', JStr a), (''validator_address'', JStr v)]"
  define m2 where "m2 = JObj [(''@type'', JStr ''/cosmos.distribution.v1beta1.MsgWithdrawValidatorCommission''),
                        (''validator_address'', JStr v)]"
  have msgs: "tx t = Some [m1, m2] \<or> tx t = Some [m2, m1]"
    using R shape unfolding Let_def m1_def m2_def by blast
  have rest: "a \<noteq> []" "v \<noteq> []" "txhash t \<noteq> []" "height t = Some h" "address wallet = a"
    "\<not> walletTxExists st (txhash t) (wallet_id wallet)"
    using R by blast+
  show "\<exists>st' row. processTx bi wallet st t = Inr st'
           \<and> walletTransactions st' = walletTransactions st @ [row]
           \<and> wt_hash row = txhash t \<and> wt_walletId row = wallet_id wallet
           \<and> wt_type row = ''BatchWithdraw(Reward+Commission)''
           \<and> wt_amount row = Some ''150denom (R:100+C:50)''"
    by (rule batch_withdraw_processTx [OF m1_def m2_def msgs evs rw cm rest])
qed

text \<open>An envelope that meets the conditions.\<close>

lemma batch_withdraw_from_events_example:
  "let bi = \<lparr>decodePacket = (\<lambda>d. None), stringToIndex = (\<lambda>s. None), inheritedMember = (\<lambda>k. None),
     numberToString = (\<lambda>n. [])\<rparr>;
       kvs1 = [(''@type'', JStr ''/cosmos.distribution.v1beta1.MsgWithdrawDelegatorReward''),
               (''delegator_address'', JStr ''d1''), (''validator_address'', JStr ''v1'')];
       kvs2 = [(''@type'', JStr ''/cosmos.distribution.v1beta1.MsgWithdrawValidatorCommission''),
               (''validator_address'', JStr ''v1'')];
       rw = \<lparr>ev_type = ''withdraw_rewards'',
              attributes = Some [\<lparr>attr_key = ''amount'', attr_value = ''100denom''\<rparr>,
                                 \<lparr>attr_key = ''validator'', attr_value = ''v1''\<rparr>]\<rparr>;
       cm = \<lparr>ev_type = ''withdraw_commission'',
              attributes = Some [\<lparr>attr_key = ''amount'', attr_value = ''50denom''\<rparr>]\<rparr>;
       evs = [\<lparr>ev_type = ''message'', attributes = None\<rparr>, rw, cm];
       t = \<lparr>txhash = ''H'', height = Some 5, tx = Some [JObj kvs1, JObj kvs2], logs = None,
            events = Some evs\<rparr>;
       wallet = \<lparr>wallet_id = 1, label = ''a'', address = ''d1'', valAddress = Some ''v1'',
                 withdrawalAddress = None, isSyncing = True, lastSyncHeartbeat = None,
                 webhookUrl = None, notifyWalletTx = False, notifyValidatorTx = False\<rparr>;
       st = \<lparr>walletTransactions = [], validatorTransactions = [], newTxCount = 0, sent = []\<rparr>
   in (\<exists>r. parse bi t = Some r
          \<and> type r = ''BatchWithdraw(Reward+Commission)''
          \<and> amount r = JStr ''150denom (R:100+C:50)'')
      \<and> (\<exists>st' row. processTx bi wallet st t = Inr st'
           \<and> walletTransactions st' = walletTransactions st @ [row]
           \<and> wt_hash row = txhash t \<and> wt_walletId row = wallet_id wallet
           \<and> wt_type row = ''BatchWithdraw(Reward+Commission)''
           \<and> wt_amount row = Some ''150denom (R:100+C:50)'')"
  unfolding Let_def
  using batch_withdraw_from_events
    [where bi = "\<lparr>decodePacket = (\<lambda>d. None), stringToIndex = (\<lambda>s. None),
                   inheritedMember = (\<lambda>k. None),
     numberToString = (\<lambda>n. [])\<rparr>"
       and fieldsA = "[(''@type'', JStr ''/cosmos.distribution.v1beta1.MsgWithdrawDelegatorReward''),
               (''delegator_address'', JStr ''d1''), (''validator_address'', JStr ''v1'')]"
       and fieldsB = "[(''@type'', JStr ''/cosmos.distribution.v1beta1.MsgWithdrawValidatorCommission''),
               (''validator_address'', JStr ''v1'')]"
       and rw = "\<lparr>ev_type = ''withdraw_rewards'',
              attributes = Some [\<lparr>attr_key = ''amount'', attr_value = ''100denom''\<rparr>,
                                 \<lparr>attr_key = ''validator'', attr_value = ''v1''\<rparr>]\<rparr>"
       and cm = "\<lparr>ev_type = ''withdraw_commission'',
              attributes = Some [\<lparr>attr_key = ''amount'', attr_value = ''50denom''\<rparr>]\<rparr>"
       and evs = "[\<lparr>ev_type = ''message'', attributes = None\<rparr>,
                   \<lparr>ev_type = ''withdraw_rewards'',
              attributes = Some [\<lparr>attr_key = ''amount'', attr_value = ''100denom''\<rparr>,
                                 \<lparr>attr_key = ''validator'', attr_value = ''v1''\<rparr>]\<rparr>,
                   \<lparr>ev_type = ''withdraw_commission'',
              attributes = Some [\<lparr>attr_key = ''amount'', attr_value = ''50denom''\<rparr>]\<rparr>]"
       and a = "''d1''" and v = "''v1''" and h = 5
       and t = "\<lparr>txhash = ''H'', height = Some 5,
            tx = Some [JObj [(''@type'', JStr ''/cosmos.distribution.v1beta1.MsgWithdrawDelegatorReward''),
               (''delegator_address'', JStr ''d1''), (''validator_address'', JStr ''v1'')],
                       JObj [(''@type'', JStr ''/cosmos.distribution.v1beta1.MsgWithdrawValidatorCommission''),
               (''validator_address'', JStr ''v1'')]], logs = None,
            events = Some [\<lparr>ev_type = ''message'', attributes = None\<rparr>,
                   \<lparr>ev_type = ''withdraw_rewards'',
              attributes = Some [\<lparr>attr_key = ''amount'', attr_value = ''100denom''\<rparr>,
                                 \<lparr>attr_key = ''validator'', attr_value = ''v1''\<rparr>]\<rparr>,
                   \<lparr>ev_type = ''withdraw_commission'',
              attributes = Some [\<lparr>attr_key = ''amount'', attr_value = ''50denom''\<rparr>]\<rparr>]\<rparr>"
       and wallet = "\<lparr>wallet_id = 1, label = ''a'', address = ''d1'', valAddress = Some ''v1'',
                 withdrawalAddress = None, isSyncing = True, lastSyncHeartbeat = None,
                 webhookUrl = None, notifyWalletTx = False, notifyValidatorTx = False\<rparr>"
       and st = "\<lparr>walletTransactions = [], validatorTransactions = [], newTxCount = 0, sent = []\<rparr>"]
  by (simp add: Let_def attr_value_of_def find_attr_def walletTxExists_def)

text \<open>
  Claim C5 says that a transaction of a reward withdrawal and a commission withdrawal whose
  event log carries \<^verbatim>\<open>100denom\<close> and \<^verbatim>\<open>50denom\<close> is interpreted with the amount
  \<^verbatim>\<open>150denom (R:100+C:50)\<close>.  The withdrawal branch of \<^verbatim>\<open>parseBatchTx\<close> takes the amount
  from \<^verbatim>\<open>enhanceWithdrawData\<close>, which reads \<^verbatim>\<open>txResponse.events\<close> only, and returns without
  the fallback to \<^verbatim>\<open>txResponse.logs\<close> that the path of a single message and the default
  batch branch have.  For an envelope without \<^verbatim>\<open>events\<close> the amount is \<^verbatim>\<open>null\<close> whatever the
  logs hold; with the two events in the log, the row stored for the delegator has the
  amount \<^verbatim>\<open>0\<close>; a single reward message with the same log gets \<^verbatim>\<open>150denom\<close> from the
  logs.
\<close>

theorem batch_withdraw_ignores_logs:
  "map_option amount (parse bi
     \<lparr>txhash = h, height = ht,
      tx = Some [JObj [(''@type'', JStr ''/cosmos.distribution.v1beta1.MsgWithdrawDelegatorReward''),
                       (''delegator_address'', JStr ''cosmos1delegator''),
                       (''validator_address'', JStr ''cosmosvaloper1validator'')],
                 JObj [(''@type'', JStr ''/cosmos.distribution.v1beta1.MsgWithdrawValidatorCommission''),
                       (''validator_address'', JStr ''cosmosvaloper1validator'')]],
      logs = lg, events = None\<rparr>)
     = Some JNull
   \<and> processTx bi
       \<lparr>wallet_id = 1, label = ''a'', address = ''cosmos1delegator'', valAddress = None,
        withdrawalAddress = None, isSyncing = True, lastSyncHeartbeat = None,
        webhookUrl = None, notifyWalletTx = False, notifyValidatorTx = False\<rparr>
       \<lparr>walletTransactions = [], validatorTransactions = [], newTxCount = 0, sent = []\<rparr>
       \<lparr>txhash = ''H'', height = Some 5,
        tx = Some [JObj [(''@type'', JStr ''/cosmos.distribution.v1beta1.MsgWithdrawDelegatorReward''),
                         (''delegator_address'', JStr ''cosmos1delegator''),
                         (''validator_address'', JStr ''cosmosvaloper1validator'')],
                   JObj [(''@type'', JStr ''/cosmos.distribution.v1beta1.MsgWithdrawValidatorCommission''),
                         (''validator_address'', JStr ''cosmosvaloper1validator'')]],
        logs = Some [\<lparr>log_events = Some
                 [\<lparr>ev_type = ''withdraw_rewards'',
                   attributes = Some [\<lparr>attr_key = ''amount'', attr_value = ''100denom''\<rparr>]\<rparr>,
                  \<lparr>ev_type = ''withdraw_commission'',
                   attributes = Some [\<lparr>attr_key = ''amount'', attr_value = ''50denom''\<rparr>]\<rparr>]\<rparr>],
        events = None\<rparr>
     = Inr \<lparr>walletTransactions =
             [\<lparr>wt_hash = ''H'', wt_height = 5, wt_type = ''BatchWithdraw(Reward+Commission)'',
               wt_amount = Some ''0'', wt_sender = Some ''cosmos1delegator'',
               wt_recipient = None, wt_direction = ''OUT'', wt_walletId = 1\<rparr>],
            validatorTransactions = [], newTxCount = 1, sent = []\<rparr>
   \<and> map_option amount (parse bi
       \<lparr>txhash = h, height = ht,
        tx = Some [JObj [(''@type'', JStr ''/cosmos.distribution.v1beta1.MsgWithdrawDelegatorReward''),
                         (''delegator_address'', JStr ''cosmos1delegator''),
                         (''validator_address'', JStr ''cosmosvaloper1validator'')]],
        logs = Some [\<lparr>log_events = Some
                 [\<lparr>ev_type = ''withdraw_rewards'',
                   attributes = Some [\<lparr>attr_key = ''amount'', attr_value = ''100denom''\<rparr>]\<rparr>,
                  \<lparr>ev_type = ''withdraw_commission'',
                   attributes = Some [\<lparr>attr_key = ''amount'', attr_value = ''50denom''\<rparr>]\<rparr>]\<rparr>],
        events = None\<rparr>)
     = Some (JStr ''150denom'')"
  by code_simp

end
